theory Spec2Isabelle
  imports
    Main
    "HOL-Library.Char_ord"
    "HOL-Library.List_Lexorder"
    "HOL-Library.Multiset"
    "HOL-Library.Product_Lexorder"
    "HOL-Library.Sublist"
begin

section \<open>JavaScript values\<close>

text \<open>
  The bridge reads the remote store's answers as parsed JSON (\<^verbatim>\<open>res.json()\<close>) and
  types them \<^verbatim>\<open>any\<close>. A value of that type is one of the JSON shapes or
  \<^verbatim>\<open>undefined\<close>, which is what reading a property that is not there gives.

  A JavaScript string is a sequence of UTF-16 code units; it is written here as a
  \<^typ>\<open>string\<close>, one \<^typ>\<open>char\<close> for each code unit, so that \<^const>\<open>length\<close>
  counts what \<^verbatim>\<open>.length\<close> counts. A number is carried by its rendering
  (\<^verbatim>\<open>String(n)\<close>): the two zeros render as \<^verbatim>\<open>0\<close>, and no function below
  computes with a number, it only tests it for truth and prints it.
\<close>

datatype jv =
    JUndef
  | JNull
  | JBool bool
  | JNum string
  | JStr string
  | JArr "jv list"
  | JObj "(string \<times> jv) list"

text \<open>
  The exceptions of the bridge. Three of them carry the text the remote's \<^verbatim>\<open>message\<close>
  printed as when the error message was put together; a failed creation carries the
  answer whose JSON text its message quotes.
\<close>

datatype error =
    TypeError
  | ResolveFailed string
  | NoDataSources
  | QueryError string
  | NoApplication
  | CreationFailed jv
  | StatusUpdateFailed string

text \<open>Sequencing of computations that may throw: the first exception ends the run.\<close>

fun ebind :: "'e + 'a \<Rightarrow> ('a \<Rightarrow> 'e + 'b) \<Rightarrow> 'e + 'b" where
  "ebind (Inl e) f = Inl e"
| "ebind (Inr x) f = f x"

text \<open>\<^verbatim>\<open>xs.map(f)\<close> for a callback that may throw: elements are visited in order.\<close>

fun emap :: "('a \<Rightarrow> 'e + 'b) \<Rightarrow> 'a list \<Rightarrow> 'e + 'b list" where
  "emap f [] = Inr []"
| "emap f (x # xs) =
     (case f x of
        Inl e \<Rightarrow> Inl e
      | Inr y \<Rightarrow> (case emap f xs of Inl e \<Rightarrow> Inl e | Inr ys \<Rightarrow> Inr (y # ys)))"

text \<open>Truthiness (\<^verbatim>\<open>!v\<close> is its negation) and the test of \<^verbatim>\<open>??\<close> and \<^verbatim>\<open>?.\<close>.\<close>

fun truthy :: "jv \<Rightarrow> bool" where
  "truthy JUndef = False"
| "truthy JNull = False"
| "truthy (JBool b) = b"
| "truthy (JNum s) = (s \<noteq> ''0'' \<and> s \<noteq> ''NaN'')"
| "truthy (JStr s) = (s \<noteq> [])"
| "truthy (JArr xs) = True"
| "truthy (JObj kvs) = True"

fun nullish :: "jv \<Rightarrow> bool" where
  "nullish JUndef = True"
| "nullish JNull = True"
| "nullish v = False"

definition coalesce :: "jv \<Rightarrow> jv \<Rightarrow> jv" where
  \<comment> \<open>\<^verbatim>\<open>a ?? b\<close>\<close>
  "coalesce a b = (if nullish a then b else a)"

text \<open>
  \<^verbatim>\<open>v.k\<close> for the property names the bridge reads (\<^verbatim>\<open>type\<close>, \<^verbatim>\<open>name\<close>,
  \<^verbatim>\<open>id\<close>, \<^verbatim>\<open>results\<close>, ...), none of which a string, number, boolean or array
  has: reading from \<^verbatim>\<open>null\<close> or \<^verbatim>\<open>undefined\<close> throws, an object answers
  with the value held under the key, everything else with \<^verbatim>\<open>undefined\<close>.
\<close>

fun get :: "jv \<Rightarrow> string \<Rightarrow> error + jv" where
  "get JUndef k = Inl TypeError"
| "get JNull k = Inl TypeError"
| "get (JObj kvs) k = (case map_of kvs k of None \<Rightarrow> Inr JUndef | Some v \<Rightarrow> Inr v)"
| "get v k = Inr JUndef"

definition opt_get :: "jv \<Rightarrow> string \<Rightarrow> error + jv" where
  \<comment> \<open>\<^verbatim>\<open>v?.k\<close>\<close>
  "opt_get v k = (if nullish v then Inr JUndef else get v k)"

text \<open>
  \<^verbatim>\<open>v.map(f)\<close>: only an array has the method; calling it on anything else throws
  (\<^verbatim>\<open>v.map is not a function\<close>).
\<close>

fun js_map :: "(jv \<Rightarrow> error + jv) \<Rightarrow> jv \<Rightarrow> error + jv list" where
  "js_map f (JArr xs) = emap f xs"
| "js_map f v = Inl TypeError"

text \<open>
  The conversion to a string that a template literal, \<^verbatim>\<open>join\<close> and
  \<^verbatim>\<open>localeCompare\<close> apply. A primitive prints as itself; an array prints as the
  \<^verbatim>\<open>join(",")\<close> of its elements; an object prints as \<^verbatim>\<open>[object Object]\<close> through
  the method it inherits, unless it has a key \<^verbatim>\<open>toString\<close> of its own: a parsed
  value under that key cannot be called, and the conversion throws.
  \<^verbatim>\<open>xs.join(sep)\<close> prints \<^verbatim>\<open>undefined\<close> and \<^verbatim>\<open>null\<close> elements as the empty
  string and converts every other element; \<open>rendered\<close> gives the pieces it puts
  together.
\<close>

fun intercalate :: "string \<Rightarrow> string list \<Rightarrow> string" where
  "intercalate sep [] = []"
| "intercalate sep [s] = s"
| "intercalate sep (s # t # ss) = s @ sep @ intercalate sep (t # ss)"

fun toString :: "jv \<Rightarrow> error + string"
  and rendered :: "jv list \<Rightarrow> error + string list" where
  "toString JUndef = Inr ''undefined''"
| "toString JNull = Inr ''null''"
| "toString (JBool b) = Inr (if b then ''true'' else ''false'')"
| "toString (JNum s) = Inr s"
| "toString (JStr s) = Inr s"
| "toString (JArr xs) =
     (case rendered xs of Inl e \<Rightarrow> Inl e | Inr ss \<Rightarrow> Inr (intercalate '','' ss))"
| "toString (JObj kvs) =
     (if map_of kvs ''toString'' = None then Inr ''[object Object]'' else Inl TypeError)"
| "rendered [] = Inr []"
| "rendered (x # xs) =
     (case (if nullish x then Inr [] else toString x) of
        Inl e \<Rightarrow> Inl e
      | Inr s \<Rightarrow> (case rendered xs of Inl e \<Rightarrow> Inl e | Inr ss \<Rightarrow> Inr (s # ss)))"

definition js_join :: "string \<Rightarrow> jv list \<Rightarrow> error + string" where
  "js_join sep xs = (case rendered xs of Inl e \<Rightarrow> Inl e | Inr ss \<Rightarrow> Inr (intercalate sep ss))"

definition fail_with :: "(string \<Rightarrow> error) \<Rightarrow> jv \<Rightarrow> error + 'a" where
  \<comment> \<open>\<^verbatim>\<open>throw new Error(`...: ${m}`)\<close>: printing \<open>m\<close> comes first, and may itself throw.\<close>
  "fail_with failure m = (case toString m of Inl e \<Rightarrow> Inl e | Inr s \<Rightarrow> Inl (failure s))"

text \<open>
  What \<^verbatim>\<open>JSON.stringify\<close> makes of a value, read back: inside an object a key whose
  value is \<^verbatim>\<open>undefined\<close> is left out, inside an array \<^verbatim>\<open>undefined\<close> is written
  \<^verbatim>\<open>null\<close>, and so is a number that is not finite.
\<close>

fun jsonify :: "jv \<Rightarrow> jv"
  and jsonify_elems :: "jv list \<Rightarrow> jv list"
  and jsonify_props :: "(string \<times> jv) list \<Rightarrow> (string \<times> jv) list" where
  "jsonify JUndef = JNull"
| "jsonify JNull = JNull"
| "jsonify (JBool b) = JBool b"
| "jsonify (JNum s) =
     (if s = ''NaN'' \<or> s = ''Infinity'' \<or> s = ''-Infinity'' then JNull else JNum s)"
| "jsonify (JStr s) = JStr s"
| "jsonify (JArr xs) = JArr (jsonify_elems xs)"
| "jsonify (JObj kvs) = JObj (jsonify_props kvs)"
| "jsonify_elems [] = []"
| "jsonify_elems (x # xs) = jsonify x # jsonify_elems xs"
| "jsonify_props [] = []"
| "jsonify_props ((k, v) # kvs) =
     (if v = JUndef then jsonify_props kvs else (k, jsonify v) # jsonify_props kvs)"

text \<open>
  \<^verbatim>\<open>s.substring(a, b)\<close> with non-negative arguments: both are clamped to the length
  and swapped when \<^verbatim>\<open>a > b\<close>.
\<close>

definition substring :: "'a list \<Rightarrow> nat \<Rightarrow> nat \<Rightarrow> 'a list" where
  "substring s a b =
     (let a' = min a (length s); b' = min b (length s);
          lo = min a' b'; hi = max a' b'
      in take (hi - lo) (drop lo s))"

section \<open>Process configuration\<close>

text \<open>
  What the module reads from the environment at start-up. The variant of the bridge in
  \<^verbatim>\<open>scripts/notion-bridge.ts\<close> fixes the application tag and the team map in the code;
  the other copy of the bridge reads both from the environment: an unset variable is the
  empty string, and the team map is the object the variable's JSON denotes, empty when
  the variable is unset or does not parse. The model takes that JSON to be an object, as
  the configuration asks; its values are whatever the JSON holds.
\<close>

record env =
  NOTION_SHIPYARD_DB_ID :: string
  NOTION_AI_SQUAD_USER_ID :: string
  TARGET_APP_env :: string
  TEAM_USERS_env :: "(string \<times> jv) list"

definition TARGET_APP :: string where
  "TARGET_APP = ''Retail Intelligence Insights''"

definition TEAM_USERS :: "(string \<times> jv) list" where
  "TEAM_USERS =
     [(''Marco Lanzi'', JStr ''72881aba-e6de-4b18-8673-4f51f5de1eec''),
      (''Davide Bolognini'', JStr ''2bed872b-594c-8136-8470-0002b1b2076b''),
      (''Mara Pescione'', JStr ''2c6d872b-594c-811d-b980-0002f2ae5bf1'')]"

text \<open>
  \<^verbatim>\<open>TEAM_USERS[name]\<close>: the map is a plain object, so a name that is not one of its
  keys still finds what every object inherits (\<^verbatim>\<open>constructor\<close>,
  \<^verbatim>\<open>toString\<close>, ...), a method or, under \<^verbatim>\<open>__proto__\<close>, the prototype itself:
  a value that is truthy and is no JSON value.
\<close>

definition Object_prototype :: "string list" where
  "Object_prototype =
     [''constructor'', ''__defineGetter__'', ''__defineSetter__'', ''hasOwnProperty'',
      ''__lookupGetter__'', ''__lookupSetter__'', ''isPrototypeOf'', ''propertyIsEnumerable'',
      ''toString'', ''valueOf'', ''__proto__'', ''toLocaleString'']"

datatype member = Own jv | Inherited string

definition team_member :: "(string \<times> jv) list \<Rightarrow> string \<Rightarrow> member option" where
  "team_member team k =
     (case map_of team k of
        Some v \<Rightarrow> Some (Own v)
      | None \<Rightarrow> if k \<in> set Object_prototype then Some (Inherited k) else None)"

section \<open>Property extractors\<close>

text \<open>
  Each extractor takes \<^verbatim>\<open>props["..."]\<close>, which is \<^verbatim>\<open>undefined\<close> when the page
  has no such property. \<^verbatim>\<open>Inl\<close> is the exception the JavaScript would throw.
\<close>

definition plain_text_of :: "jv \<Rightarrow> error + string option" where
  \<comment> \<open>\<^verbatim>\<open>spans?.map((t) => t.plain_text).join("") || null\<close>\<close>
  "plain_text_of spans =
     (if nullish spans then Inr None
      else ebind (js_map (\<lambda>t. get t ''plain_text'') spans) (\<lambda>parts.
           ebind (js_join [] parts) (\<lambda>s.
             Inr (if s = [] then None else Some s))))"

definition extractPlainText :: "jv \<Rightarrow> error + string option" where
  "extractPlainText prop =
     (if \<not> truthy prop then Inr None
      else ebind (get prop ''type'') (\<lambda>ty.
        if ty = JStr ''rich_text'' then ebind (get prop ''rich_text'') plain_text_of
        else if ty = JStr ''title'' then ebind (get prop ''title'') plain_text_of
        else Inr None))"

definition extractSelect :: "jv \<Rightarrow> error + jv" where
  "extractSelect prop =
     (if \<not> truthy prop then Inr JNull
      else ebind (get prop ''type'') (\<lambda>ty.
        if ty = JStr ''select'' then
          ebind (get prop ''select'') (\<lambda>sel.
          ebind (opt_get sel ''name'') (\<lambda>name. Inr (coalesce name JNull)))
        else if ty = JStr ''status'' then
          ebind (get prop ''status'') (\<lambda>st.
          ebind (opt_get st ''name'') (\<lambda>name. Inr (coalesce name JNull)))
        else Inr JNull))"

definition extractMultiSelect :: "jv \<Rightarrow> error + jv list" where
  "extractMultiSelect prop =
     (if \<not> truthy prop then Inr []
      else ebind (get prop ''type'') (\<lambda>ty.
        if ty = JStr ''multi_select'' then
          ebind (get prop ''multi_select'') (\<lambda>ms.
          js_map (\<lambda>opt. get opt ''name'') (coalesce ms (JArr [])))
        else if ty = JStr ''select'' then
          ebind (get prop ''select'') (\<lambda>sel.
          ebind (opt_get sel ''name'') (\<lambda>name.
            if truthy name then ebind (get sel ''name'') (\<lambda>n. Inr [n]) else Inr []))
        else Inr []))"

definition extractUrl :: "jv \<Rightarrow> error + jv" where
  "extractUrl prop =
     (if \<not> truthy prop then Inr JNull
      else ebind (get prop ''type'') (\<lambda>ty.
        if ty = JStr ''url'' then ebind (get prop ''url'') (\<lambda>u. Inr (coalesce u JNull))
        else Inr JNull))"

definition extractDate :: "jv \<Rightarrow> error + jv" where
  "extractDate prop =
     (if \<not> truthy prop then Inr JNull
      else ebind (get prop ''type'') (\<lambda>ty.
        if ty = JStr ''date'' then
          ebind (get prop ''date'') (\<lambda>d.
          ebind (opt_get d ''start'') (\<lambda>start. Inr (coalesce start JNull)))
        else Inr JNull))"

definition extractRelationIds :: "jv \<Rightarrow> error + jv list" where
  "extractRelationIds prop =
     (if \<not> truthy prop then Inr []
      else ebind (get prop ''type'') (\<lambda>ty.
        if ty \<noteq> JStr ''relation'' then Inr []
        else ebind (get prop ''relation'') (\<lambda>rel.
          js_map (\<lambda>r. get r ''id'') (coalesce rel (JArr [])))))"

definition extractAssigneeIds :: "jv \<Rightarrow> error + jv list" where
  "extractAssigneeIds prop =
     (if \<not> truthy prop then Inr []
      else ebind (get prop ''type'') (\<lambda>ty.
        if ty \<noteq> JStr ''people'' then Inr []
        else ebind (get prop ''people'') (\<lambda>people.
          js_map (\<lambda>p. get p ''id'') (coalesce people (JArr [])))))"

definition isAssignedToAISquad :: "env \<Rightarrow> jv \<Rightarrow> error + bool" where
  \<comment> \<open>With no AI Squad user configured every ticket is accepted.\<close>
  "isAssignedToAISquad ev prop =
     (if NOTION_AI_SQUAD_USER_ID ev = [] then Inr True
      else ebind (extractAssigneeIds prop) (\<lambda>ids.
        Inr (JStr (NOTION_AI_SQUAD_USER_ID ev) \<in> set ids)))"

section \<open>Ticket normalizer\<close>

text \<open>
  The ticket as it exists at run time. The TypeScript interface types \<^verbatim>\<open>status\<close>,
  \<^verbatim>\<open>priority\<close>, \<^verbatim>\<open>area\<close> and the other choice fields as strings, but the values
  come from the remote page through unchecked casts, so they are kept as the JavaScript
  values they are; the text fields are strings because \<^verbatim>\<open>join\<close> made them.
  The older copy of the bridge builds the first record; \<^verbatim>\<open>scripts/notion-bridge.ts\<close>
  adds \<^verbatim>\<open>commit\<close>, \<^verbatim>\<open>feature\<close> and \<^verbatim>\<open>resolved_at\<close>.
\<close>

record ShipyardTicket0 =
  id_t :: jv
  title :: string
  status :: jv
  summary :: "string option"
  spec_url :: jv
  due :: jv
  branch :: "string option"
  area :: jv
  application :: jv
  type_t :: jv
  priority :: jv
  blocked_by :: "jv list"
  blocks :: "jv list"
  created_at :: jv
  updated_at :: jv
  assigned_to_ai_squad :: bool

record ShipyardTicket = ShipyardTicket0 +
  commit :: "string option"
  feature :: jv
  resolved_at :: jv

definition first_or_undef :: "jv list \<Rightarrow> jv" where
  \<comment> \<open>\<^verbatim>\<open>xs[0]\<close>\<close>
  "first_or_undef xs = (case xs of [] \<Rightarrow> JUndef | x # _ \<Rightarrow> x)"

definition or_untitled :: "string option \<Rightarrow> string" where
  \<comment> \<open>\<^verbatim>\<open>t ?? "(untitled)"\<close>\<close>
  "or_untitled t = (case t of None \<Rightarrow> ''(untitled)'' | Some s \<Rightarrow> s)"

definition extractTicket :: "env \<Rightarrow> jv \<Rightarrow> error + ShipyardTicket" where
  "extractTicket ev page =
     ebind (get page ''properties'') (\<lambda>p.
     let props = coalesce p (JObj []) in
     ebind (get props ''Application'') (\<lambda>pApplication.
     ebind (extractMultiSelect pApplication) (\<lambda>apps.
     ebind (get props ''Area'') (\<lambda>pArea.
     ebind (extractMultiSelect pArea) (\<lambda>areas.
     ebind (get page ''id'') (\<lambda>v_id.
     ebind (get props ''Ticket'') (\<lambda>pTicket.
     ebind (extractPlainText pTicket) (\<lambda>v_title.
     ebind (get props ''Status'') (\<lambda>pStatus.
     ebind (extractSelect pStatus) (\<lambda>v_status.
     ebind (get props ''Summary'') (\<lambda>pSummary.
     ebind (extractPlainText pSummary) (\<lambda>v_summary.
     ebind (get props ''Spec URL'') (\<lambda>pSpec.
     ebind (extractUrl pSpec) (\<lambda>v_spec_url.
     ebind (get props ''Due'') (\<lambda>pDue.
     ebind (extractDate pDue) (\<lambda>v_due.
     ebind (get props ''Branch'') (\<lambda>pBranch.
     ebind (extractPlainText pBranch) (\<lambda>v_branch.
     ebind (get props ''Commit'') (\<lambda>pCommit.
     ebind (extractPlainText pCommit) (\<lambda>v_commit.
     ebind (get props ''Feature'') (\<lambda>pFeature.
     ebind (extractSelect pFeature) (\<lambda>v_feature.
     ebind (get props ''Resolved At'') (\<lambda>pResolved.
     ebind (extractDate pResolved) (\<lambda>v_resolved_at.
     ebind (get props ''Type'') (\<lambda>pType.
     ebind (extractSelect pType) (\<lambda>v_type.
     ebind (get props ''Priority'') (\<lambda>pPriority.
     ebind (extractSelect pPriority) (\<lambda>v_priority.
     ebind (get props ''Dependency'') (\<lambda>pDependency.
     ebind (extractRelationIds pDependency) (\<lambda>v_blocked_by.
     ebind (get props ''Blocks '') (\<lambda>pBlocks.
     ebind (extractRelationIds pBlocks) (\<lambda>v_blocks.
     ebind (get page ''created_time'') (\<lambda>v_created.
     ebind (get page ''last_edited_time'') (\<lambda>v_updated.
     ebind (get props ''Assignee'') (\<lambda>pAssignee.
     ebind (isAssignedToAISquad ev pAssignee) (\<lambda>v_assigned.
     Inr \<lparr> id_t = v_id,
           title = or_untitled v_title,
           status = coalesce v_status (JStr ''Open''),
           summary = v_summary,
           spec_url = v_spec_url,
           due = v_due,
           branch = v_branch,
           area = coalesce (first_or_undef areas) JNull,
           application = coalesce (first_or_undef apps) JNull,
           type_t = v_type,
           priority = coalesce v_priority JNull,
           blocked_by = v_blocked_by,
           blocks = v_blocks,
           created_at = v_created,
           updated_at = v_updated,
           assigned_to_ai_squad = v_assigned,
           commit = v_commit,
           feature = v_feature,
           resolved_at = v_resolved_at \<rparr>
     ))))))))))))))))))))))))))))))))))))"

text \<open>The older copy: the same reads without the three later fields.\<close>

definition extractTicket0 :: "env \<Rightarrow> jv \<Rightarrow> error + ShipyardTicket0" where
  "extractTicket0 ev page =
     ebind (get page ''properties'') (\<lambda>p.
     let props = coalesce p (JObj []) in
     ebind (get props ''Application'') (\<lambda>pApplication.
     ebind (extractMultiSelect pApplication) (\<lambda>apps.
     ebind (get props ''Area'') (\<lambda>pArea.
     ebind (extractMultiSelect pArea) (\<lambda>areas.
     ebind (get page ''id'') (\<lambda>v_id.
     ebind (get props ''Ticket'') (\<lambda>pTicket.
     ebind (extractPlainText pTicket) (\<lambda>v_title.
     ebind (get props ''Status'') (\<lambda>pStatus.
     ebind (extractSelect pStatus) (\<lambda>v_status.
     ebind (get props ''Summary'') (\<lambda>pSummary.
     ebind (extractPlainText pSummary) (\<lambda>v_summary.
     ebind (get props ''Spec URL'') (\<lambda>pSpec.
     ebind (extractUrl pSpec) (\<lambda>v_spec_url.
     ebind (get props ''Due'') (\<lambda>pDue.
     ebind (extractDate pDue) (\<lambda>v_due.
     ebind (get props ''Branch'') (\<lambda>pBranch.
     ebind (extractPlainText pBranch) (\<lambda>v_branch.
     ebind (get props ''Type'') (\<lambda>pType.
     ebind (extractSelect pType) (\<lambda>v_type.
     ebind (get props ''Priority'') (\<lambda>pPriority.
     ebind (extractSelect pPriority) (\<lambda>v_priority.
     ebind (get props ''Dependency'') (\<lambda>pDependency.
     ebind (extractRelationIds pDependency) (\<lambda>v_blocked_by.
     ebind (get props ''Blocks '') (\<lambda>pBlocks.
     ebind (extractRelationIds pBlocks) (\<lambda>v_blocks.
     ebind (get page ''created_time'') (\<lambda>v_created.
     ebind (get page ''last_edited_time'') (\<lambda>v_updated.
     ebind (get props ''Assignee'') (\<lambda>pAssignee.
     ebind (isAssignedToAISquad ev pAssignee) (\<lambda>v_assigned.
     Inr \<lparr> id_t = v_id,
           title = or_untitled v_title,
           status = coalesce v_status (JStr ''Open''),
           summary = v_summary,
           spec_url = v_spec_url,
           due = v_due,
           branch = v_branch,
           area = coalesce (first_or_undef areas) JNull,
           application = coalesce (first_or_undef apps) JNull,
           type_t = v_type,
           priority = coalesce v_priority JNull,
           blocked_by = v_blocked_by,
           blocks = v_blocks,
           created_at = v_created,
           updated_at = v_updated,
           assigned_to_ai_squad = v_assigned \<rparr>
     ))))))))))))))))))))))))))))))"

section \<open>Persisted snapshot and remote requests\<close>

record HumanizeQueueItem =
  ticket_id :: jv
  title_q :: string
  area_q :: jv
  status_q :: jv
  priority_q :: jv
  blocked_by_q :: "jv list"
  blocks_q :: "jv list"
  branch_q :: "string option"

datatype action = Created | Started | Done | Status_change

record HumanizeHistoryItem =
  ticket_id_h :: jv
  title_h :: string
  action_h :: action
  timestamp :: string

text \<open>
  The state \<^verbatim>\<open>syncState\<close> builds. Its history is whatever the file held under
  \<^verbatim>\<open>history\<close>: the code reads it back unchecked, so it is kept as the value it is.
\<close>

record HumanizeState =
  last_synced :: string
  queue :: "HumanizeQueueItem list"
  history :: jv

text \<open>
  \<^verbatim>\<open>humanize_state.json\<close> as the bridge can observe it: not there, there with a text
  that \<^verbatim>\<open>JSON.parse\<close> rejects, or there with a text that it reads as a value, which
  need not be a state. The model keeps the value the text denotes; writing
  \<^verbatim>\<open>JSON.stringify(v, null, 2)\<close> leaves a text that denotes \<^const>\<open>jsonify\<close> of \<open>v\<close>.
\<close>

datatype snapshot_file = Missing | Unparsable string | Parsed jv

text \<open>The objects the bridge writes, as the values they are before they are written.\<close>

definition item_json :: "HumanizeQueueItem \<Rightarrow> jv" where
  "item_json q =
     JObj [(''ticket_id'', ticket_id q),
           (''title'', JStr (title_q q)),
           (''area'', area_q q),
           (''status'', status_q q),
           (''priority'', priority_q q),
           (''blocked_by'', JArr (blocked_by_q q)),
           (''blocks'', JArr (blocks_q q)),
           (''branch'', (case branch_q q of None \<Rightarrow> JNull | Some b \<Rightarrow> JStr b))]"

definition state_json :: "HumanizeState \<Rightarrow> jv" where
  "state_json st =
     JObj [(''last_synced'', JStr (last_synced st)),
           (''queue'', JArr (map item_json (queue st))),
           (''history'', history st)]"

fun action_name :: "action \<Rightarrow> string" where
  "action_name Created = ''created''"
| "action_name Started = ''started''"
| "action_name Done = ''done''"
| "action_name Status_change = ''status_change''"

definition history_json :: "HumanizeHistoryItem \<Rightarrow> jv" where
  "history_json item =
     JObj [(''ticket_id'', ticket_id_h item),
           (''title'', JStr (title_h item)),
           (''action'', JStr (action_name (action_h item))),
           (''timestamp'', JStr (timestamp item))]"

datatype block = Paragraph string

record create_payload =
  parent_data_source_id :: jv
  p_Ticket :: string
  p_Status :: string
  p_Application :: string
  p_Area :: string
  p_Type :: string
  p_Priority :: string
  p_Assignee :: "member option"
  children :: "block list option"

record status_update =
  u_Status :: string
  u_Resolved_At :: "string option"

datatype request =
    GetDatabase string
  | QueryDataSource string nat "jv option"
  | CreatePage create_payload
  | UpdatePage string status_update

text \<open>
  A request is the path and the object whose JSON text is the body: the query of the data
  source whose id printed as the given string, with its page size and, when set, its
  start cursor; the creation of a page; the update of the page of a given id.
  The transport (\<^verbatim>\<open>notionFetch\<close>) answers a request with parsed JSON; the remote
  store has a state of its own, which a request may change. The world the bridge runs
  in: the remote, the cached data source id, the snapshot file and, for the claims that
  count requests, the requests sent so far. The pause after a request
  (\<^verbatim>\<open>sleep(RATE_LIMIT_DELAY)\<close>) has no effect on any value and is left out, and so is
  a transport that gives no answer at all (a network failure, a body that is not JSON).
\<close>

type_synonym 's transport = "'s \<Rightarrow> request \<Rightarrow> jv \<times> 's"

record 's world =
  net :: 's
  dataSourceId :: jv
  state_file :: snapshot_file
  sent :: "request list"

definition notionFetch :: "'s transport \<Rightarrow> request \<Rightarrow> 's world \<Rightarrow> jv \<times> 's world" where
  "notionFetch tr req w =
     (let (data, s') = tr (net w) req
      in (data, w\<lparr>net := s', sent := sent w @ [req]\<rparr>))"

section \<open>Data source resolution\<close>

definition has_length_zero :: "jv \<Rightarrow> bool" where
  \<comment> \<open>\<^verbatim>\<open>v.length === 0\<close>: the length of an array or a string, or an object's own
    \<^verbatim>\<open>length\<close> property.\<close>
  "has_length_zero v =
     (case v of
        JArr xs \<Rightarrow> xs = []
      | JStr s \<Rightarrow> s = []
      | JObj kvs \<Rightarrow> map_of kvs ''length'' = Some (JNum ''0'')
      | _ \<Rightarrow> False)"

definition name_includes_Tickets :: "jv \<Rightarrow> error + bool" where
  \<comment> \<open>\<^verbatim>\<open>s.name.includes("Tickets")\<close>: a string and an array have the method.\<close>
  "name_includes_Tickets s =
     ebind (get s ''name'') (\<lambda>n.
       case n of
         JStr t \<Rightarrow> Inr (sublist ''Tickets'' t)
       | JArr xs \<Rightarrow> Inr (JStr ''Tickets'' \<in> set xs)
       | _ \<Rightarrow> Inl TypeError)"

fun efind :: "(jv \<Rightarrow> error + bool) \<Rightarrow> jv list \<Rightarrow> error + jv" where
  "efind p [] = Inr JUndef"
| "efind p (x # xs) =
     (case p x of Inl e \<Rightarrow> Inl e | Inr b \<Rightarrow> if b then Inr x else efind p xs)"

definition js_find :: "(jv \<Rightarrow> error + bool) \<Rightarrow> jv \<Rightarrow> error + jv" where
  "js_find p v = (case v of JArr xs \<Rightarrow> efind p xs | _ \<Rightarrow> Inl TypeError)"

definition pick_source :: "jv \<Rightarrow> error + jv" where
  "pick_source data =
     ebind (get data ''object'') (\<lambda>obj.
       if obj = JStr ''error'' then ebind (get data ''message'') (fail_with ResolveFailed)
       else
         ebind (get data ''data_sources'') (\<lambda>ds.
         let sources = coalesce ds (JArr []) in
         if has_length_zero sources then Inl NoDataSources
         else
           ebind (js_find name_includes_Tickets sources) (\<lambda>tickets.
           ebind (opt_get tickets ''id'') (\<lambda>tid.
             if nullish tid
             then (case sources of JArr (s0 # _) \<Rightarrow> get s0 ''id'' | _ \<Rightarrow> Inl TypeError)
             else Inr tid))))"

definition resolveDataSourceId :: "env \<Rightarrow> 's transport \<Rightarrow> 's world \<Rightarrow> (error + jv) \<times> 's world" where
  "resolveDataSourceId ev tr w =
     (if truthy (dataSourceId w) then (Inr (dataSourceId w), w)
      else
        let (data, w1) = notionFetch tr (GetDatabase (NOTION_SHIPYARD_DB_ID ev)) w
        in case pick_source data of
             Inl e \<Rightarrow> (Inl e, w1)
           | Inr i \<Rightarrow> (Inr i, w1\<lparr>dataSourceId := i\<rparr>))"

section \<open>Paginated fetcher\<close>

definition js_iterate :: "jv \<Rightarrow> error + jv list" where
  \<comment> \<open>\<^verbatim>\<open>for (const x of v)\<close>: an array gives its elements, a string its characters.\<close>
  "js_iterate v =
     (case v of JArr xs \<Rightarrow> Inr xs | JStr s \<Rightarrow> Inr (map (\<lambda>c. JStr [c]) s) | _ \<Rightarrow> Inl TypeError)"

text \<open>
  One turn of the \<^verbatim>\<open>do ... while (cursor)\<close> loop: the request, then from the answer
  the error test, the page's results and the cursor for the next turn.
\<close>

definition query :: "string \<Rightarrow> jv \<Rightarrow> request" where
  \<comment> \<open>\<^verbatim>\<open>{ page_size: 100 }\<close>, with \<^verbatim>\<open>start_cursor\<close> when the cursor is set.\<close>
  "query path_id cursor =
     QueryDataSource path_id 100 (if truthy cursor then Some cursor else None)"

definition read_page :: "jv \<Rightarrow> error + jv list \<times> jv" where
  "read_page data =
     ebind (get data ''object'') (\<lambda>obj.
       if obj = JStr ''error'' then ebind (get data ''message'') (fail_with QueryError)
       else
         ebind (get data ''results'') (\<lambda>r.
         ebind (js_iterate (coalesce r (JArr []))) (\<lambda>ps.
         ebind (get data ''has_more'') (\<lambda>has_more.
           if truthy has_more then ebind (get data ''next_cursor'') (\<lambda>c. Inr (ps, c))
           else Inr (ps, JUndef)))))"

definition fetch_page ::
  "'s transport \<Rightarrow> string \<Rightarrow> jv \<Rightarrow> 's world \<Rightarrow> (error + jv list \<times> jv) \<times> 's world" where
  "fetch_page tr path_id cursor w =
     (let (data, w1) = notionFetch tr (query path_id cursor) w in (read_page data, w1))"

text \<open>
  The loop itself. Nothing bounds the number of turns: a remote that keeps handing out
  cursors keeps the loop running, and then the function has no value (\<^const>\<open>None\<close>).
  Every turn prints the data source id into the path (\<^verbatim>\<open>`/data_sources/${dsId}/query`\<close>);
  the id does not change, so it is printed once, before the first turn, where an id that
  cannot be printed ends the fetch before any query is sent.
\<close>

partial_function (option) fetch_loop ::
  "'s transport \<Rightarrow> string \<Rightarrow> jv \<Rightarrow> jv list \<Rightarrow> 's world
     \<Rightarrow> ((error + jv list) \<times> 's world) option" where
  "fetch_loop tr path_id cursor pages w =
     (case fetch_page tr path_id cursor w of
        (Inl e, w1) \<Rightarrow> Some (Inl e, w1)
      | (Inr (ps, cursor'), w1) \<Rightarrow>
          if truthy cursor' then fetch_loop tr path_id cursor' (pages @ ps) w1
          else Some (Inr (pages @ ps), w1))"

definition fetchAllShipyardPages ::
  "env \<Rightarrow> 's transport \<Rightarrow> 's world \<Rightarrow> ((error + jv list) \<times> 's world) option" where
  "fetchAllShipyardPages ev tr w =
     (case resolveDataSourceId ev tr w of
        (Inl e, w1) \<Rightarrow> Some (Inl e, w1)
      | (Inr dsId, w1) \<Rightarrow>
          (case toString dsId of
             Inl e \<Rightarrow> Some (Inl e, w1)
           | Inr path_id \<Rightarrow> fetch_loop tr path_id JUndef [] w1))"

section \<open>Queue builder\<close>

text \<open>
  \<^verbatim>\<open>Array.prototype.sort\<close> with a comparator: the sort is stable, and an exception of
  the comparator ends it. The language leaves open which pairs are compared, in which
  order and with which of the two as first argument; the model inserts each element, from
  the last to the first, in front of the first element it does not come after. For a
  comparator that is a consistent order and throws on no pair, every conforming engine
  gives this result, and the properties of the order below are stated for such
  comparators. Where the comparator throws on some pairs only, whether the sort throws is
  the engine's choice of pairs, which the model does not follow.
\<close>

fun insert_by :: "('a \<Rightarrow> 'a \<Rightarrow> error + int) \<Rightarrow> 'a \<Rightarrow> 'a list \<Rightarrow> error + 'a list" where
  "insert_by cmp x [] = Inr [x]"
| "insert_by cmp x (y # ys) =
     (case cmp x y of
        Inl e \<Rightarrow> Inl e
      | Inr r \<Rightarrow>
          if r \<le> 0 then Inr (x # y # ys)
          else (case insert_by cmp x ys of Inl e \<Rightarrow> Inl e | Inr zs \<Rightarrow> Inr (y # zs)))"

fun js_sort :: "('a \<Rightarrow> 'a \<Rightarrow> error + int) \<Rightarrow> 'a list \<Rightarrow> error + 'a list" where
  "js_sort cmp [] = Inr []"
| "js_sort cmp (x # xs) =
     (case js_sort cmp xs of Inl e \<Rightarrow> Inl e | Inr ys \<Rightarrow> insert_by cmp x ys)"

text \<open>
  The comparator of both sorts. \<^verbatim>\<open>pa.localeCompare(pb)\<close> is the platform's collation,
  taken as the parameter \<open>lc\<close>; only a string has the method, and its argument is
  converted to a string.
\<close>

definition localeCompare :: "(string \<Rightarrow> string \<Rightarrow> int) \<Rightarrow> jv \<Rightarrow> jv \<Rightarrow> error + int" where
  "localeCompare lc pa pb =
     (case pa of
        JStr s \<Rightarrow> ebind (toString pb) (\<lambda>t. Inr (lc s t))
      | _ \<Rightarrow> Inl TypeError)"

definition compare_blocked_priority ::
  "(string \<Rightarrow> string \<Rightarrow> int) \<Rightarrow> jv list \<Rightarrow> jv \<Rightarrow> jv list \<Rightarrow> jv \<Rightarrow> error + int" where
  "compare_blocked_priority lc a_blocked_by a_priority b_blocked_by b_priority =
     (let aBlocked = (if length a_blocked_by > 0 then 1 else 0 :: int);
          bBlocked = (if length b_blocked_by > 0 then 1 else 0 :: int)
      in if aBlocked \<noteq> bBlocked then Inr (aBlocked - bBlocked)
         else
           let pa = coalesce a_priority (JStr ''P4'');
               pb = coalesce b_priority (JStr ''P4'')
           in localeCompare lc pa pb)"

definition compare_tickets ::
  "(string \<Rightarrow> string \<Rightarrow> int) \<Rightarrow> 'a ShipyardTicket0_scheme \<Rightarrow> 'a ShipyardTicket0_scheme \<Rightarrow> error + int" where
  "compare_tickets lc a b =
     compare_blocked_priority lc (blocked_by a) (priority a) (blocked_by b) (priority b)"

definition compare_items ::
  "(string \<Rightarrow> string \<Rightarrow> int) \<Rightarrow> HumanizeQueueItem \<Rightarrow> HumanizeQueueItem \<Rightarrow> error + int" where
  "compare_items lc a b =
     compare_blocked_priority lc (blocked_by_q a) (priority_q a) (blocked_by_q b) (priority_q b)"

definition excluded :: "jv list" where
  "excluded = [JStr ''Done'', JStr ''Blocked by human'', JStr ''On hold'']"

text \<open>The condition under which \<^verbatim>\<open>syncState\<close> pushes a ticket, in each copy.\<close>

definition is_active :: "ShipyardTicket \<Rightarrow> bool" where
  "is_active ticket =
     (application ticket = JStr TARGET_APP \<and>
      assigned_to_ai_squad ticket \<and>
      status ticket \<notin> set excluded)"

definition is_active0 :: "env \<Rightarrow> ShipyardTicket0 \<Rightarrow> bool" where
  "is_active0 ev ticket =
     (let matchesApp = (TARGET_APP_env ev = [] \<or> application ticket = JStr (TARGET_APP_env ev))
      in matchesApp \<and> assigned_to_ai_squad ticket \<and> status ticket \<notin> set excluded)"

text \<open>The condition under which \<^verbatim>\<open>fetchReadyTickets\<close> pushes a ticket.\<close>

definition is_ready :: "ShipyardTicket \<Rightarrow> bool" where
  "is_ready ticket =
     (status ticket = JStr ''Open'' \<and>
      application ticket = JStr TARGET_APP \<and>
      assigned_to_ai_squad ticket)"

definition toQueueItem :: "'a ShipyardTicket0_scheme \<Rightarrow> HumanizeQueueItem" where
  "toQueueItem ticket =
     \<lparr> ticket_id = id_t ticket,
       title_q = title ticket,
       area_q = area ticket,
       status_q = status ticket,
       priority_q = priority ticket,
       blocked_by_q = blocked_by ticket,
       blocks_q = blocks ticket,
       branch_q = branch ticket \<rparr>"

definition fetchReadyTickets ::
  "env \<Rightarrow> (string \<Rightarrow> string \<Rightarrow> int) \<Rightarrow> 's transport \<Rightarrow> 's world
     \<Rightarrow> ((error + ShipyardTicket list) \<times> 's world) option" where
  "fetchReadyTickets ev lc tr w =
     (case fetchAllShipyardPages ev tr w of
        None \<Rightarrow> None
      | Some (Inl e, w1) \<Rightarrow> Some (Inl e, w1)
      | Some (Inr pages, w1) \<Rightarrow>
          Some (ebind (emap (extractTicket ev) pages) (\<lambda>all_tickets.
                  js_sort (compare_tickets lc) (filter is_ready all_tickets)),
                w1))"

section \<open>State store\<close>

definition load_history :: "snapshot_file \<Rightarrow> jv" where
  \<comment> \<open>\<^verbatim>\<open>history = prev.history ?? []\<close> inside \<^verbatim>\<open>try\<close>: a missing file, a file that does
    not parse and a file that holds \<^verbatim>\<open>null\<close> all leave the history empty.\<close>
  "load_history f =
     (case f of
        Parsed prev \<Rightarrow>
          (case get prev ''history'' of Inl e \<Rightarrow> JArr [] | Inr h \<Rightarrow> coalesce h (JArr []))
      | _ \<Rightarrow> JArr [])"

definition write_state :: "HumanizeState \<Rightarrow> snapshot_file" where
  \<comment> \<open>\<^verbatim>\<open>fs.writeFileSync(STATE_FILE, JSON.stringify(state, null, 2))\<close>\<close>
  "write_state st = Parsed (jsonify (state_json st))"

text \<open>
  \<^verbatim>\<open>syncState\<close>; \<open>now\<close> is the clock's reading (\<^verbatim>\<open>new Date().toISOString()\<close>).
  The source extracts and tests page by page; an exception of the extraction ends the
  run before anything is written, so extracting all pages first gives the same result.
\<close>

definition syncState ::
  "env \<Rightarrow> (string \<Rightarrow> string \<Rightarrow> int) \<Rightarrow> string \<Rightarrow> 's transport \<Rightarrow> 's world
     \<Rightarrow> ((error + HumanizeState) \<times> 's world) option" where
  "syncState ev lc now tr w =
     (case fetchAllShipyardPages ev tr w of
        None \<Rightarrow> None
      | Some (Inl e, w1) \<Rightarrow> Some (Inl e, w1)
      | Some (Inr pages, w1) \<Rightarrow>
          (case ebind (emap (extractTicket ev) pages) (\<lambda>all_tickets.
                  js_sort (compare_items lc) (map toQueueItem (filter is_active all_tickets))) of
             Inl e \<Rightarrow> Some (Inl e, w1)
           | Inr q \<Rightarrow>
               let st = \<lparr> last_synced = now, queue = q,
                          history = load_history (state_file w1) \<rparr>
               in Some (Inr st, w1\<lparr>state_file := write_state st\<rparr>)))"

definition syncState0 ::
  "env \<Rightarrow> (string \<Rightarrow> string \<Rightarrow> int) \<Rightarrow> string \<Rightarrow> 's transport \<Rightarrow> 's world
     \<Rightarrow> ((error + HumanizeState) \<times> 's world) option" where
  "syncState0 ev lc now tr w =
     (case fetchAllShipyardPages ev tr w of
        None \<Rightarrow> None
      | Some (Inl e, w1) \<Rightarrow> Some (Inl e, w1)
      | Some (Inr pages, w1) \<Rightarrow>
          (case ebind (emap (extractTicket0 ev) pages) (\<lambda>all_tickets.
                  js_sort (compare_items lc)
                    (map toQueueItem (filter (is_active0 ev) all_tickets))) of
             Inl e \<Rightarrow> Some (Inl e, w1)
           | Inr q \<Rightarrow>
               let st = \<lparr> last_synced = now, queue = q,
                          history = load_history (state_file w1) \<rparr>
               in Some (Inr st, w1\<lparr>state_file := write_state st\<rparr>)))"

text \<open>
  \<^verbatim>\<open>appendHistory\<close> of the command line. The whole body sits in a
  \<^verbatim>\<open>try { ... } catch { }\<close>, so whatever throws leaves the file as it was: a text
  that does not parse, a value that is \<^verbatim>\<open>null\<close> or a primitive (no property can be
  read from the one, none set on the other), a \<^verbatim>\<open>history\<close> that has no \<^verbatim>\<open>push\<close>.
  An array takes the new property and is written back, but its JSON text shows its
  elements only. \<^verbatim>\<open>state.history = ...\<close> keeps the key where it is, or adds it last.
\<close>

fun set_prop :: "string \<Rightarrow> jv \<Rightarrow> (string \<times> jv) list \<Rightarrow> (string \<times> jv) list" where
  "set_prop k v [] = [(k, v)]"
| "set_prop k v ((k', v') # kvs) =
     (if k' = k then (k, v) # kvs else (k', v') # set_prop k v kvs)"

definition appendHistory :: "HumanizeHistoryItem \<Rightarrow> snapshot_file \<Rightarrow> snapshot_file" where
  "appendHistory item f =
     (case f of
        Missing \<Rightarrow> Missing
      | Unparsable text \<Rightarrow> Unparsable text
      | Parsed state \<Rightarrow>
          (case state of
             JObj kvs \<Rightarrow>
               (case coalesce (case map_of kvs ''history'' of None \<Rightarrow> JUndef | Some h \<Rightarrow> h)
                       (JArr []) of
                  JArr hs \<Rightarrow>
                    Parsed (jsonify
                      (JObj (set_prop ''history'' (JArr (hs @ [history_json item])) kvs)))
                | _ \<Rightarrow> Parsed state)
           | JArr xs \<Rightarrow> Parsed (jsonify (JArr xs))
           | _ \<Rightarrow> Parsed state))"

section \<open>Mutation operations\<close>

function chunk_loop :: "'a list \<Rightarrow> nat \<Rightarrow> 'a list list \<Rightarrow> 'a list list" where
  "chunk_loop body i chunks =
     (if i < length body
      then chunk_loop body (i + 2000) (chunks @ [substring body i (i + 2000)])
      else chunks)"
  by pat_completeness auto
termination
  by (relation "measure (\<lambda>(body, i, chunks). length body - i)") auto

declare chunk_loop.simps [simp del]

definition body_blocks :: "string option \<Rightarrow> block list option" where
  \<comment> \<open>\<^verbatim>\<open>if (body) { ... payload.children = chunks.map(...) }\<close>\<close>
  "body_blocks body =
     (case body of
        None \<Rightarrow> None
      | Some b \<Rightarrow> if b = [] then None else Some (map Paragraph (chunk_loop b 0 [])))"

fun block_text :: "block \<Rightarrow> string" where
  "block_text (Paragraph s) = s"

definition blocks_of :: "create_payload \<Rightarrow> block list" where
  \<comment> \<open>The content blocks a creation request carries (none when \<^verbatim>\<open>children\<close> is not set).\<close>
  "blocks_of payload = (case children payload of None \<Rightarrow> [] | Some bs \<Rightarrow> bs)"

text \<open>
  The person put under \<^verbatim>\<open>Assignee\<close>, if any: what the team map gives for the name
  when that is truthy, else the AI Squad user when one is configured.
\<close>

definition pick_assignee ::
  "(string \<times> jv) list \<Rightarrow> string \<Rightarrow> string option \<Rightarrow> member option" where
  "pick_assignee team ai_squad_id assignee =
     (let fallback = (if ai_squad_id \<noteq> [] then Some (Own (JStr ai_squad_id)) else None)
      in case assignee of
           None \<Rightarrow> fallback
         | Some a \<Rightarrow>
             if a = [] then fallback
             else (case team_member team a of
                     None \<Rightarrow> fallback
                   | Some (Own userId) \<Rightarrow> if truthy userId then Some (Own userId) else fallback
                   | Some (Inherited k) \<Rightarrow> Some (Inherited k)))"

definition or_default :: "string option \<Rightarrow> string \<Rightarrow> string" where
  \<comment> \<open>A parameter with a default value.\<close>
  "or_default v d = (case v of None \<Rightarrow> d | Some x \<Rightarrow> x)"

definition create_request ::
  "env \<Rightarrow> jv \<Rightarrow> string \<Rightarrow> string \<Rightarrow> string option \<Rightarrow> string option \<Rightarrow> string option
     \<Rightarrow> string option \<Rightarrow> create_payload" where
  "create_request ev dsId title_arg area_arg body priority_arg assignee type_arg =
     \<lparr> parent_data_source_id = dsId,
       p_Ticket = substring title_arg 0 200,
       p_Status = ''Open'',
       p_Application = TARGET_APP,
       p_Area = area_arg,
       p_Type = or_default type_arg ''Task'',
       p_Priority = or_default priority_arg ''P0'',
       p_Assignee = pick_assignee TEAM_USERS (NOTION_AI_SQUAD_USER_ID ev) assignee,
       children = body_blocks body \<rparr>"

definition created_ticket :: "env \<Rightarrow> jv \<Rightarrow> error + ShipyardTicket" where
  "created_ticket ev data =
     ebind (get data ''id'') (\<lambda>i.
       if \<not> truthy i then Inl (CreationFailed data) else extractTicket ev data)"

definition createTicket ::
  "env \<Rightarrow> 's transport \<Rightarrow> string \<Rightarrow> string \<Rightarrow> string option \<Rightarrow> string option \<Rightarrow> string option
     \<Rightarrow> string option \<Rightarrow> 's world \<Rightarrow> (error + ShipyardTicket) \<times> 's world" where
  "createTicket ev tr title_arg area_arg body priority_arg assignee type_arg w =
     (case resolveDataSourceId ev tr w of
        (Inl e, w1) \<Rightarrow> (Inl e, w1)
      | (Inr dsId, w1) \<Rightarrow>
          let payload = create_request ev dsId title_arg area_arg body priority_arg assignee type_arg;
              (data, w2) = notionFetch tr (CreatePage payload) w1
          in (created_ticket ev data, w2))"

text \<open>
  The older copy takes the application as its last parameter, falls back on the
  environment's tag and refuses to create a ticket without either; the type is always
  \<^verbatim>\<open>Task\<close>.
\<close>

definition create_request0 ::
  "env \<Rightarrow> jv \<Rightarrow> string \<Rightarrow> string \<Rightarrow> string \<Rightarrow> string option \<Rightarrow> string option
     \<Rightarrow> string option \<Rightarrow> create_payload" where
  "create_request0 ev dsId appName title_arg area_arg body priority_arg assignee =
     \<lparr> parent_data_source_id = dsId,
       p_Ticket = substring title_arg 0 200,
       p_Status = ''Open'',
       p_Application = appName,
       p_Area = area_arg,
       p_Type = ''Task'',
       p_Priority = or_default priority_arg ''P0'',
       p_Assignee = pick_assignee (TEAM_USERS_env ev) (NOTION_AI_SQUAD_USER_ID ev) assignee,
       children = body_blocks body \<rparr>"

definition created_ticket0 :: "env \<Rightarrow> jv \<Rightarrow> error + ShipyardTicket0" where
  "created_ticket0 ev data =
     ebind (get data ''id'') (\<lambda>i.
       if \<not> truthy i then Inl (CreationFailed data) else extractTicket0 ev data)"

definition createTicket0 ::
  "env \<Rightarrow> 's transport \<Rightarrow> string \<Rightarrow> string \<Rightarrow> string option \<Rightarrow> string option \<Rightarrow> string option
     \<Rightarrow> string option \<Rightarrow> 's world \<Rightarrow> (error + ShipyardTicket0) \<times> 's world" where
  "createTicket0 ev tr title_arg area_arg body priority_arg assignee application_arg w =
     (case resolveDataSourceId ev tr w of
        (Inl e, w1) \<Rightarrow> (Inl e, w1)
      | (Inr dsId, w1) \<Rightarrow>
          let appName = or_default application_arg (TARGET_APP_env ev)
          in if appName = [] then (Inl NoApplication, w1)
             else
               let payload =
                     create_request0 ev dsId appName title_arg area_arg body priority_arg assignee;
                   (data, w2) = notionFetch tr (CreatePage payload) w1
               in (created_ticket0 ev data, w2))"

definition status_reply :: "jv \<Rightarrow> error + unit" where
  "status_reply data =
     ebind (get data ''object'') (\<lambda>obj.
       if obj = JStr ''error'' then ebind (get data ''message'') (fail_with StatusUpdateFailed)
       else Inr ())"

definition updateTicketStatus ::
  "string \<Rightarrow> 's transport \<Rightarrow> string \<Rightarrow> string \<Rightarrow> 's world \<Rightarrow> (error + unit) \<times> 's world" where
  "updateTicketStatus now tr pageId new_status w =
     (let properties =
            \<lparr> u_Status = new_status,
              u_Resolved_At =
                (if new_status = ''Done'' \<or> new_status = ''Review AI Fix'' then Some now else None) \<rparr>;
          (data, w1) = notionFetch tr (UpdatePage pageId properties) w
      in (status_reply data, w1))"

definition updateTicketStatus0 ::
  "'s transport \<Rightarrow> string \<Rightarrow> string \<Rightarrow> 's world \<Rightarrow> (error + unit) \<times> 's world" where
  "updateTicketStatus0 tr pageId new_status w =
     (let properties = \<lparr> u_Status = new_status, u_Resolved_At = None \<rparr>;
          (data, w1) = notionFetch tr (UpdatePage pageId properties) w
      in (status_reply data, w1))"

section \<open>A small remote store\<close>

text \<open>
  Properties in the shapes the remote store documents, and a store of four tickets served
  in three pages (cursors \<^verbatim>\<open>A\<close>, \<^verbatim>\<open>B\<close>, then none), used to run the bridge on
  concrete input.
\<close>

definition title_prop :: "string \<Rightarrow> jv" where
  "title_prop s =
     JObj [(''type'', JStr ''title''), (''title'', JArr [JObj [(''plain_text'', JStr s)]])]"

definition status_prop :: "string \<Rightarrow> jv" where
  "status_prop s = JObj [(''type'', JStr ''status''), (''status'', JObj [(''name'', JStr s)])]"

definition select_prop :: "string \<Rightarrow> jv" where
  "select_prop s = JObj [(''type'', JStr ''select''), (''select'', JObj [(''name'', JStr s)])]"

definition multi_select_prop :: "string list \<Rightarrow> jv" where
  "multi_select_prop ss =
     JObj [(''type'', JStr ''multi_select''),
           (''multi_select'', JArr (map (\<lambda>s. JObj [(''name'', JStr s)]) ss))]"

definition relation_prop :: "string list \<Rightarrow> jv" where
  "relation_prop ids =
     JObj [(''type'', JStr ''relation''),
           (''relation'', JArr (map (\<lambda>i. JObj [(''id'', JStr i)]) ids))]"

definition people_prop :: "string list \<Rightarrow> jv" where
  "people_prop ids =
     JObj [(''type'', JStr ''people''),
           (''people'', JArr (map (\<lambda>i. JObj [(''id'', JStr i)]) ids))]"

definition demo_page :: "string \<Rightarrow> string \<Rightarrow> string \<Rightarrow> jv \<Rightarrow> string list \<Rightarrow> jv" where
  "demo_page i ttl st prio deps =
     JObj [(''id'', JStr i),
           (''properties'',
            JObj [(''Ticket'', title_prop ttl),
                  (''Status'', status_prop st),
                  (''Application'', multi_select_prop [''Retail Intelligence Insights'']),
                  (''Priority'', prio),
                  (''Dependency'', relation_prop deps),
                  (''Assignee'', people_prop [''ai-squad''])])]"

definition page1 :: jv where
  "page1 = demo_page ''t1'' ''Waits for t2'' ''Open'' (select_prop ''P0'') [''t2'']"

definition page2 :: jv where
  "page2 = demo_page ''t2'' ''Under way'' ''In Progress'' JUndef []"

definition page3 :: jv where
  "page3 = demo_page ''t3'' ''Urgent'' ''Open'' (select_prop ''P1'') []"

definition page4 :: jv where
  "page4 = demo_page ''t4'' ''Finished'' ''Done'' (select_prop ''P0'') []"

definition listing :: "jv list \<Rightarrow> bool \<Rightarrow> jv \<Rightarrow> jv" where
  "listing ps has_more cursor =
     JObj [(''object'', JStr ''list''), (''results'', JArr ps),
           (''has_more'', JBool has_more), (''next_cursor'', cursor)]"

definition error_reply :: jv where
  "error_reply = JObj [(''object'', JStr ''error''), (''message'', JStr ''rate limited'')]"

fun demo_remote :: "unit transport" where
  "demo_remote s (GetDatabase db) =
     (JObj [(''object'', JStr ''database''),
            (''data_sources'',
             JArr [JObj [(''id'', JStr ''ds-notes''), (''name'', JStr ''Notes'')],
                   JObj [(''id'', JStr ''ds-tickets''), (''name'', JStr ''Capabl OS Tickets'')]])],
      s)"
| "demo_remote s (QueryDataSource path_id n None) = (listing [page1] True (JStr ''A''), s)"
| "demo_remote s (QueryDataSource path_id n (Some c)) =
     (if c = JStr ''A'' then listing [page2] True (JStr ''B'')
      else if c = JStr ''B'' then listing [page3, page4] False JNull
      else error_reply,
      s)"
| "demo_remote s (CreatePage p) = (JObj [(''object'', JStr ''page''), (''id'', JStr ''t5'')], s)"
| "demo_remote s (UpdatePage i u) = (JObj [(''object'', JStr ''page''), (''id'', JStr i)], s)"

text \<open>The same store, except that its second page is an error object.\<close>

fun failing_remote :: "unit transport" where
  "failing_remote s (QueryDataSource path_id n (Some c)) = (error_reply, s)"
| "failing_remote s req = demo_remote s req"

text \<open>A store whose data source has an id that cannot be printed.\<close>

fun odd_remote :: "unit transport" where
  "odd_remote s (GetDatabase db) =
     (JObj [(''object'', JStr ''database''),
            (''data_sources'',
             JArr [JObj [(''id'', JObj [(''toString'', JNum ''1'')]),
                         (''name'', JStr ''Tickets'')]])],
      s)"
| "odd_remote s req = demo_remote s req"

definition demo_env :: env where
  "demo_env =
     \<lparr> NOTION_SHIPYARD_DB_ID = ''db'',
       NOTION_AI_SQUAD_USER_ID = ''ai-squad'',
       TARGET_APP_env = ''Retail Intelligence Insights'',
       TEAM_USERS_env = TEAM_USERS \<rparr>"

definition demo_world :: "unit world" where
  "demo_world = \<lparr> net = (), dataSourceId = JNull, state_file = Missing, sent = [] \<rparr>"

definition code_unit_order :: "string \<Rightarrow> string \<Rightarrow> int" where
  \<comment> \<open>A collation that orders strings as their code units do.\<close>
  "code_unit_order a b = (if a < b then - 1 else if a = b then 0 else 1)"

text \<open>
  The collation of the runtime's default locale, on strings of digits and letters of the
  basic alphabet: two strings are compared with their letters taken in lower case, digits
  before letters; strings that are equal that way are ordered by the first letter in
  which they differ, the lower-case one first.
\<close>

definition lower_case :: "char \<Rightarrow> char" where
  "lower_case c =
     (case map_of (zip ''ABCDEFGHIJKLMNOPQRSTUVWXYZ'' ''abcdefghijklmnopqrstuvwxyz'') c of
        None \<Rightarrow> c
      | Some l \<Rightarrow> l)"

definition locale_order :: "string \<Rightarrow> string \<Rightarrow> int" where
  "locale_order a b =
     (let a' = map lower_case a; b' = map lower_case b
      in if a' < b' then - 1
         else if b' < a' then 1
         else if a = b then 0
         else if b < a then - 1
         else 1)"

definition demo_item :: HumanizeHistoryItem where
  "demo_item =
     \<lparr> ticket_id_h = JStr ''t1'', title_h = ''(done)'', action_h = Done,
       timestamp = ''2026-11-03T10:00:00.000Z'' \<rparr>"

definition archived_page :: jv where
  "archived_page = demo_page ''t9'' ''Old'' ''Archived'' JUndef []"




definition bare_page :: jv where
  "bare_page = JObj [(''id'', JStr ''t7'')]"

definition demo_ticket ::
  "string \<Rightarrow> string \<Rightarrow> string \<Rightarrow> jv \<Rightarrow> string list \<Rightarrow> ShipyardTicket" where
  "demo_ticket i ttl st prio deps =
     \<lparr> id_t = JStr i, title = ttl, status = JStr st, summary = None, spec_url = JNull,
       due = JNull, branch = None, area = JNull,
       application = JStr ''Retail Intelligence Insights'', type_t = JNull, priority = prio,
       blocked_by = map JStr deps, blocks = [], created_at = JUndef, updated_at = JUndef,
       assigned_to_ai_squad = True, commit = None, feature = JNull, resolved_at = JNull \<rparr>"

definition ticket1 :: ShipyardTicket where
  "ticket1 = demo_ticket ''t1'' ''Waits for t2'' ''Open'' (JStr ''P0'') [''t2'']"

definition ticket2 :: ShipyardTicket where
  "ticket2 = demo_ticket ''t2'' ''Under way'' ''In Progress'' JNull []"

definition ticket3 :: ShipyardTicket where
  "ticket3 = demo_ticket ''t3'' ''Urgent'' ''Open'' (JStr ''P1'') []"

definition ticket4 :: ShipyardTicket where
  "ticket4 = demo_ticket ''t4'' ''Finished'' ''Done'' (JStr ''P0'') []"

definition demo_fetched :: "unit world" where
  "demo_fetched =
     \<lparr> net = (), dataSourceId = JStr ''ds-tickets'', state_file = Missing,
       sent = [GetDatabase ''db'',
               QueryDataSource ''ds-tickets'' 100 None,
               QueryDataSource ''ds-tickets'' 100 (Some (JStr ''A'')),
               QueryDataSource ''ds-tickets'' 100 (Some (JStr ''B''))] \<rparr>"

definition demo_state :: HumanizeState where
  "demo_state =
     \<lparr> last_synced = ''2026-11-03T10:00:00.000Z'',
       queue = [toQueueItem ticket3, toQueueItem ticket2, toQueueItem ticket1],
       history = JArr [] \<rparr>"

text \<open>The older copy of the bridge on the same store, with no application tag set.\<close>

definition unscoped_env :: env where
  "unscoped_env = demo_env\<lparr>TARGET_APP_env := []\<rparr>"

definition demo_ticket0 ::
  "string \<Rightarrow> string \<Rightarrow> string \<Rightarrow> jv \<Rightarrow> string list \<Rightarrow> ShipyardTicket0" where
  "demo_ticket0 i ttl st prio deps =
     \<lparr> id_t = JStr i, title = ttl, status = JStr st, summary = None, spec_url = JNull,
       due = JNull, branch = None, area = JNull,
       application = JStr ''Retail Intelligence Insights'', type_t = JNull, priority = prio,
       blocked_by = map JStr deps, blocks = [], created_at = JUndef, updated_at = JUndef,
       assigned_to_ai_squad = True \<rparr>"

definition stale_item :: jv where
  "stale_item =
     JObj [(''ticket_id'', JStr ''t0''), (''title'', JStr ''Gone''), (''area'', JNull),
           (''status'', JStr ''Open''), (''priority'', JStr ''P0''), (''blocked_by'', JArr []),
           (''blocks'', JArr []), (''branch'', JNull)]"

definition old_snapshot :: snapshot_file where
  "old_snapshot =
     Parsed (JObj [(''last_synced'', JStr ''2026-11-02T09:00:00.000Z''),
                   (''queue'', JArr [stale_item]),
                   (''history'', JArr [history_json demo_item])])"

text \<open>
  A store that serves all its pages in one listing; five open tickets, some with the same
  priority and blocked state; and two tickets whose priorities differ in case.
\<close>

fun single_remote :: "jv list \<Rightarrow> unit transport" where
  "single_remote ps s (QueryDataSource path_id n c) = (listing ps False JNull, s)"
| "single_remote ps s req = demo_remote s req"

definition single_fetched :: "unit world" where
  "single_fetched =
     \<lparr> net = (), dataSourceId = JStr ''ds-tickets'', state_file = Missing,
       sent = [GetDatabase ''db'', QueryDataSource ''ds-tickets'' 100 None] \<rparr>"

definition tie_pages :: "jv list" where
  "tie_pages =
     [demo_page ''a'' ''Later'' ''Open'' (select_prop ''P1'') [],
      demo_page ''b'' ''Sooner'' ''Open'' (select_prop ''P0'') [],
      demo_page ''c'' ''Later too'' ''Open'' (select_prop ''P1'') [],
      demo_page ''d'' ''Waits'' ''Open'' (select_prop ''P0'') [''a''],
      demo_page ''e'' ''Waits too'' ''Open'' (select_prop ''P0'') [''b'']]"

definition tie_tickets :: "ShipyardTicket list" where
  "tie_tickets =
     [demo_ticket ''a'' ''Later'' ''Open'' (JStr ''P1'') [],
      demo_ticket ''b'' ''Sooner'' ''Open'' (JStr ''P0'') [],
      demo_ticket ''c'' ''Later too'' ''Open'' (JStr ''P1'') [],
      demo_ticket ''d'' ''Waits'' ''Open'' (JStr ''P0'') [''a''],
      demo_ticket ''e'' ''Waits too'' ''Open'' (JStr ''P0'') [''b'']]"

definition tie_sorted :: "ShipyardTicket list" where
  "tie_sorted =
     [demo_ticket ''b'' ''Sooner'' ''Open'' (JStr ''P0'') [],
      demo_ticket ''a'' ''Later'' ''Open'' (JStr ''P1'') [],
      demo_ticket ''c'' ''Later too'' ''Open'' (JStr ''P1'') [],
      demo_ticket ''d'' ''Waits'' ''Open'' (JStr ''P0'') [''a''],
      demo_ticket ''e'' ''Waits too'' ''Open'' (JStr ''P0'') [''b'']]"

definition case_pages :: "jv list" where
  "case_pages =
     [demo_page ''x'' ''Upper'' ''Open'' (select_prop ''P2'') [],
      demo_page ''y'' ''Lower'' ''Open'' (select_prop ''p1'') []]"

definition case_tickets :: "ShipyardTicket list" where
  "case_tickets =
     [demo_ticket ''x'' ''Upper'' ''Open'' (JStr ''P2'') [],
      demo_ticket ''y'' ''Lower'' ''Open'' (JStr ''p1'') []]"

definition tie_state :: HumanizeState where
  "tie_state =
     \<lparr> last_synced = ''2026-11-03T10:00:00.000Z'',
       queue = map toQueueItem tie_sorted,
       history = JArr [] \<rparr>"

definition case_state :: HumanizeState where
  "case_state =
     \<lparr> last_synced = ''2026-11-03T10:00:00.000Z'',
       queue = map toQueueItem (rev case_tickets),
       history = JArr [] \<rparr>"

text \<open>
  A page with no id whose one dependency has no id either, and the state a sync of a
  store holding just that page builds.
\<close>

definition sparse_page :: jv where
  "sparse_page =
     JObj [(''properties'',
            JObj [(''Ticket'', title_prop ''No id''),
                  (''Status'', status_prop ''Open''),
                  (''Application'', multi_select_prop [''Retail Intelligence Insights'']),
                  (''Dependency'',
                   JObj [(''type'', JStr ''relation''), (''relation'', JArr [JObj []])]),
                  (''Assignee'', people_prop [''ai-squad''])])]"

definition sparse_ticket :: ShipyardTicket where
  "sparse_ticket =
     (demo_ticket [] ''No id'' ''Open'' JNull [])\<lparr>id_t := JUndef, blocked_by := [JUndef]\<rparr>"

definition sparse_state :: HumanizeState where
  "sparse_state =
     \<lparr> last_synced = ''2026-11-03T10:00:00.000Z'',
       queue = [toQueueItem sparse_ticket],
       history = JArr [] \<rparr>"

definition fresh_queue_json :: jv where
  "fresh_queue_json =
     JArr [JObj [(''ticket_id'', JStr ''t3''), (''title'', JStr ''Urgent''), (''area'', JNull),
                 (''status'', JStr ''Open''), (''priority'', JStr ''P1''),
                 (''blocked_by'', JArr []), (''blocks'', JArr []), (''branch'', JNull)],
           JObj [(''ticket_id'', JStr ''t2''), (''title'', JStr ''Under way''), (''area'', JNull),
                 (''status'', JStr ''In Progress''), (''priority'', JNull),
                 (''blocked_by'', JArr []), (''blocks'', JArr []), (''branch'', JNull)],
           JObj [(''ticket_id'', JStr ''t1''), (''title'', JStr ''Waits for t2''),
                 (''area'', JNull), (''status'', JStr ''Open''), (''priority'', JStr ''P0''),
                 (''blocked_by'', JArr [JStr ''t2'']), (''blocks'', JArr []),
                 (''branch'', JNull)]]"

section \<open>Notions the properties are stated with\<close>

text \<open>The closed set of status names of \<^verbatim>\<open>shared/types/shipyard.ts\<close>.\<close>

definition ShipyardStatus :: "string list" where
  "ShipyardStatus =
     [''Open'', ''In Progress'', ''On hold'', ''In Review'', ''Review AI Fix'', ''Done'',
      ''Blocked by human'']"

text \<open>\<^verbatim>\<open>(page.properties ?? {})[k]\<close>, for a page that is an object.\<close>

definition property_of :: "jv \<Rightarrow> string \<Rightarrow> jv" where
  "property_of page k =
     (case get page ''properties'' of
        Inl e \<Rightarrow> JUndef
      | Inr p \<Rightarrow> (case get (coalesce p (JObj [])) k of Inl e \<Rightarrow> JUndef | Inr v \<Rightarrow> v))"

definition ticket_properties :: "string list" where
  "ticket_properties =
     [''Application'', ''Area'', ''Ticket'', ''Status'', ''Summary'', ''Spec URL'', ''Due'',
      ''Branch'', ''Commit'', ''Feature'', ''Resolved At'', ''Type'', ''Priority'',
      ''Dependency'', ''Blocks '', ''Assignee'']"

text \<open>
  \<^verbatim>\<open>v.k\<close> as a value: what is held under the key, \<^verbatim>\<open>undefined\<close> when nothing is.
\<close>

definition payload :: "jv \<Rightarrow> string \<Rightarrow> jv" where
  "payload v k = (case get v k of Inl e \<Rightarrow> JUndef | Inr x \<Rightarrow> x)"









text \<open>The assignee set of a page, and the eligibility the data model derives from it.\<close>

definition assignee_ids :: "jv \<Rightarrow> jv list" where
  "assignee_ids page =
     (case extractAssigneeIds (property_of page ''Assignee'') of Inl e \<Rightarrow> [] | Inr ids \<Rightarrow> ids)"

definition eligible :: "env \<Rightarrow> jv \<Rightarrow> bool" where
  "eligible ev page =
     (NOTION_AI_SQUAD_USER_ID ev = [] \<or>
      JStr (NOTION_AI_SQUAD_USER_ID ev) \<in> set (assignee_ids page))"

text \<open>
  The remote's answers along a cursor chain: \<open>answers tr i s cursor ds\<close> says that,
  from the remote state \<open>s\<close> and the cursor \<open>cursor\<close>, the successive queries of the data
  source printed as \<open>i\<close> are answered by \<open>ds\<close>, every answer but the last being a page
  that hands out a further cursor.
\<close>

definition results_of :: "jv \<Rightarrow> jv list" where
  "results_of d = (case read_page d of Inl e \<Rightarrow> [] | Inr (ps, c) \<Rightarrow> ps)"

definition cursor_of :: "jv \<Rightarrow> jv" where
  "cursor_of d = (case read_page d of Inl e \<Rightarrow> JUndef | Inr (ps, c) \<Rightarrow> c)"

fun answers :: "'s transport \<Rightarrow> string \<Rightarrow> 's \<Rightarrow> jv \<Rightarrow> jv list \<Rightarrow> bool" where
  "answers tr i s cursor [] = False"
| "answers tr i s cursor [d] = (fst (tr s (query i cursor)) = d)"
| "answers tr i s cursor (d # d' # ds) =
     (fst (tr s (query i cursor)) = d \<and>
      (case read_page d of
         Inl e \<Rightarrow> False
       | Inr (ps, c) \<Rightarrow>
           truthy c \<and> answers tr i (snd (tr s (query i cursor))) c (d' # ds)))"

definition is_error_object :: "jv \<Rightarrow> bool" where
  \<comment> \<open>\<^verbatim>\<open>data.object === "error"\<close>\<close>
  "is_error_object d = (get d ''object'' = Inr (JStr ''error''))"

text \<open>
  The two keys of the ordering policy: whether a ticket has a blocker, then its priority,
  \<^verbatim>\<open>P4\<close> standing for none. Strings are compared code unit by code unit
  (lexicographically); \<open>collates lc ps\<close> says that the platform's collation \<open>lc\<close>
  orders the strings \<open>ps\<close> that way, as it does for \<^verbatim>\<open>P0\<close> ... \<^verbatim>\<open>P4\<close>.
\<close>

definition is_priority :: "jv \<Rightarrow> bool" where
  \<comment> \<open>A priority as the interface types it: a string or \<^verbatim>\<open>null\<close>.\<close>
  "is_priority p = (case p of JNull \<Rightarrow> True | JStr s \<Rightarrow> True | _ \<Rightarrow> False)"

definition priority_text :: "jv \<Rightarrow> string" where
  "priority_text p = (case p of JStr s \<Rightarrow> s | _ \<Rightarrow> ''P4'')"

definition two_key_le :: "bool \<times> string \<Rightarrow> bool \<times> string \<Rightarrow> bool" where
  "two_key_le k1 k2 =
     ((\<not> fst k1 \<and> fst k2) \<or> (fst k1 = fst k2 \<and> snd k1 \<le> snd k2))"

definition item_key :: "HumanizeQueueItem \<Rightarrow> bool \<times> string" where
  "item_key q = (blocked_by_q q \<noteq> [], priority_text (priority_q q))"

definition ticket_key :: "'a ShipyardTicket0_scheme \<Rightarrow> bool \<times> string" where
  "ticket_key t = (blocked_by t \<noteq> [], priority_text (priority t))"

definition collates :: "(string \<Rightarrow> string \<Rightarrow> int) \<Rightarrow> string list \<Rightarrow> bool" where
  "collates lc ps = list_all (\<lambda>p. list_all (\<lambda>q. (lc p q \<le> 0) = (p \<le> q)) ps) ps"



text \<open>
  A value that \<^verbatim>\<open>JSON.stringify\<close> writes as it is: no \<^verbatim>\<open>undefined\<close> in it, and no
  number that is not finite. Every text \<^verbatim>\<open>JSON.stringify\<close> wrote denotes such a value.
\<close>

fun writable :: "jv \<Rightarrow> bool"
  and writable_elems :: "jv list \<Rightarrow> bool"
  and writable_props :: "(string \<times> jv) list \<Rightarrow> bool" where
  "writable JUndef = False"
| "writable JNull = True"
| "writable (JBool b) = True"
| "writable (JNum s) = (s \<noteq> ''NaN'' \<and> s \<noteq> ''Infinity'' \<and> s \<noteq> ''-Infinity'')"
| "writable (JStr s) = True"
| "writable (JArr xs) = writable_elems xs"
| "writable (JObj kvs) = writable_props kvs"
| "writable_elems [] = True"
| "writable_elems (x # xs) = (writable x \<and> writable_elems xs)"
| "writable_props [] = True"
| "writable_props ((k, v) # kvs) = (writable v \<and> writable_props kvs)"

definition is_array :: "jv \<Rightarrow> bool" where
  "is_array v = (case v of JArr xs \<Rightarrow> True | _ \<Rightarrow> False)"


section \<open>Facts about the small remote store\<close>

lemma demo_resolve:
  "resolveDataSourceId demo_env demo_remote demo_world
   = (Inr (JStr ''ds-tickets''),
      demo_world\<lparr>sent := [GetDatabase ''db''], dataSourceId := JStr ''ds-tickets''\<rparr>)"
  by (simp add: resolveDataSourceId_def demo_world_def demo_env_def notionFetch_def
      pick_source_def coalesce_def opt_get_def has_length_zero_def js_find_def
      name_includes_Tickets_def sublist_code)

section \<open>Creation: the title and the body blocks\<close>

lemma substring_take_drop: "substring s i (i + n) = take n (drop i s)"
  by (auto simp: substring_def Let_def min_def max_def)

lemma substring_prefix: "substring s 0 n = take n s"
  using substring_take_drop [of s 0 n] by simp

lemma chunk_count_step:
  "i < n \<Longrightarrow> (n - i + 1999) div 2000 = Suc ((n - (i + 2000) + 1999) div (2000::nat))"
proof -
  assume "i < n"
  show ?thesis
  proof (cases "i + 2000 \<le> n")
    case True
    then have "n - i + 1999 = (n - (i + 2000) + 1999) + 2000" by simp
    then show ?thesis by (simp only: div_add_self2)
  next
    case False
    with \<open>i < n\<close> have a: "n - (i + 2000) = 0" and b: "2000 \<le> n - i + 1999"
      and c: "n - i + 1999 < 4000"
      by simp_all
    from b c have "(n - i + 1999) div 2000 = 1"
      by (simp add: div_nat_eqI)
    with a show ?thesis by simp
  qed
qed

lemma upt_Suc_shift: "[0..<Suc n] = 0 # map Suc [0..<n]"
  by (simp add: upt_conv_Cons map_Suc_upt del: upt_Suc)

text \<open>The loop pushes the spans of 2000 units one after the other.\<close>

lemma chunk_loop_spans:
  "chunk_loop body i chunks =
     chunks @ map (\<lambda>k. take 2000 (drop (i + 2000 * k) body))
                  [0..<(length body - i + 1999) div 2000]"
proof (induction body i chunks rule: chunk_loop.induct)
  case (1 body i chunks)
  show ?case
  proof (cases "i < length body")
    case True
    have step: "chunk_loop body i chunks
          = chunk_loop body (i + 2000) (chunks @ [substring body i (i + 2000)])"
      using True by (subst chunk_loop.simps) simp
    have shift: "(\<lambda>k. take 2000 (drop (i + 2000 + 2000 * k) body))
                 = (\<lambda>k. take 2000 (drop (i + 2000 * k) body)) \<circ> Suc"
      by (rule ext) (simp add: add.assoc)
    show ?thesis
      unfolding step "1.IH" [OF True] chunk_count_step [OF True] upt_Suc_shift shift
      by (simp add: substring_take_drop del: upt_Suc)
  next
    case False
    then have "(length body - i + 1999) div 2000 = 0" by simp
    with False show ?thesis by (subst chunk_loop.simps) simp
  qed
qed

lemma concat_spans:
  "concat (map (\<lambda>k. take n (drop (i + n * k) xs)) [0..<m]) = take (n * m) (drop i xs)"
proof (induction m)
  case 0
  show ?case by simp
next
  case (Suc m)
  have a: "n * Suc m = n * m + n" by simp
  have b: "drop (n * m) (drop i xs) = drop (i + n * m) xs"
    by (simp only: drop_drop add.commute)
  have c: "take (n * Suc m) (drop i xs)
        = take (n * m) (drop i xs) @ take n (drop (i + n * m) xs)"
    unfolding a by (simp only: take_add b)
  have d: "[0..<Suc m] = [0..<m] @ [m]" by simp
  show ?case unfolding c d using Suc by simp
qed

lemma chunks_cover: "n \<le> 2000 * ((n + 1999) div (2000::nat))"
proof -
  have "2000 * ((n + 1999) div 2000) + (n + 1999) mod 2000 = n + 1999"
    by (rule mult_div_mod_eq)
  moreover have "(n + 1999) mod 2000 < 2000" by simp
  ultimately show ?thesis by linarith
qed

lemma chunks_tight: "2000 * ((n + 1999) div 2000) < n + (2000::nat)"
proof -
  have "2000 * ((n + 1999) div 2000) + (n + 1999) mod 2000 = n + 1999"
    by (rule mult_div_mod_eq)
  then show ?thesis by linarith
qed

lemma span_bounds:
  assumes "k < (length body + 1999) div 2000"
  shows "take 2000 (drop (2000 * k) body) \<noteq> [] \<and>
         length (take 2000 (drop (2000 * k) body)) \<le> 2000"
proof -
  from assms have "Suc k \<le> (length body + 1999) div 2000" by simp
  then have "2000 * Suc k \<le> 2000 * ((length body + 1999) div 2000)"
    by (rule mult_le_mono2)
  with chunks_tight [of "length body"] have "2000 * k < length body" by simp
  then show ?thesis by simp
qed

lemma chunk_loop_concat: "concat (chunk_loop body 0 []) = body"
proof -
  have "concat (chunk_loop body 0 [])
        = take (2000 * ((length body + 1999) div 2000)) (drop 0 body)"
    unfolding chunk_loop_spans using concat_spans [of 2000 0 body] by simp
  then show ?thesis using chunks_cover [of "length body"] by simp
qed

lemma chunk_loop_bounds:
  assumes "c \<in> set (chunk_loop body 0 [])"
  shows "c \<noteq> [] \<and> length c \<le> 2000"
proof -
  from assms obtain k where k: "k < (length body + 1999) div 2000"
    and c: "c = take 2000 (drop (2000 * k) body)"
    unfolding chunk_loop_spans by auto
  show ?thesis unfolding c using k by (rule span_bounds)
qed

lemma block_texts: "map (block_text \<circ> Paragraph) cs = cs"
  by (induction cs) simp_all

lemma body_blocks_texts:
  "map block_text (case body_blocks (Some body) of None \<Rightarrow> [] | Some bs \<Rightarrow> bs)
   = chunk_loop body 0 []"
proof (cases "body = []")
  case True
  then show ?thesis by (simp add: body_blocks_def chunk_loop.simps)
next
  case False
  then show ?thesis by (simp add: body_blocks_def block_texts)
qed

text \<open>Once the data source is known, creation sends one write, with the payload built.\<close>

lemma notionFetch_sent: "sent (snd (notionFetch tr req w)) = sent w @ [req]"
  by (simp add: notionFetch_def split_def Let_def)

lemma createTicket_sent:
  assumes "resolveDataSourceId ev tr w = (Inr dsId, w1)"
  shows "sent (snd (createTicket ev tr t a b p asg ty w))
         = sent w1 @ [CreatePage (create_request ev dsId t a b p asg ty)]"
  unfolding createTicket_def assms
  by (simp add: split_def Let_def notionFetch_sent)

lemma createTicket0_sent:
  assumes "resolveDataSourceId ev tr w = (Inr dsId, w1)"
    and "or_default app (TARGET_APP_env ev) \<noteq> []"
  shows "sent (snd (createTicket0 ev tr t a b p asg app w))
         = sent w1 @ [CreatePage (create_request0 ev dsId (or_default app (TARGET_APP_env ev))
                                    t a b p asg)]"
  unfolding createTicket0_def assms(1)
  using assms(2) by (simp add: split_def Let_def notionFetch_sent)

text \<open>
  C9. Whatever body is passed to \<^verbatim>\<open>createTicket\<close>, the write it sends carries one
  paragraph block for each consecutive span of 2000 units of the body, in the body's
  order: no block is empty or longer than 2000 units, the blocks' texts put together are
  the body, and a body of 4500 units gives exactly three blocks.
\<close>

theorem createTicket_body_blocks:
  assumes "resolveDataSourceId ev tr w = (Inr dsId, w1)"
  shows "\<exists>payload.
           sent (snd (createTicket ev tr t a (Some body) p asg ty w))
             = sent w1 @ [CreatePage payload] \<and>
           map block_text (blocks_of payload)
             = map (\<lambda>k. substring body (2000 * k) (2000 * k + 2000))
                   [0..<(length body + 1999) div 2000] \<and>
           (\<forall>b \<in> set (blocks_of payload).
              block_text b \<noteq> [] \<and> length (block_text b) \<le> 2000) \<and>
           concat (map block_text (blocks_of payload)) = body \<and>
           (length body = 4500 \<longrightarrow> length (blocks_of payload) = 3)"
proof -
  let ?payload = "create_request ev dsId t a (Some body) p asg ty"
  have texts: "map block_text (blocks_of ?payload) = chunk_loop body 0 []"
    using body_blocks_texts [of body] by (simp add: blocks_of_def create_request_def)
  have spans: "map block_text (blocks_of ?payload)
      = map (\<lambda>k. substring body (2000 * k) (2000 * k + 2000))
            [0..<(length body + 1999) div 2000]"
    unfolding texts chunk_loop_spans by (simp add: substring_take_drop)
  have bounds: "\<forall>b \<in> set (blocks_of ?payload).
      block_text b \<noteq> [] \<and> length (block_text b) \<le> 2000"
  proof
    fix b assume "b \<in> set (blocks_of ?payload)"
    then have "block_text b \<in> set (map block_text (blocks_of ?payload))" by simp
    then show "block_text b \<noteq> [] \<and> length (block_text b) \<le> 2000"
      unfolding texts by (rule chunk_loop_bounds)
  qed
  have whole: "concat (map block_text (blocks_of ?payload)) = body"
    unfolding texts by (rule chunk_loop_concat)
  have three: "length body = 4500 \<longrightarrow> length (blocks_of ?payload) = 3"
  proof
    assume len: "length body = 4500"
    have "length (blocks_of ?payload) = length (map block_text (blocks_of ?payload))"
      by simp
    also have "\<dots> = (length body + 1999) div 2000"
      unfolding spans by simp
    finally show "length (blocks_of ?payload) = 3" using len by simp
  qed
  show ?thesis
  proof (intro exI conjI)
    show "sent (snd (createTicket ev tr t a (Some body) p asg ty w))
          = sent w1 @ [CreatePage ?payload]"
      by (rule createTicket_sent [OF assms])
  qed (rule spans bounds whole three)+
qed

theorem createTicket_body_blocks_witness:
  "resolveDataSourceId demo_env demo_remote demo_world
     = (Inr (JStr ''ds-tickets''),
        demo_world\<lparr>sent := [GetDatabase ''db''], dataSourceId := JStr ''ds-tickets''\<rparr>) \<and>
   (\<exists>payload.
      sent (snd (createTicket demo_env demo_remote ''Long story'' ''Backend''
                   (Some (replicate 4500 (CHR ''x''))) None None None demo_world))
        = [GetDatabase ''db'', CreatePage payload] \<and>
      concat (map block_text (blocks_of payload)) = replicate 4500 (CHR ''x'') \<and>
      length (blocks_of payload) = 3)"
proof -
  from createTicket_body_blocks [OF demo_resolve, of "''Long story''" "''Backend''"
      "replicate 4500 (CHR ''x'')" None None None]
  obtain payload where
    "sent (snd (createTicket demo_env demo_remote ''Long story'' ''Backend''
                   (Some (replicate 4500 (CHR ''x''))) None None None demo_world))
       = sent (demo_world\<lparr>sent := [GetDatabase ''db''], dataSourceId := JStr ''ds-tickets''\<rparr>)
         @ [CreatePage payload]"
    and "concat (map block_text (blocks_of payload)) = replicate 4500 (CHR ''x'')"
    and "length (replicate 4500 (CHR ''x'')) = 4500 \<longrightarrow> length (blocks_of payload) = 3"
    by blast
  then show ?thesis using demo_resolve by auto
qed

text \<open>
  C10. Whatever title is passed to \<^verbatim>\<open>createTicket\<close>, in either copy of the bridge,
  the title in the write it sends is the first 200 units of the title: a title of at most
  200 units goes out unchanged, a longer one as its prefix of 200.
\<close>

theorem createTicket_title_prefix:
  assumes "resolveDataSourceId ev tr w = (Inr dsId, w1)"
  shows "(\<exists>payload.
            sent (snd (createTicket ev tr t a b p asg ty w)) = sent w1 @ [CreatePage payload] \<and>
            p_Ticket payload = take 200 t \<and>
            (length t \<le> 200 \<longrightarrow> p_Ticket payload = t)) \<and>
         (or_default app (TARGET_APP_env ev) \<noteq> [] \<longrightarrow>
            (\<exists>payload.
               sent (snd (createTicket0 ev tr t a b p asg app w))
                 = sent w1 @ [CreatePage payload] \<and>
               p_Ticket payload = take 200 t \<and>
               (length t \<le> 200 \<longrightarrow> p_Ticket payload = t)))"
  using createTicket_sent [OF assms, of t a b p asg ty]
    createTicket0_sent [OF assms, of app t a b p asg]
  by (simp add: create_request_def create_request0_def substring_prefix)

theorem createTicket_title_prefix_witness:
  "resolveDataSourceId demo_env demo_remote demo_world
     = (Inr (JStr ''ds-tickets''),
        demo_world\<lparr>sent := [GetDatabase ''db''], dataSourceId := JStr ''ds-tickets''\<rparr>) \<and>
   (\<exists>payload.
      sent (snd (createTicket demo_env demo_remote (replicate 250 (CHR ''t'')) ''Backend''
                   None None None None demo_world))
        = [GetDatabase ''db'', CreatePage payload] \<and>
      p_Ticket payload = replicate 200 (CHR ''t'')) \<and>
   (\<exists>payload.
      sent (snd (createTicket0 demo_env demo_remote ''Short'' ''Backend''
                   None None None None demo_world))
        = [GetDatabase ''db'', CreatePage payload] \<and>
      p_Ticket payload = ''Short'')"
proof -
  have app: "or_default None (TARGET_APP_env demo_env) \<noteq> []"
    by (simp add: or_default_def demo_env_def)
  from createTicket_title_prefix [OF demo_resolve, of "replicate 250 (CHR ''t'')" "''Backend''"
      None None None None None]
  obtain p1 where
    "sent (snd (createTicket demo_env demo_remote (replicate 250 (CHR ''t'')) ''Backend''
                   None None None None demo_world))
       = sent (demo_world\<lparr>sent := [GetDatabase ''db''], dataSourceId := JStr ''ds-tickets''\<rparr>)
         @ [CreatePage p1]"
    and "p_Ticket p1 = take 200 (replicate 250 (CHR ''t''))"
    by blast
  moreover
  from createTicket_title_prefix [OF demo_resolve, of "''Short''" "''Backend''"
      None None None None None] app
  obtain p2 where
    "sent (snd (createTicket0 demo_env demo_remote ''Short'' ''Backend''
                   None None None None demo_world))
       = sent (demo_world\<lparr>sent := [GetDatabase ''db''], dataSourceId := JStr ''ds-tickets''\<rparr>)
         @ [CreatePage p2]"
    and "length ''Short'' \<le> 200 \<longrightarrow> p_Ticket p2 = ''Short''"
    by blast
  ultimately show ?thesis using demo_resolve by auto
qed

section \<open>Status update\<close>

lemma updateTicketStatus_sent:
  "sent (snd (updateTicketStatus now tr pageId s w))
   = sent w @ [UpdatePage pageId
        \<lparr> u_Status = s,
          u_Resolved_At = (if s = ''Done'' \<or> s = ''Review AI Fix'' then Some now else None) \<rparr>]"
  by (simp add: updateTicketStatus_def Let_def split_def notionFetch_sent)

lemma updateTicketStatus0_sent:
  "sent (snd (updateTicketStatus0 tr pageId s w))
   = sent w @ [UpdatePage pageId \<lparr> u_Status = s, u_Resolved_At = None \<rparr>]"
  by (simp add: updateTicketStatus0_def Let_def split_def notionFetch_sent)

lemma notionFetch_data: "fst (notionFetch tr req w) = fst (tr (net w) req)"
  by (simp add: notionFetch_def split_def Let_def)

text \<open>
  C6, as the code has it. \<^verbatim>\<open>updateTicketStatus\<close> of
  \<^verbatim>\<open>scripts/notion-bridge.ts\<close> sends one write that carries the status and, exactly
  when the status is \<^verbatim>\<open>Done\<close> or \<^verbatim>\<open>Review AI Fix\<close>, the resolved-at timestamp;
  the other copy of \<^verbatim>\<open>updateTicketStatus\<close> sends the status alone, whatever it is.
  Neither looks at the ticket's current status: the write goes out for every status, and
  the call fails only on the remote's answer.
\<close>

theorem updateTicketStatus_write:
  "sent (snd (updateTicketStatus now tr pageId s w))
     = sent w @ [UpdatePage pageId
          \<lparr> u_Status = s,
            u_Resolved_At = (if s = ''Done'' \<or> s = ''Review AI Fix'' then Some now else None) \<rparr>] \<and>
   sent (snd (updateTicketStatus0 tr pageId s w))
     = sent w @ [UpdatePage pageId \<lparr> u_Status = s, u_Resolved_At = None \<rparr>] \<and>
   fst (updateTicketStatus now tr pageId s w)
     = status_reply (fst (tr (net w) (UpdatePage pageId
          \<lparr> u_Status = s,
            u_Resolved_At = (if s = ''Done'' \<or> s = ''Review AI Fix'' then Some now else None) \<rparr>))) \<and>
   fst (updateTicketStatus0 tr pageId s w)
     = status_reply (fst (tr (net w) (UpdatePage pageId \<lparr> u_Status = s, u_Resolved_At = None \<rparr>)))"
  by (simp add: updateTicketStatus_sent updateTicketStatus0_sent)
     (simp add: updateTicketStatus_def updateTicketStatus0_def Let_def split_def notionFetch_data)

theorem updateTicketStatus_write_witness:
  "sent (snd (updateTicketStatus ''2026-11-03T10:00:00.000Z'' demo_remote ''t1'' ''Done'' demo_world))
     = [UpdatePage ''t1''
          \<lparr> u_Status = ''Done'', u_Resolved_At = Some ''2026-11-03T10:00:00.000Z'' \<rparr>] \<and>
   sent (snd (updateTicketStatus ''2026-11-03T10:00:00.000Z'' demo_remote ''t1'' ''Open'' demo_world))
     = [UpdatePage ''t1'' \<lparr> u_Status = ''Open'', u_Resolved_At = None \<rparr>] \<and>
   fst (updateTicketStatus ''2026-11-03T10:00:00.000Z'' demo_remote ''t1'' ''Open'' demo_world)
     = Inr ()"
  using updateTicketStatus_write [of "''2026-11-03T10:00:00.000Z''" demo_remote "''t1''" "''Done''" demo_world]
    updateTicketStatus_write [of "''2026-11-03T10:00:00.000Z''" demo_remote "''t1''" "''Open''" demo_world]
  by (simp add: demo_world_def status_reply_def)

text \<open>
  The claim as stated fails on the other copy of the bridge: there, marking a ticket
  \<^verbatim>\<open>Done\<close> sends no resolved-at timestamp.
\<close>

theorem updateTicketStatus0_Done_counterexample:
  "sent (snd (updateTicketStatus0 demo_remote ''t1'' ''Done'' demo_world))
     = [UpdatePage ''t1'' \<lparr> u_Status = ''Done'', u_Resolved_At = None \<rparr>]"
  by (simp add: updateTicketStatus0_sent demo_world_def)

section \<open>History\<close>

lemma map_of_set_prop: "map_of (set_prop k v kvs) k = Some v"
  by (induction kvs) auto

lemma map_of_jsonify_props:
  "map_of kvs k = Some v \<Longrightarrow> v \<noteq> JUndef \<Longrightarrow> map_of (jsonify_props kvs) k = Some (jsonify v)"
  by (induction kvs) (auto split: if_splits)

lemma history_after_write:
  "load_history (Parsed (jsonify (JObj (set_prop ''history'' (JArr hs) kvs))))
   = JArr (jsonify_elems hs)"
  using map_of_jsonify_props [OF map_of_set_prop, of "JArr hs" "''history''" kvs]
  by (simp add: load_history_def coalesce_def)

lemma jsonify_elems_append: "jsonify_elems (xs @ ys) = jsonify_elems xs @ jsonify_elems ys"
  by (induction xs) simp_all

text \<open>
  C5, as the code has it. \<^verbatim>\<open>appendHistory\<close> does nothing when the snapshot file is
  missing, and nothing either when the file does not parse: the file keeps its text and
  the entry is not recorded. On a file that parses, the entry is recorded only where the
  value is an object whose \<^verbatim>\<open>history\<close> is an array, or is not set: then the entry
  comes after the entries already there, and everything is written back. An object with
  any other \<^verbatim>\<open>history\<close>, \<^verbatim>\<open>null\<close>, a number, a string and a boolean are left as they
  are, and an array is written back without the entry.
\<close>

theorem appendHistory_effect:
  "appendHistory item Missing = Missing \<and>
   appendHistory item (Unparsable txt) = Unparsable txt \<and>
   load_history (appendHistory item (Unparsable txt)) = JArr [] \<and>
   (map_of kvs ''history'' = Some (JArr hs) \<longrightarrow>
      appendHistory item (Parsed (JObj kvs))
        = Parsed (jsonify (JObj (set_prop ''history'' (JArr (hs @ [history_json item])) kvs))) \<and>
      load_history (appendHistory item (Parsed (JObj kvs)))
        = JArr (jsonify_elems hs @ [jsonify (history_json item)])) \<and>
   (map_of kvs ''history'' = None \<or> map_of kvs ''history'' = Some JNull \<longrightarrow>
      appendHistory item (Parsed (JObj kvs))
        = Parsed (jsonify (JObj (set_prop ''history'' (JArr [history_json item]) kvs))) \<and>
      load_history (appendHistory item (Parsed (JObj kvs)))
        = JArr [jsonify (history_json item)]) \<and>
   (map_of kvs ''history'' = Some h \<and> \<not> nullish h \<and> \<not> is_array h \<longrightarrow>
      appendHistory item (Parsed (JObj kvs)) = Parsed (JObj kvs)) \<and>
   appendHistory item (Parsed (JArr xs)) = Parsed (JArr (jsonify_elems xs)) \<and>
   appendHistory item (Parsed JNull) = Parsed JNull \<and>
   appendHistory item (Parsed (JBool b)) = Parsed (JBool b) \<and>
   appendHistory item (Parsed (JNum n)) = Parsed (JNum n) \<and>
   appendHistory item (Parsed (JStr s)) = Parsed (JStr s)"
proof (intro conjI impI)
  show "appendHistory item Missing = Missing"
    "appendHistory item (Unparsable txt) = Unparsable txt"
    "appendHistory item (Parsed (JArr xs)) = Parsed (JArr (jsonify_elems xs))"
    "appendHistory item (Parsed JNull) = Parsed JNull"
    "appendHistory item (Parsed (JBool b)) = Parsed (JBool b)"
    "appendHistory item (Parsed (JNum n)) = Parsed (JNum n)"
    "appendHistory item (Parsed (JStr s)) = Parsed (JStr s)"
    by (simp_all add: appendHistory_def)
  show "load_history (appendHistory item (Unparsable txt)) = JArr []"
    by (simp add: appendHistory_def load_history_def)
next
  assume a: "map_of kvs ''history'' = Some (JArr hs)"
  then show w: "appendHistory item (Parsed (JObj kvs))
      = Parsed (jsonify (JObj (set_prop ''history'' (JArr (hs @ [history_json item])) kvs)))"
    by (simp add: appendHistory_def coalesce_def)
  show "load_history (appendHistory item (Parsed (JObj kvs)))
      = JArr (jsonify_elems hs @ [jsonify (history_json item)])"
    unfolding w history_after_write by (simp add: jsonify_elems_append)
next
  assume a: "map_of kvs ''history'' = None \<or> map_of kvs ''history'' = Some JNull"
  then show w: "appendHistory item (Parsed (JObj kvs))
      = Parsed (jsonify (JObj (set_prop ''history'' (JArr [history_json item]) kvs)))"
    by (auto simp: appendHistory_def coalesce_def)
  show "load_history (appendHistory item (Parsed (JObj kvs)))
      = JArr [jsonify (history_json item)]"
    unfolding w history_after_write by simp
next
  assume "map_of kvs ''history'' = Some h \<and> \<not> nullish h \<and> \<not> is_array h"
  then show "appendHistory item (Parsed (JObj kvs)) = Parsed (JObj kvs)"
    by (cases h) (simp_all add: appendHistory_def coalesce_def is_array_def)
qed

lemma demo_item_json:
  "jsonify (history_json demo_item)
   = JObj [(''ticket_id'', JStr ''t1''), (''title'', JStr ''(done)''), (''action'', JStr ''done''),
           (''timestamp'', JStr ''2026-11-03T10:00:00.000Z'')]"
  by (simp add: history_json_def demo_item_def)

theorem appendHistory_effect_witness:
  "appendHistory demo_item (Unparsable ''{ not json'') = Unparsable ''{ not json'' \<and>
   map_of [(''last_synced'', JStr ''2026''), (''queue'', JArr []),
           (''history'', JArr [JStr ''earlier''])] ''history'' = Some (JArr [JStr ''earlier'']) \<and>
   appendHistory demo_item
       (Parsed (JObj [(''last_synced'', JStr ''2026''), (''queue'', JArr []),
                      (''history'', JArr [JStr ''earlier''])]))
     = Parsed (JObj [(''last_synced'', JStr ''2026''), (''queue'', JArr []),
         (''history'',
          JArr [JStr ''earlier'',
                JObj [(''ticket_id'', JStr ''t1''), (''title'', JStr ''(done)''),
                      (''action'', JStr ''done''),
                      (''timestamp'', JStr ''2026-11-03T10:00:00.000Z'')]])]) \<and>
   map_of [(''queue'', JArr [])] ''history'' = None \<and>
   load_history (appendHistory demo_item (Parsed (JObj [(''queue'', JArr [])])))
     = JArr [JObj [(''ticket_id'', JStr ''t1''), (''title'', JStr ''(done)''),
                   (''action'', JStr ''done''),
                   (''timestamp'', JStr ''2026-11-03T10:00:00.000Z'')]] \<and>
   map_of [(''history'', JStr ''x'')] ''history'' = Some (JStr ''x'') \<and>
   \<not> nullish (JStr ''x'') \<and> \<not> is_array (JStr ''x'') \<and>
   appendHistory demo_item (Parsed (JObj [(''history'', JStr ''x'')]))
     = Parsed (JObj [(''history'', JStr ''x'')])"
proof -
  note a = appendHistory_effect [of demo_item "''{ not json''"
      "[(''last_synced'', JStr ''2026''), (''queue'', JArr []),
        (''history'', JArr [JStr ''earlier''])]" "[JStr ''earlier'']"]
  note b = appendHistory_effect [of demo_item "''{ not json''" "[(''queue'', JArr [])]"]
  note c = appendHistory_effect [of demo_item "''{ not json''" "[(''history'', JStr ''x'')]"
      "[]" "JStr ''x''"]
  from a have 1: "appendHistory demo_item (Unparsable ''{ not json'') = Unparsable ''{ not json''"
    by simp
  from a have 2: "appendHistory demo_item
       (Parsed (JObj [(''last_synced'', JStr ''2026''), (''queue'', JArr []),
                      (''history'', JArr [JStr ''earlier''])]))
     = Parsed (JObj [(''last_synced'', JStr ''2026''), (''queue'', JArr []),
         (''history'',
          JArr [JStr ''earlier'',
                JObj [(''ticket_id'', JStr ''t1''), (''title'', JStr ''(done)''),
                      (''action'', JStr ''done''),
                      (''timestamp'', JStr ''2026-11-03T10:00:00.000Z'')]])])"
    by (simp add: history_json_def demo_item_def)
  from b have 3: "load_history (appendHistory demo_item (Parsed (JObj [(''queue'', JArr [])])))
     = JArr [JObj [(''ticket_id'', JStr ''t1''), (''title'', JStr ''(done)''),
                   (''action'', JStr ''done''),
                   (''timestamp'', JStr ''2026-11-03T10:00:00.000Z'')]]"
    by (simp add: demo_item_json load_history_def coalesce_def)
  from c have 4: "appendHistory demo_item (Parsed (JObj [(''history'', JStr ''x'')]))
     = Parsed (JObj [(''history'', JStr ''x'')])"
    by (simp add: is_array_def)
  show ?thesis
    by (intro conjI) (simp_all add: 1 2 3 4 is_array_def)
qed

text \<open>
  The claim as stated fails: after \<^verbatim>\<open>appendHistory\<close> on a file that does not parse,
  the file still holds the text that does not parse, and the history recovered from it is
  empty, not the one entry.
\<close>

theorem appendHistory_corrupted_counterexample:
  "appendHistory demo_item (Unparsable ''{ not json'') = Unparsable ''{ not json'' \<and>
   load_history (appendHistory demo_item (Unparsable ''{ not json'')) = JArr [] \<and>
   load_history (appendHistory demo_item (Unparsable ''{ not json''))
     \<noteq> JArr [history_json demo_item]"
  by (simp add: appendHistory_def load_history_def)

section \<open>Property extractors and the normalizer\<close>

lemma ebind_eq_Inr: "(ebind m f = Inr y) = (\<exists>x. m = Inr x \<and> f x = Inr y)"
  by (cases m) simp_all

lemma truthy_not_nullish: "truthy v \<Longrightarrow> \<not> nullish v"
  by (cases v) simp_all

lemma get_total: "\<not> nullish v \<Longrightarrow> \<exists>x. get v k = Inr x"
  by (cases v) (simp_all split: option.splits)

lemma opt_get_total: "\<exists>x. opt_get v k = Inr x"
  using get_total [of v k] by (simp add: opt_get_def)

lemma extractSelect_total: "\<exists>v. extractSelect prop = Inr v"
proof (cases "truthy prop")
  case False
  then show ?thesis by (simp add: extractSelect_def)
next
  case True
  then have nn: "\<not> nullish prop" by (rule truthy_not_nullish)
  from get_total [OF nn] obtain ty sel st
    where "get prop ''type'' = Inr ty" "get prop ''select'' = Inr sel" "get prop ''status'' = Inr st"
    by blast
  moreover obtain n1 n2 where "opt_get sel ''name'' = Inr n1" "opt_get st ''name'' = Inr n2"
    using opt_get_total by blast
  ultimately show ?thesis using True by (simp add: extractSelect_def)
qed



lemma extractors_absent:
  assumes "\<not> truthy prop"
  shows "extractPlainText prop = Inr None \<and> extractSelect prop = Inr JNull \<and>
         extractMultiSelect prop = Inr [] \<and> extractUrl prop = Inr JNull \<and>
         extractDate prop = Inr JNull \<and> extractRelationIds prop = Inr [] \<and>
         extractAssigneeIds prop = Inr []"
  using assms
  by (simp add: extractPlainText_def extractSelect_def extractMultiSelect_def extractUrl_def
      extractDate_def extractRelationIds_def extractAssigneeIds_def)


text \<open>When the list extractors go through, and what they throw when they do not.\<close>

lemma get_nullish: "nullish v \<Longrightarrow> get v k = Inl TypeError"
  by (cases v) simp_all

lemma get_payload: "\<not> nullish v \<Longrightarrow> get v k = Inr (payload v k)"
  by (cases v) (simp_all add: payload_def split: option.splits)


lemma payload_nullish: "nullish v \<Longrightarrow> payload v k = JUndef"
  by (simp add: payload_def get_nullish)






lemma js_map_nullish:
  "nullish v \<Longrightarrow> js_map (\<lambda>t. get t k) (coalesce v (JArr [])) = Inr []"
  by (simp add: coalesce_def)























lemma coalesce_not_nullish: "\<not> nullish (coalesce p (JObj []))"
  by (simp add: coalesce_def)

lemma get_props:
  assumes "get page ''properties'' = Inr p"
  shows "get (coalesce p (JObj [])) k = Inr (property_of page k)"
  using assms get_total [OF coalesce_not_nullish, of p k]
  by (auto simp: property_of_def)

text \<open>What a successful extraction has read, field by field.\<close>

lemma extractTicket_Inr:
  assumes "extractTicket ev page = Inr t"
  shows "\<exists>apps areas v_title v_status v_summary v_spec_url v_due v_branch v_commit v_feature
            v_resolved_at v_type v_priority v_blocked_by v_blocks v_assigned.
           extractMultiSelect (property_of page ''Application'') = Inr apps \<and>
           extractMultiSelect (property_of page ''Area'') = Inr areas \<and>
           extractPlainText (property_of page ''Ticket'') = Inr v_title \<and>
           extractSelect (property_of page ''Status'') = Inr v_status \<and>
           extractPlainText (property_of page ''Summary'') = Inr v_summary \<and>
           extractUrl (property_of page ''Spec URL'') = Inr v_spec_url \<and>
           extractDate (property_of page ''Due'') = Inr v_due \<and>
           extractPlainText (property_of page ''Branch'') = Inr v_branch \<and>
           extractPlainText (property_of page ''Commit'') = Inr v_commit \<and>
           extractSelect (property_of page ''Feature'') = Inr v_feature \<and>
           extractDate (property_of page ''Resolved At'') = Inr v_resolved_at \<and>
           extractSelect (property_of page ''Type'') = Inr v_type \<and>
           extractSelect (property_of page ''Priority'') = Inr v_priority \<and>
           extractRelationIds (property_of page ''Dependency'') = Inr v_blocked_by \<and>
           extractRelationIds (property_of page ''Blocks '') = Inr v_blocks \<and>
           isAssignedToAISquad ev (property_of page ''Assignee'') = Inr v_assigned \<and>
           get page ''id'' = Inr (id_t t) \<and>
           get page ''created_time'' = Inr (created_at t) \<and>
           get page ''last_edited_time'' = Inr (updated_at t) \<and>
           title t = or_untitled v_title \<and>
           status t = coalesce v_status (JStr ''Open'') \<and>
           summary t = v_summary \<and>
           spec_url t = v_spec_url \<and>
           due t = v_due \<and>
           branch t = v_branch \<and>
           commit t = v_commit \<and>
           feature t = v_feature \<and>
           resolved_at t = v_resolved_at \<and>
           area t = coalesce (first_or_undef areas) JNull \<and>
           application t = coalesce (first_or_undef apps) JNull \<and>
           type_t t = v_type \<and>
           priority t = coalesce v_priority JNull \<and>
           blocked_by t = v_blocked_by \<and>
           blocks t = v_blocks \<and>
           assigned_to_ai_squad t = v_assigned"
  using assms
  by (auto simp: extractTicket_def ebind_eq_Inr Let_def get_props)








text \<open>The normalizer on the pages of the small store.\<close>

lemmas demo_shapes = title_prop_def status_prop_def select_prop_def multi_select_prop_def
  relation_prop_def people_prop_def demo_page_def

lemmas extract_defs = plain_text_of_def extractPlainText_def extractSelect_def
  extractMultiSelect_def extractUrl_def extractDate_def extractRelationIds_def
  extractAssigneeIds_def isAssignedToAISquad_def first_or_undef_def or_untitled_def
  coalesce_def opt_get_def js_join_def

lemma extract_page1:
  "extractTicket demo_env page1
   = Inr (demo_ticket ''t1'' ''Waits for t2'' ''Open'' (JStr ''P0'') [''t2''])"
  by (simp add: extractTicket_def page1_def demo_shapes extract_defs demo_env_def
      demo_ticket_def Let_def)

lemma extract_page2:
  "extractTicket demo_env page2 = Inr (demo_ticket ''t2'' ''Under way'' ''In Progress'' JNull [])"
  by (simp add: extractTicket_def page2_def demo_shapes extract_defs demo_env_def
      demo_ticket_def Let_def)

lemma extract_page3:
  "extractTicket demo_env page3 = Inr (demo_ticket ''t3'' ''Urgent'' ''Open'' (JStr ''P1'') [])"
  by (simp add: extractTicket_def page3_def demo_shapes extract_defs demo_env_def
      demo_ticket_def Let_def)

lemma extract_page4:
  "extractTicket demo_env page4 = Inr (demo_ticket ''t4'' ''Finished'' ''Done'' (JStr ''P0'') [])"
  by (simp add: extractTicket_def page4_def demo_shapes extract_defs demo_env_def
      demo_ticket_def Let_def)

lemma extract_archived:
  "extractTicket demo_env archived_page = Inr (demo_ticket ''t9'' ''Old'' ''Archived'' JNull [])"
  by (simp add: extractTicket_def archived_page_def demo_shapes extract_defs demo_env_def
      demo_ticket_def Let_def)

lemma extract_bare:
  "extractTicket demo_env bare_page
   = Inr \<lparr> id_t = JStr ''t7'', title = ''(untitled)'', status = JStr ''Open'', summary = None,
       spec_url = JNull, due = JNull, branch = None, area = JNull,
       application = JNull, type_t = JNull, priority = JNull,
       blocked_by = [], blocks = [], created_at = JUndef, updated_at = JUndef,
       assigned_to_ai_squad = False, commit = None, feature = JNull, resolved_at = JNull \<rparr>"
  by (simp add: extractTicket_def bare_page_def extract_defs demo_env_def Let_def)


lemma status_of_archived: "property_of archived_page ''Status'' = status_prop ''Archived''"
  by (simp add: property_of_def archived_page_def demo_page_def coalesce_def)

lemma extractSelect_option:
  "extractSelect (status_prop n) = Inr (JStr n)" "extractSelect (select_prop n) = Inr (JStr n)"
  by (simp_all add: extractSelect_def status_prop_def select_prop_def opt_get_def coalesce_def)

text \<open>
  C7, as the code has it. Reading the status never throws, and the ticket's status is the
  name the remote page carries, whatever that name is; it is \<^verbatim>\<open>Open\<close> when the page
  has no status property, or one with no name. A name outside the seven of the interface
  is kept as it is.
\<close>

theorem extractTicket_status:
  "(\<exists>v. extractSelect prop = Inr v) \<and>
   extractSelect (status_prop n) = Inr (JStr n) \<and>
   extractSelect (select_prop n) = Inr (JStr n) \<and>
   (extractTicket ev page = Inr t \<longrightarrow>
      (\<exists>v. extractSelect (property_of page ''Status'') = Inr v \<and>
           status t = (if nullish v then JStr ''Open'' else v)) \<and>
      (\<not> truthy (property_of page ''Status'') \<longrightarrow> status t = JStr ''Open'') \<and>
      (property_of page ''Status'' = status_prop n \<longrightarrow> status t = JStr n) \<and>
      (property_of page ''Status'' = select_prop n \<longrightarrow> status t = JStr n))"
proof -
  have "extractTicket ev page = Inr t \<longrightarrow>
      (\<exists>v. extractSelect (property_of page ''Status'') = Inr v \<and>
           status t = (if nullish v then JStr ''Open'' else v)) \<and>
      (\<not> truthy (property_of page ''Status'') \<longrightarrow> status t = JStr ''Open'') \<and>
      (property_of page ''Status'' = status_prop n \<longrightarrow> status t = JStr n) \<and>
      (property_of page ''Status'' = select_prop n \<longrightarrow> status t = JStr n)"
  proof
    assume "extractTicket ev page = Inr t"
    from extractTicket_Inr [OF this] obtain v
      where v: "extractSelect (property_of page ''Status'') = Inr v"
        and st: "status t = coalesce v (JStr ''Open'')"
      by blast
    have "\<not> truthy (property_of page ''Status'') \<longrightarrow> status t = JStr ''Open''"
    proof
      assume "\<not> truthy (property_of page ''Status'')"
      from extractors_absent [OF this] v have "v = JNull" by simp
      with st show "status t = JStr ''Open''" by (simp add: coalesce_def)
    qed
    moreover have "property_of page ''Status'' = status_prop n \<longrightarrow> status t = JStr n"
      using v st by (auto simp: extractSelect_option coalesce_def)
    moreover have "property_of page ''Status'' = select_prop n \<longrightarrow> status t = JStr n"
      using v st by (auto simp: extractSelect_option coalesce_def)
    ultimately show "(\<exists>v. extractSelect (property_of page ''Status'') = Inr v \<and>
           status t = (if nullish v then JStr ''Open'' else v)) \<and>
      (\<not> truthy (property_of page ''Status'') \<longrightarrow> status t = JStr ''Open'') \<and>
      (property_of page ''Status'' = status_prop n \<longrightarrow> status t = JStr n) \<and>
      (property_of page ''Status'' = select_prop n \<longrightarrow> status t = JStr n)"
      using v st by (simp add: coalesce_def)
  qed
  with extractSelect_total [of "prop"] extractSelect_option [of n] show ?thesis by simp
qed

lemma status_of_bare: "\<not> truthy (property_of bare_page ''Status'')"
  by (simp add: property_of_def bare_page_def coalesce_def)

theorem extractTicket_status_witness:
  "extractTicket demo_env archived_page
     = Inr (demo_ticket ''t9'' ''Old'' ''Archived'' JNull []) \<and>
   property_of archived_page ''Status'' = status_prop ''Archived'' \<and>
   status (demo_ticket ''t9'' ''Old'' ''Archived'' JNull []) = JStr ''Archived'' \<and>
   \<not> truthy (property_of bare_page ''Status'') \<and>
   (\<exists>t. extractTicket demo_env bare_page = Inr t \<and> status t = JStr ''Open'')"
proof -
  from extractTicket_status [of JUndef "''Archived''" demo_env archived_page
      "demo_ticket ''t9'' ''Old'' ''Archived'' JNull []"]
    extract_archived status_of_archived
  have a: "status (demo_ticket ''t9'' ''Old'' ''Archived'' JNull []) = JStr ''Archived''"
    by simp
  obtain t where t: "extractTicket demo_env bare_page = Inr t"
    using extract_bare by simp
  from extractTicket_status [of JUndef "''Archived''" demo_env bare_page t] t status_of_bare
  have "status t = JStr ''Open''" by simp
  with t have b: "\<exists>t. extractTicket demo_env bare_page = Inr t \<and> status t = JStr ''Open''"
    by blast
  show ?thesis
    by (intro conjI) (rule extract_archived status_of_archived a status_of_bare b)+
qed

text \<open>
  The claim as stated fails: a remote status outside the seven names is not replaced by
  \<^verbatim>\<open>Open\<close>; the ticket carries it.
\<close>

theorem extractTicket_status_counterexample:
  "map_sum (\<lambda>e. e) status (extractTicket demo_env archived_page) = Inr (JStr ''Archived'') \<and>
   ''Archived'' \<notin> set ShipyardStatus"
  by (simp add: extract_archived demo_ticket_def ShipyardStatus_def)








section \<open>Paginated fetcher\<close>

lemma fetch_page_eq:
  "fetch_page tr dsId cursor w
   = (read_page (fst (tr (net w) (query dsId cursor))),
      w\<lparr>net := snd (tr (net w) (query dsId cursor)), sent := sent w @ [query dsId cursor]\<rparr>)"
  by (simp add: fetch_page_def notionFetch_def split_def Let_def)

lemma fetch_loop_stop:
  assumes "read_page (fst (tr (net w) (query dsId cursor))) = Inr (ps, c)" and "\<not> truthy c"
  shows "fetch_loop tr dsId cursor pages w
         = Some (Inr (pages @ ps),
                 w\<lparr>net := snd (tr (net w) (query dsId cursor)),
                   sent := sent w @ [query dsId cursor]\<rparr>)"
  using assms by (subst fetch_loop.simps) (simp add: fetch_page_eq)

lemma fetch_loop_abort:
  assumes "read_page (fst (tr (net w) (query dsId cursor))) = Inl e"
  shows "fetch_loop tr dsId cursor pages w
         = Some (Inl e,
                 w\<lparr>net := snd (tr (net w) (query dsId cursor)),
                   sent := sent w @ [query dsId cursor]\<rparr>)"
  using assms by (subst fetch_loop.simps) (simp add: fetch_page_eq)

lemma fetch_loop_next:
  assumes "read_page (fst (tr (net w) (query dsId cursor))) = Inr (ps, c)" and "truthy c"
  shows "fetch_loop tr dsId cursor pages w
         = fetch_loop tr dsId c (pages @ ps)
             (w\<lparr>net := snd (tr (net w) (query dsId cursor)),
               sent := sent w @ [query dsId cursor]\<rparr>)"
  using assms by (subst fetch_loop.simps) (simp add: fetch_page_eq)

text \<open>
  The loop along a chain of answers: it sends one query for each answer, with the cursor
  the answer before handed out, and ends on the last answer, with every page's results in
  order, or with the last answer's error and no results at all.
\<close>

lemma fetch_loop_chain:
  assumes "answers tr dsId (net w) cursor ds"
    and "case read_page (last ds) of Inl e \<Rightarrow> True | Inr (ps, c) \<Rightarrow> \<not> truthy c"
  shows "\<exists>w'. fetch_loop tr dsId cursor pages w
             = Some (case read_page (last ds) of
                       Inl e \<Rightarrow> Inl e
                     | Inr (ps, c) \<Rightarrow> Inr (pages @ concat (map results_of ds)),
                     w') \<and>
           sent w' = sent w @ map (query dsId) (cursor # map cursor_of (butlast ds)) \<and>
           state_file w' = state_file w \<and> dataSourceId w' = dataSourceId w"
  using assms
proof (induction ds arbitrary: w cursor pages)
  case Nil
  then show ?case by simp
next
  case (Cons d ds)
  let ?q = "query dsId cursor"
  let ?w1 = "w\<lparr>net := snd (tr (net w) ?q), sent := sent w @ [?q]\<rparr>"
  show ?case
  proof (cases ds)
    case Nil
    with Cons.prems have d: "fst (tr (net w) ?q) = d"
      and fin: "case read_page d of Inl e \<Rightarrow> True | Inr (ps, c) \<Rightarrow> \<not> truthy c"
      by simp_all
    show ?thesis
    proof (cases "read_page d")
      case (Inl e)
      with d have "fetch_loop tr dsId cursor pages w = Some (Inl e, ?w1)"
        by (simp add: fetch_loop_abort)
      with Inl Nil show ?thesis by simp
    next
      case (Inr r)
      obtain ps c where r: "r = (ps, c)" by (cases r)
      with Inr fin have stop: "\<not> truthy c" by simp
      from d Inr r stop have "fetch_loop tr dsId cursor pages w = Some (Inr (pages @ ps), ?w1)"
        by (simp add: fetch_loop_stop)
      with Inr r Nil show ?thesis by (simp add: results_of_def)
    qed
  next
    case (Cons d' rest)
    with Cons.prems obtain ps c where d: "fst (tr (net w) ?q) = d"
      and page: "read_page d = Inr (ps, c)" and more: "truthy c"
      and chain: "answers tr dsId (snd (tr (net w) ?q)) c ds"
      by (auto split: sum.splits)
    from Cons Cons.prems(2)
    have fin: "case read_page (last ds) of Inl e \<Rightarrow> True | Inr (ps, c) \<Rightarrow> \<not> truthy c"
      by simp
    have "answers tr dsId (net ?w1) c ds" using chain by simp
    from Cons.IH [OF this fin, of "pages @ ps"] obtain w'
      where run: "fetch_loop tr dsId c (pages @ ps) ?w1
                  = Some (case read_page (last ds) of
                            Inl e \<Rightarrow> Inl e
                          | Inr (ps', c') \<Rightarrow> Inr ((pages @ ps) @ concat (map results_of ds)),
                          w')"
        and log: "sent w' = sent ?w1 @ map (query dsId) (c # map cursor_of (butlast ds))"
        and kept: "state_file w' = state_file ?w1" "dataSourceId w' = dataSourceId ?w1"
      by blast
    have step: "fetch_loop tr dsId cursor pages w = fetch_loop tr dsId c (pages @ ps) ?w1"
      using d page more by (simp add: fetch_loop_next)
    have dc: "cursor_of d = c" and dr: "results_of d = ps"
      using page by (simp_all add: cursor_of_def results_of_def)
    have ne: "ds \<noteq> []" using Cons by simp
    have l: "last (d # ds) = last ds" and b: "butlast (d # ds) = d # butlast ds"
      using ne by simp_all
    have c: "pages @ concat (map results_of (d # ds))
             = (pages @ ps) @ concat (map results_of ds)"
      by (simp add: dr)
    show ?thesis
      unfolding l b c step run
      by (rule exI [of _ w']) (simp add: log kept dc)
  qed
qed

lemma read_page_error:
  assumes "is_error_object d"
  shows "\<exists>m. get d ''message'' = Inr m \<and>
             read_page d = Inl (case toString m of Inl e \<Rightarrow> e | Inr s \<Rightarrow> QueryError s)"
proof -
  from assms have obj: "get d ''object'' = Inr (JStr ''error'')"
    by (simp add: is_error_object_def)
  then have "\<not> nullish d" by (cases d) simp_all
  from get_total [OF this, of "''message''"] obtain m where "get d ''message'' = Inr m"
    by blast
  with obj show ?thesis by (simp add: read_page_def fail_with_def split: sum.splits)
qed

lemma answers_nonempty: "answers tr dsId s cursor ds \<Longrightarrow> ds \<noteq> []"
  by (cases ds) simp_all

lemma read_page_listing: "read_page (listing ps b c) = Inr (ps, if b then c else JUndef)"
  by (simp add: read_page_def listing_def js_iterate_def coalesce_def)

lemma read_page_error_reply:
  "read_page error_reply = Inl (QueryError ''rate limited'')"
  "is_error_object error_reply"
  by (simp_all add: read_page_def error_reply_def is_error_object_def fail_with_def)

lemma failing_resolve:
  "resolveDataSourceId demo_env failing_remote demo_world
   = (Inr (JStr ''ds-tickets''),
      demo_world\<lparr>sent := [GetDatabase ''db''], dataSourceId := JStr ''ds-tickets''\<rparr>)"
  by (simp add: resolveDataSourceId_def demo_world_def demo_env_def notionFetch_def
      pick_source_def coalesce_def opt_get_def has_length_zero_def js_find_def
      name_includes_Tickets_def sublist_code)

lemma odd_resolve:
  "resolveDataSourceId demo_env odd_remote demo_world
   = (Inr (JObj [(''toString'', JNum ''1'')]),
      demo_world\<lparr>sent := [GetDatabase ''db''],
                 dataSourceId := JObj [(''toString'', JNum ''1'')]\<rparr>)"
  by (simp add: resolveDataSourceId_def demo_world_def demo_env_def notionFetch_def
      pick_source_def coalesce_def opt_get_def has_length_zero_def js_find_def
      name_includes_Tickets_def sublist_code)

lemma demo_answers:
  "answers demo_remote ''ds-tickets'' () JUndef
     [listing [page1] True (JStr ''A''), listing [page2] True (JStr ''B''),
      listing [page3, page4] False JNull]"
  by (simp add: query_def read_page_listing)

lemma failing_answers:
  "answers failing_remote ''ds-tickets'' () JUndef
     [listing [page1] True (JStr ''A''), error_reply]"
  by (simp add: query_def read_page_listing)

text \<open>
  C3. Once the data source is resolved, and whatever chain of answers the remote gives
  (each but the last a page handing out a further cursor): if the last answer is a page
  with no further cursor, the fetch returns the results of all pages, concatenated in the
  order of the chain, after one query per answer, each carrying the cursor the answer
  before handed out (three queries for the cursors A, B, none); if the last answer is an
  error object, the fetch fails with the query error carrying the remote's message, and
  the caller gets no page at all. The queries name the data source by its id as it
  prints; an id that cannot be printed ends the fetch before any query, and a message
  that cannot be printed turns the failure into that of the printing.
\<close>

theorem fetchAll_pagination:
  assumes "resolveDataSourceId ev tr w = (Inr dsId, w1)"
  shows "(toString dsId = Inr i \<and> answers tr i (net w1) JUndef ds \<longrightarrow>
            (read_page (last ds) = Inr (ps, c) \<and> \<not> truthy c \<longrightarrow>
               (\<exists>w'. fetchAllShipyardPages ev tr w
                       = Some (Inr (concat (map results_of ds)), w') \<and>
                     sent w' = sent w1 @ map (query i) (JUndef # map cursor_of (butlast ds)) \<and>
                     length (sent w') = length (sent w1) + length ds)) \<and>
            (is_error_object (last ds) \<longrightarrow>
               (\<exists>w' m. get (last ds) ''message'' = Inr m \<and>
                     fetchAllShipyardPages ev tr w
                       = Some (Inl (case toString m of Inl e \<Rightarrow> e | Inr s \<Rightarrow> QueryError s),
                               w') \<and>
                     sent w' = sent w1 @ map (query i) (JUndef # map cursor_of (butlast ds)) \<and>
                     length (sent w') = length (sent w1) + length ds))) \<and>
         (toString dsId = Inl e \<longrightarrow> fetchAllShipyardPages ev tr w = Some (Inl e, w1))"
proof (intro conjI impI)
  assume "toString dsId = Inl e"
  then show "fetchAllShipyardPages ev tr w = Some (Inl e, w1)"
    by (simp add: fetchAllShipyardPages_def assms)
next
  assume a: "toString dsId = Inr i \<and> answers tr i (net w1) JUndef ds"
  then have chain: "answers tr i (net w1) JUndef ds" by simp
  have run: "fetchAllShipyardPages ev tr w = fetch_loop tr i JUndef [] w1"
    using a by (simp add: fetchAllShipyardPages_def assms)
  have len: "length (JUndef # map cursor_of (butlast ds)) = length ds"
    using answers_nonempty [OF chain] by simp
  {
    assume "read_page (last ds) = Inr (ps, c) \<and> \<not> truthy c"
    then have page: "read_page (last ds) = Inr (ps, c)" and stop: "\<not> truthy c" by simp_all
    from fetch_loop_chain [OF chain, of "[]"] page stop obtain w'
      where "fetch_loop tr i JUndef [] w1 = Some (Inr (concat (map results_of ds)), w')"
        and "sent w' = sent w1 @ map (query i) (JUndef # map cursor_of (butlast ds))"
      by auto
    with run len
    show "\<exists>w'. fetchAllShipyardPages ev tr w = Some (Inr (concat (map results_of ds)), w') \<and>
               sent w' = sent w1 @ map (query i) (JUndef # map cursor_of (butlast ds)) \<and>
               length (sent w') = length (sent w1) + length ds"
      by (intro exI [of _ w']) simp
  }
  {
    assume "is_error_object (last ds)"
    from read_page_error [OF this] obtain m
      where m: "get (last ds) ''message'' = Inr m"
        and err: "read_page (last ds)
                  = Inl (case toString m of Inl e \<Rightarrow> e | Inr s \<Rightarrow> QueryError s)"
      by blast
    from fetch_loop_chain [OF chain, of "[]"] err obtain w'
      where "fetch_loop tr i JUndef [] w1
             = Some (Inl (case toString m of Inl e \<Rightarrow> e | Inr s \<Rightarrow> QueryError s), w')"
        and "sent w' = sent w1 @ map (query i) (JUndef # map cursor_of (butlast ds))"
      by auto
    with run len m
    show "\<exists>w' m. get (last ds) ''message'' = Inr m \<and>
               fetchAllShipyardPages ev tr w
                 = Some (Inl (case toString m of Inl e \<Rightarrow> e | Inr s \<Rightarrow> QueryError s), w') \<and>
               sent w' = sent w1 @ map (query i) (JUndef # map cursor_of (butlast ds)) \<and>
               length (sent w') = length (sent w1) + length ds"
      by (intro exI [of _ w'] exI [of _ m]) simp
  }
qed

theorem fetchAll_pagination_witness:
  "resolveDataSourceId demo_env demo_remote demo_world
     = (Inr (JStr ''ds-tickets''),
        demo_world\<lparr>sent := [GetDatabase ''db''], dataSourceId := JStr ''ds-tickets''\<rparr>) \<and>
   toString (JStr ''ds-tickets'') = Inr ''ds-tickets'' \<and>
   answers demo_remote ''ds-tickets'' () JUndef
     [listing [page1] True (JStr ''A''), listing [page2] True (JStr ''B''),
      listing [page3, page4] False JNull] \<and>
   (\<exists>w'. fetchAllShipyardPages demo_env demo_remote demo_world
            = Some (Inr [page1, page2, page3, page4], w') \<and>
          sent w' = [GetDatabase ''db'',
                     QueryDataSource ''ds-tickets'' 100 None,
                     QueryDataSource ''ds-tickets'' 100 (Some (JStr ''A'')),
                     QueryDataSource ''ds-tickets'' 100 (Some (JStr ''B''))]) \<and>
   answers failing_remote ''ds-tickets'' () JUndef
     [listing [page1] True (JStr ''A''), error_reply] \<and>
   (\<exists>w'. fetchAllShipyardPages demo_env failing_remote demo_world
            = Some (Inl (QueryError ''rate limited''), w') \<and>
          sent w' = [GetDatabase ''db'',
                     QueryDataSource ''ds-tickets'' 100 None,
                     QueryDataSource ''ds-tickets'' 100 (Some (JStr ''A''))]) \<and>
   toString (JObj [(''toString'', JNum ''1'')]) = Inl TypeError \<and>
   fetchAllShipyardPages demo_env odd_remote demo_world
     = Some (Inl TypeError,
             demo_world\<lparr>sent := [GetDatabase ''db''],
                        dataSourceId := JObj [(''toString'', JNum ''1'')]\<rparr>)"
proof -
  let ?w1 = "demo_world\<lparr>sent := [GetDatabase ''db''], dataSourceId := JStr ''ds-tickets''\<rparr>"
  have a1: "toString (JStr ''ds-tickets'') = Inr ''ds-tickets'' \<and>
     answers demo_remote ''ds-tickets'' (net ?w1) JUndef
     [listing [page1] True (JStr ''A''), listing [page2] True (JStr ''B''),
      listing [page3, page4] False JNull]"
    using demo_answers by simp
  have a2: "toString (JStr ''ds-tickets'') = Inr ''ds-tickets'' \<and>
     answers failing_remote ''ds-tickets'' (net ?w1) JUndef
     [listing [page1] True (JStr ''A''), error_reply]"
    using failing_answers by simp
  have last1: "read_page (last [listing [page1] True (JStr ''A''),
      listing [page2] True (JStr ''B''), listing [page3, page4] False JNull])
      = Inr ([page3, page4], JUndef) \<and> \<not> truthy JUndef"
    by (simp add: read_page_listing)
  have last2: "is_error_object (last [listing [page1] True (JStr ''A''), error_reply])"
    by (simp add: read_page_error_reply)
  from fetchAll_pagination [OF demo_resolve, THEN conjunct1, rule_format, OF a1,
      THEN conjunct1, rule_format, OF last1]
  obtain w' where
    "fetchAllShipyardPages demo_env demo_remote demo_world
       = Some (Inr [page1, page2, page3, page4], w')"
    "sent w' = [GetDatabase ''db'',
                QueryDataSource ''ds-tickets'' 100 None,
                QueryDataSource ''ds-tickets'' 100 (Some (JStr ''A'')),
                QueryDataSource ''ds-tickets'' 100 (Some (JStr ''B''))]"
    by (auto simp: read_page_listing results_of_def cursor_of_def query_def demo_world_def)
  then have 1: "\<exists>w'. fetchAllShipyardPages demo_env demo_remote demo_world
            = Some (Inr [page1, page2, page3, page4], w') \<and>
          sent w' = [GetDatabase ''db'',
                     QueryDataSource ''ds-tickets'' 100 None,
                     QueryDataSource ''ds-tickets'' 100 (Some (JStr ''A'')),
                     QueryDataSource ''ds-tickets'' 100 (Some (JStr ''B''))]"
    by blast
  from fetchAll_pagination [OF failing_resolve, THEN conjunct1, rule_format, OF a2,
      THEN conjunct2, rule_format, OF last2]
  obtain w'' where
    "fetchAllShipyardPages demo_env failing_remote demo_world
       = Some (Inl (QueryError ''rate limited''), w'')"
    "sent w'' = [GetDatabase ''db'',
                 QueryDataSource ''ds-tickets'' 100 None,
                 QueryDataSource ''ds-tickets'' 100 (Some (JStr ''A''))]"
    by (auto simp: read_page_listing results_of_def cursor_of_def query_def error_reply_def
        demo_world_def)
  then have 2: "\<exists>w'. fetchAllShipyardPages demo_env failing_remote demo_world
            = Some (Inl (QueryError ''rate limited''), w') \<and>
          sent w' = [GetDatabase ''db'',
                     QueryDataSource ''ds-tickets'' 100 None,
                     QueryDataSource ''ds-tickets'' 100 (Some (JStr ''A''))]"
    by blast
  have unprintable: "toString (JObj [(''toString'', JNum ''1'')]) = Inl TypeError" by simp
  note 3 = fetchAll_pagination [OF odd_resolve, THEN conjunct2, rule_format, OF unprintable]
  have 4: "toString (JStr ''ds-tickets'') = Inr ''ds-tickets''" by simp
  show ?thesis
    by (intro conjI) (rule demo_resolve demo_answers failing_answers 1 2 3 4 unprintable)+
qed

section \<open>The sort\<close>

lemma insert_by_mset:
  "insert_by cmp x ys = Inr zs \<Longrightarrow> mset zs = add_mset x (mset ys)"
proof (induction ys arbitrary: zs)
  case Nil
  then show ?case by auto
next
  case (Cons y ys)
  then show ?case by (auto split: sum.splits if_splits)
qed

lemma js_sort_mset: "js_sort cmp xs = Inr ys \<Longrightarrow> mset ys = mset xs"
proof (induction xs arbitrary: ys)
  case Nil
  then show ?case by simp
next
  case (Cons x xs)
  then show ?case by (auto split: sum.splits dest: insert_by_mset)
qed

text \<open>
  Where the comparator answers as a key order does, the sort is the stable insertion sort
  by that key.
\<close>

lemma insert_by_insort:
  fixes key :: "'a \<Rightarrow> 'k::linorder"
  assumes "\<forall>y \<in> set ys. \<exists>r. cmp x y = Inr r \<and> (r \<le> 0) = (key x \<le> key y)"
  shows "insert_by cmp x ys = Inr (insort_key key x ys)"
  using assms by (induction ys) auto

lemma js_sort_sort_key:
  fixes key :: "'a \<Rightarrow> 'k::linorder"
  assumes "\<forall>x \<in> set xs. \<forall>y \<in> set xs. \<exists>r. cmp x y = Inr r \<and> (r \<le> 0) = (key x \<le> key y)"
  shows "js_sort cmp xs = Inr (sort_key key xs)"
  using assms
proof (induction xs)
  case Nil
  show ?case by simp
next
  case (Cons x xs)
  then have "js_sort cmp xs = Inr (sort_key key xs)" by simp
  moreover have "insert_by cmp x (sort_key key xs) = Inr (insort_key key x (sort_key key xs))"
    using Cons.prems by (intro insert_by_insort) simp
  ultimately show ?case by simp
qed

lemma two_key_le_iff: "two_key_le k1 k2 = (k1 \<le> k2)"
  by (cases k1; cases k2) (auto simp: two_key_le_def less_eq_prod_def)

lemma collatesD:
  assumes "collates lc ps" and "p \<in> set ps" and "q \<in> set ps"
  shows "(lc p q \<le> 0) = (p \<le> q)"
  using assms by (simp add: collates_def list_all_iff)

lemma priority_coalesce:
  "is_priority p \<Longrightarrow> coalesce p (JStr ''P4'') = JStr (priority_text p)"
  by (cases p) (simp_all add: is_priority_def coalesce_def priority_text_def)

lemma compare_blocked_priority_key:
  assumes "is_priority pa" and "is_priority pb"
    and "(lc (priority_text pa) (priority_text pb) \<le> 0) = (priority_text pa \<le> priority_text pb)"
  shows "\<exists>r. compare_blocked_priority lc ba pa bb pb = Inr r \<and>
             (r \<le> 0) = ((ba \<noteq> [], priority_text pa) \<le> (bb \<noteq> [], priority_text pb))"
  using assms
  by (auto simp: compare_blocked_priority_def localeCompare_def priority_coalesce
      less_eq_prod_def Let_def)

lemma sort_key_two_keys:
  fixes key :: "'a \<Rightarrow> bool \<times> string"
  shows "sorted_wrt (\<lambda>a b. two_key_le (key a) (key b)) (sort_key key xs)"
  using sorted_sort_key [of key xs] by (simp add: sorted_map two_key_le_iff)

section \<open>Queue builder\<close>

lemma syncState_Some:
  assumes "syncState ev lc now tr w = Some (Inr st, w')"
  shows "\<exists>pages w1 all_tickets q.
           fetchAllShipyardPages ev tr w = Some (Inr pages, w1) \<and>
           emap (extractTicket ev) pages = Inr all_tickets \<and>
           js_sort (compare_items lc) (map toQueueItem (filter is_active all_tickets)) = Inr q \<and>
           st = \<lparr> last_synced = now, queue = q, history = load_history (state_file w1) \<rparr> \<and>
           w' = w1\<lparr>state_file := write_state st\<rparr>"
  using assms unfolding syncState_def
  by (auto split: option.splits sum.splits prod.splits simp: ebind_eq_Inr Let_def)

lemma syncState0_Some:
  assumes "syncState0 ev lc now tr w = Some (Inr st, w')"
  shows "\<exists>pages w1 all_tickets q.
           fetchAllShipyardPages ev tr w = Some (Inr pages, w1) \<and>
           emap (extractTicket0 ev) pages = Inr all_tickets \<and>
           js_sort (compare_items lc) (map toQueueItem (filter (is_active0 ev) all_tickets))
             = Inr q \<and>
           st = \<lparr> last_synced = now, queue = q, history = load_history (state_file w1) \<rparr> \<and>
           w' = w1\<lparr>state_file := write_state st\<rparr>"
  using assms unfolding syncState0_def
  by (auto split: option.splits sum.splits prod.splits simp: ebind_eq_Inr Let_def)

lemma fetchReadyTickets_Some:
  assumes "fetchReadyTickets ev lc tr w = Some (Inr ts, w')"
  shows "\<exists>pages all_tickets.
           fetchAllShipyardPages ev tr w = Some (Inr pages, w') \<and>
           emap (extractTicket ev) pages = Inr all_tickets \<and>
           js_sort (compare_tickets lc) (filter is_ready all_tickets) = Inr ts"
  using assms unfolding fetchReadyTickets_def
  by (auto split: option.splits sum.splits prod.splits simp: ebind_eq_Inr)

lemma items_sorted_by_key:
  assumes sorted: "js_sort (compare_items lc) items = Inr q"
    and typed: "list_all (\<lambda>x. is_priority (priority_q x)) q"
    and coll: "collates lc (map (\<lambda>x. priority_text (priority_q x)) q)"
  shows "q = sort_key item_key items"
proof -
  from js_sort_mset [OF sorted] have same: "set q = set items" by (rule mset_eq_setD)
  have "\<forall>x \<in> set items. \<forall>y \<in> set items.
          \<exists>r. compare_items lc x y = Inr r \<and> (r \<le> 0) = (item_key x \<le> item_key y)"
  proof (intro ballI)
    fix x y assume "x \<in> set items" "y \<in> set items"
    then have x: "x \<in> set q" and y: "y \<in> set q" using same by simp_all
    from typed x y have "is_priority (priority_q x)" "is_priority (priority_q y)"
      by (simp_all add: list_all_iff)
    moreover from x y
    have "(lc (priority_text (priority_q x)) (priority_text (priority_q y)) \<le> 0)
          = (priority_text (priority_q x) \<le> priority_text (priority_q y))"
      by (intro collatesD [OF coll]) simp_all
    ultimately show "\<exists>r. compare_items lc x y = Inr r \<and>
                         (r \<le> 0) = (item_key x \<le> item_key y)"
      unfolding compare_items_def item_key_def by (rule compare_blocked_priority_key)
  qed
  from js_sort_sort_key [OF this] sorted show ?thesis by simp
qed

lemma tickets_sorted_by_key:
  assumes sorted: "js_sort (compare_tickets lc) tickets = Inr q"
    and typed: "list_all (\<lambda>x. is_priority (priority x)) q"
    and coll: "collates lc (map (\<lambda>x. priority_text (priority x)) q)"
  shows "q = sort_key ticket_key tickets"
proof -
  from js_sort_mset [OF sorted] have same: "set q = set tickets" by (rule mset_eq_setD)
  have "\<forall>x \<in> set tickets. \<forall>y \<in> set tickets.
          \<exists>r. compare_tickets lc x y = Inr r \<and> (r \<le> 0) = (ticket_key x \<le> ticket_key y)"
  proof (intro ballI)
    fix x y assume "x \<in> set tickets" "y \<in> set tickets"
    then have x: "x \<in> set q" and y: "y \<in> set q" using same by simp_all
    from typed x y have "is_priority (priority x)" "is_priority (priority y)"
      by (simp_all add: list_all_iff)
    moreover from x y
    have "(lc (priority_text (priority x)) (priority_text (priority y)) \<le> 0)
          = (priority_text (priority x) \<le> priority_text (priority y))"
      by (intro collatesD [OF coll]) simp_all
    ultimately show "\<exists>r. compare_tickets lc x y = Inr r \<and>
                         (r \<le> 0) = (ticket_key x \<le> ticket_key y)"
      unfolding compare_tickets_def ticket_key_def by (rule compare_blocked_priority_key)
  qed
  from js_sort_sort_key [OF this] sorted show ?thesis by simp
qed

text \<open>
  C1, as the code has it. The priorities are compared by \<^verbatim>\<open>localeCompare\<close>, the
  collation of the platform. Where the priorities of the tickets selected are strings or
  \<^verbatim>\<open>null\<close> and the collation orders them as their code units do (as it does
  \<^verbatim>\<open>P0\<close> to \<^verbatim>\<open>P4\<close>), the queue \<^verbatim>\<open>syncState\<close> builds and the tickets
  \<^verbatim>\<open>fetchReadyTickets\<close> returns are in ascending order of the two keys (tickets with a
  blocker after those without, then the priority as a string, none counting as
  \<^verbatim>\<open>P4\<close>), and the tickets with the same two keys stand in the order of the remote
  listing.
\<close>

theorem queue_order:
  "(syncState ev lc now tr w = Some (Inr st, w') \<and>
    list_all (\<lambda>q. is_priority (priority_q q)) (queue st) \<and>
    collates lc (map (\<lambda>q. priority_text (priority_q q)) (queue st)) \<longrightarrow>
      sorted_wrt (\<lambda>a b. two_key_le (item_key a) (item_key b)) (queue st) \<and>
      (\<exists>pages w1 all_tickets.
         fetchAllShipyardPages ev tr w = Some (Inr pages, w1) \<and>
         emap (extractTicket ev) pages = Inr all_tickets \<and>
         (\<forall>k. filter (\<lambda>q. item_key q = k) (queue st)
              = filter (\<lambda>q. item_key q = k) (map toQueueItem (filter is_active all_tickets))))) \<and>
   (fetchReadyTickets ev lc tr w = Some (Inr ts, w'') \<and>
    list_all (\<lambda>t. is_priority (priority t)) ts \<and>
    collates lc (map (\<lambda>t. priority_text (priority t)) ts) \<longrightarrow>
      sorted_wrt (\<lambda>a b. two_key_le (ticket_key a) (ticket_key b)) ts \<and>
      (\<exists>pages all_tickets.
         fetchAllShipyardPages ev tr w = Some (Inr pages, w'') \<and>
         emap (extractTicket ev) pages = Inr all_tickets \<and>
         (\<forall>k. filter (\<lambda>t. ticket_key t = k) ts
              = filter (\<lambda>t. ticket_key t = k) (filter is_ready all_tickets))))"
proof (intro conjI impI)
  assume a: "syncState ev lc now tr w = Some (Inr st, w') \<and>
    list_all (\<lambda>q. is_priority (priority_q q)) (queue st) \<and>
    collates lc (map (\<lambda>q. priority_text (priority_q q)) (queue st))"
  from a syncState_Some [of ev lc now tr w st w'] obtain pages w1 all_tickets q
    where fetched: "fetchAllShipyardPages ev tr w = Some (Inr pages, w1)"
      and extracted: "emap (extractTicket ev) pages = Inr all_tickets"
      and sorted: "js_sort (compare_items lc) (map toQueueItem (filter is_active all_tickets))
                   = Inr q"
      and q: "queue st = q"
    by auto
  from a q have "list_all (\<lambda>x. is_priority (priority_q x)) q"
    and "collates lc (map (\<lambda>x. priority_text (priority_q x)) q)"
    by simp_all
  from items_sorted_by_key [OF sorted this]
  have eq: "queue st = sort_key item_key (map toQueueItem (filter is_active all_tickets))"
    using q by simp
  show "sorted_wrt (\<lambda>a b. two_key_le (item_key a) (item_key b)) (queue st)"
    unfolding eq by (rule sort_key_two_keys)
  show "\<exists>pages w1 all_tickets.
         fetchAllShipyardPages ev tr w = Some (Inr pages, w1) \<and>
         emap (extractTicket ev) pages = Inr all_tickets \<and>
         (\<forall>k. filter (\<lambda>q. item_key q = k) (queue st)
              = filter (\<lambda>q. item_key q = k) (map toQueueItem (filter is_active all_tickets)))"
    using fetched extracted unfolding eq
    by (intro exI [of _ pages] exI [of _ w1] exI [of _ all_tickets])
       (simp add: sort_key_stable)
next
  assume a: "fetchReadyTickets ev lc tr w = Some (Inr ts, w'') \<and>
    list_all (\<lambda>t. is_priority (priority t)) ts \<and>
    collates lc (map (\<lambda>t. priority_text (priority t)) ts)"
  from a fetchReadyTickets_Some [of ev lc tr w ts w''] obtain pages all_tickets
    where fetched: "fetchAllShipyardPages ev tr w = Some (Inr pages, w'')"
      and extracted: "emap (extractTicket ev) pages = Inr all_tickets"
      and sorted: "js_sort (compare_tickets lc) (filter is_ready all_tickets) = Inr ts"
    by auto
  from a have "list_all (\<lambda>x. is_priority (priority x)) ts"
    and "collates lc (map (\<lambda>x. priority_text (priority x)) ts)"
    by simp_all
  from tickets_sorted_by_key [OF sorted this]
  have eq: "ts = sort_key ticket_key (filter is_ready all_tickets)" .
  show "sorted_wrt (\<lambda>a b. two_key_le (ticket_key a) (ticket_key b)) ts"
    unfolding eq by (rule sort_key_two_keys)
  show "\<exists>pages all_tickets.
         fetchAllShipyardPages ev tr w = Some (Inr pages, w'') \<and>
         emap (extractTicket ev) pages = Inr all_tickets \<and>
         (\<forall>k. filter (\<lambda>t. ticket_key t = k) ts
              = filter (\<lambda>t. ticket_key t = k) (filter is_ready all_tickets))"
    using fetched extracted unfolding eq
    by (intro exI [of _ pages] exI [of _ all_tickets]) (simp add: sort_key_stable)
qed

text \<open>The bridge run on the small store.\<close>

lemma demo_resolve_db:
  assumes "NOTION_SHIPYARD_DB_ID ev = ''db''"
  shows "resolveDataSourceId ev demo_remote demo_world
         = (Inr (JStr ''ds-tickets''),
            demo_world\<lparr>sent := [GetDatabase ''db''], dataSourceId := JStr ''ds-tickets''\<rparr>)"
  using assms
  by (simp add: resolveDataSourceId_def demo_world_def notionFetch_def
      pick_source_def coalesce_def opt_get_def has_length_zero_def js_find_def
      name_includes_Tickets_def sublist_code)

lemma demo_fetch_db:
  assumes "NOTION_SHIPYARD_DB_ID ev = ''db''"
  shows "fetchAllShipyardPages ev demo_remote demo_world
         = Some (Inr [page1, page2, page3, page4], demo_fetched)"
proof -
  let ?w1 = "demo_world\<lparr>sent := [GetDatabase ''db''], dataSourceId := JStr ''ds-tickets''\<rparr>"
  let ?ds = "''ds-tickets''"
  let ?w2 = "?w1\<lparr>net := snd (demo_remote (net ?w1) (query ?ds JUndef)),
                 sent := sent ?w1 @ [query ?ds JUndef]\<rparr>"
  let ?w3 = "?w2\<lparr>net := snd (demo_remote (net ?w2) (query ?ds (JStr ''A''))),
                 sent := sent ?w2 @ [query ?ds (JStr ''A'')]\<rparr>"
  let ?w4 = "?w3\<lparr>net := snd (demo_remote (net ?w3) (query ?ds (JStr ''B''))),
                 sent := sent ?w3 @ [query ?ds (JStr ''B'')]\<rparr>"
  have r1: "read_page (fst (demo_remote (net ?w1) (query ?ds JUndef)))
            = Inr ([page1], JStr ''A'')"
    by (simp add: query_def read_page_listing)
  have r2: "read_page (fst (demo_remote (net ?w2) (query ?ds (JStr ''A''))))
            = Inr ([page2], JStr ''B'')"
    by (simp add: query_def read_page_listing)
  have r3: "read_page (fst (demo_remote (net ?w3) (query ?ds (JStr ''B''))))
            = Inr ([page3, page4], JUndef)"
    by (simp add: query_def read_page_listing)
  have t1: "truthy (JStr ''A'')" and t2: "truthy (JStr ''B'')" and t3: "\<not> truthy JUndef"
    by simp_all
  have "fetch_loop demo_remote ?ds JUndef [] ?w1
        = fetch_loop demo_remote ?ds (JStr ''A'') ([] @ [page1]) ?w2"
    by (rule fetch_loop_next [where tr = demo_remote and w = ?w1 and dsId = ?ds
          and cursor = JUndef and ps = "[page1]" and c = "JStr ''A''", OF r1 t1])
  also have "\<dots> = fetch_loop demo_remote ?ds (JStr ''B'') (([] @ [page1]) @ [page2]) ?w3"
    by (rule fetch_loop_next [where tr = demo_remote and w = ?w2 and dsId = ?ds
          and cursor = "JStr ''A''" and ps = "[page2]" and c = "JStr ''B''", OF r2 t2])
  also have "\<dots> = Some (Inr ((([] @ [page1]) @ [page2]) @ [page3, page4]), ?w4)"
    by (rule fetch_loop_stop [where tr = demo_remote and w = ?w3 and dsId = ?ds
          and cursor = "JStr ''B''" and ps = "[page3, page4]" and c = JUndef, OF r3 t3])
  finally show ?thesis
    unfolding fetchAllShipyardPages_def demo_resolve_db [OF assms]
    by (simp add: demo_fetched_def demo_world_def query_def)
qed

lemma single_resolve_db:
  assumes "NOTION_SHIPYARD_DB_ID ev = ''db''"
  shows "resolveDataSourceId ev (single_remote ps) demo_world
         = (Inr (JStr ''ds-tickets''),
            demo_world\<lparr>sent := [GetDatabase ''db''], dataSourceId := JStr ''ds-tickets''\<rparr>)"
  using assms
  by (simp add: resolveDataSourceId_def demo_world_def notionFetch_def
      pick_source_def coalesce_def opt_get_def has_length_zero_def js_find_def
      name_includes_Tickets_def sublist_code)

lemma single_fetch_db:
  assumes "NOTION_SHIPYARD_DB_ID ev = ''db''"
  shows "fetchAllShipyardPages ev (single_remote ps) demo_world = Some (Inr ps, single_fetched)"
proof -
  let ?w1 = "demo_world\<lparr>sent := [GetDatabase ''db''], dataSourceId := JStr ''ds-tickets''\<rparr>"
  let ?ds = "''ds-tickets''"
  let ?w2 = "?w1\<lparr>net := snd (single_remote ps (net ?w1) (query ?ds JUndef)),
                 sent := sent ?w1 @ [query ?ds JUndef]\<rparr>"
  have r: "read_page (fst (single_remote ps (net ?w1) (query ?ds JUndef))) = Inr (ps, JUndef)"
    by (simp add: query_def read_page_listing)
  have t: "\<not> truthy JUndef" by simp
  have "fetch_loop (single_remote ps) ?ds JUndef [] ?w1 = Some (Inr ([] @ ps), ?w2)"
    by (rule fetch_loop_stop [where tr = "single_remote ps" and w = ?w1 and dsId = ?ds
          and cursor = JUndef and ps = ps and c = JUndef, OF r t])
  then show ?thesis
    unfolding fetchAllShipyardPages_def single_resolve_db [OF assms]
    by (simp add: single_fetched_def demo_world_def query_def)
qed

lemma single_fetch:
  "fetchAllShipyardPages demo_env (single_remote ps) demo_world = Some (Inr ps, single_fetched)"
  by (rule single_fetch_db) (simp add: demo_env_def)

lemma ids_of_relation:
  "emap (\<lambda>r. get r ''id'') (map (\<lambda>i. JObj [(''id'', JStr i)]) ids) = Inr (map JStr ids)"
  by (induction ids) simp_all

lemma extract_demo_page:
  assumes "ttl \<noteq> []"
  shows "extractTicket demo_env (demo_page i ttl st (select_prop p) deps)
         = Inr (demo_ticket i ttl st (JStr p) deps)"
  using assms
  by (simp add: extractTicket_def demo_shapes extract_defs demo_env_def
      demo_ticket_def Let_def ids_of_relation)

lemma demo_fetch:
  "fetchAllShipyardPages demo_env demo_remote demo_world
   = Some (Inr [page1, page2, page3, page4], demo_fetched)"
  by (rule demo_fetch_db) (simp add: demo_env_def)

lemma demo_tickets:
  "emap (extractTicket demo_env) [page1, page2, page3, page4]
   = Inr [ticket1, ticket2, ticket3, ticket4]"
  by (simp add: extract_page1 extract_page2 extract_page3 extract_page4
      ticket1_def ticket2_def ticket3_def ticket4_def)

lemma demo_active:
  "filter is_active [ticket1, ticket2, ticket3, ticket4] = [ticket1, ticket2, ticket3]"
  by (simp add: is_active_def ticket1_def ticket2_def ticket3_def ticket4_def demo_ticket_def
      TARGET_APP_def excluded_def)

lemma demo_ready:
  "filter is_ready [ticket1, ticket2, ticket3, ticket4] = [ticket1, ticket3]"
  by (simp add: is_ready_def ticket1_def ticket2_def ticket3_def ticket4_def demo_ticket_def
      TARGET_APP_def)

lemma demo_sort_items:
  "js_sort (compare_items code_unit_order) (map toQueueItem [ticket1, ticket2, ticket3])
   = Inr [toQueueItem ticket3, toQueueItem ticket2, toQueueItem ticket1]"
  by (simp add: compare_items_def compare_blocked_priority_def localeCompare_def
      code_unit_order_def toQueueItem_def ticket1_def ticket2_def ticket3_def demo_ticket_def
      coalesce_def Let_def)

lemma demo_sort_tickets:
  "js_sort (compare_tickets code_unit_order) [ticket1, ticket3] = Inr [ticket3, ticket1]"
  by (simp add: compare_tickets_def compare_blocked_priority_def localeCompare_def
      code_unit_order_def ticket1_def ticket3_def demo_ticket_def
      coalesce_def Let_def)

lemma demo_queue:
  "ebind (emap (extractTicket demo_env) [page1, page2, page3, page4]) (\<lambda>all_tickets.
     js_sort (compare_items code_unit_order) (map toQueueItem (filter is_active all_tickets)))
   = Inr [toQueueItem ticket3, toQueueItem ticket2, toQueueItem ticket1]"
  unfolding demo_tickets ebind.simps demo_active demo_sort_items by (rule refl)

lemma demo_ready_sorted:
  "ebind (emap (extractTicket demo_env) [page1, page2, page3, page4]) (\<lambda>all_tickets.
     js_sort (compare_tickets code_unit_order) (filter is_ready all_tickets))
   = Inr [ticket3, ticket1]"
  unfolding demo_tickets ebind.simps demo_ready demo_sort_tickets by (rule refl)

lemma demo_sync:
  "syncState demo_env code_unit_order ''2026-11-03T10:00:00.000Z'' demo_remote demo_world
   = Some (Inr demo_state, demo_fetched\<lparr>state_file := write_state demo_state\<rparr>)"
  by (simp add: syncState_def demo_fetch demo_queue demo_state_def demo_fetched_def
      load_history_def Let_def del: emap.simps)

lemma demo_poll:
  "fetchReadyTickets demo_env code_unit_order demo_remote demo_world
   = Some (Inr [ticket3, ticket1], demo_fetched)"
  by (simp add: fetchReadyTickets_def demo_fetch demo_ready_sorted del: emap.simps)

text \<open>The bridge on the store with ties, under the collation of the default locale.\<close>

lemma tie_extracted: "emap (extractTicket demo_env) tie_pages = Inr tie_tickets"
  by (simp add: tie_pages_def tie_tickets_def extract_demo_page)

lemma tie_selected:
  "filter is_active tie_tickets = tie_tickets"
  "filter is_ready tie_tickets = tie_tickets"
  by (simp_all add: is_active_def is_ready_def tie_tickets_def demo_ticket_def TARGET_APP_def
      excluded_def)

lemma locale_order_priorities:
  "locale_order ''P0'' ''P0'' = 0" "locale_order ''P0'' ''P1'' = - 1"
  "locale_order ''P1'' ''P0'' = 1" "locale_order ''P1'' ''P1'' = 0"
  by (simp_all add: locale_order_def lower_case_def Let_def)

lemma tie_sort_items:
  "js_sort (compare_items locale_order) (map toQueueItem tie_tickets)
   = Inr (map toQueueItem tie_sorted)"
  by (simp add: compare_items_def compare_blocked_priority_def localeCompare_def
      locale_order_priorities toQueueItem_def tie_tickets_def tie_sorted_def demo_ticket_def
      coalesce_def Let_def)

lemma tie_sort_tickets:
  "js_sort (compare_tickets locale_order) tie_tickets = Inr tie_sorted"
  by (simp add: compare_tickets_def compare_blocked_priority_def localeCompare_def
      locale_order_priorities tie_tickets_def tie_sorted_def demo_ticket_def
      coalesce_def Let_def)

lemma tie_queue:
  "ebind (emap (extractTicket demo_env) tie_pages) (\<lambda>all_tickets.
     js_sort (compare_items locale_order) (map toQueueItem (filter is_active all_tickets)))
   = Inr (map toQueueItem tie_sorted)"
  unfolding tie_extracted ebind.simps tie_selected tie_sort_items by (rule refl)

lemma tie_ready:
  "ebind (emap (extractTicket demo_env) tie_pages) (\<lambda>all_tickets.
     js_sort (compare_tickets locale_order) (filter is_ready all_tickets))
   = Inr tie_sorted"
  unfolding tie_extracted ebind.simps tie_selected tie_sort_tickets by (rule refl)

lemma tie_sync:
  "syncState demo_env locale_order ''2026-11-03T10:00:00.000Z'' (single_remote tie_pages)
     demo_world
   = Some (Inr tie_state, single_fetched\<lparr>state_file := write_state tie_state\<rparr>)"
  by (simp add: syncState_def single_fetch tie_queue tie_state_def single_fetched_def
      load_history_def Let_def del: emap.simps)

lemma tie_poll:
  "fetchReadyTickets demo_env locale_order (single_remote tie_pages) demo_world
   = Some (Inr tie_sorted, single_fetched)"
  by (simp add: fetchReadyTickets_def single_fetch tie_ready del: emap.simps)

lemma tie_typed:
  "list_all (\<lambda>q. is_priority (priority_q q)) (queue tie_state)"
  "collates locale_order (map (\<lambda>q. priority_text (priority_q q)) (queue tie_state))"
  "list_all (\<lambda>t. is_priority (priority t)) tie_sorted"
  "collates locale_order (map (\<lambda>t. priority_text (priority t)) tie_sorted)"
  by (simp_all add: tie_state_def tie_sorted_def toQueueItem_def demo_ticket_def
      is_priority_def priority_text_def collates_def locale_order_priorities)

theorem queue_order_witness:
  "syncState demo_env locale_order ''2026-11-03T10:00:00.000Z'' (single_remote tie_pages)
     demo_world
     = Some (Inr tie_state, single_fetched\<lparr>state_file := write_state tie_state\<rparr>) \<and>
   list_all (\<lambda>q. is_priority (priority_q q)) (queue tie_state) \<and>
   collates locale_order (map (\<lambda>q. priority_text (priority_q q)) (queue tie_state)) \<and>
   sorted_wrt (\<lambda>a b. two_key_le (item_key a) (item_key b)) (queue tie_state) \<and>
   map ticket_id (map toQueueItem tie_tickets)
     = [JStr ''a'', JStr ''b'', JStr ''c'', JStr ''d'', JStr ''e''] \<and>
   map ticket_id (queue tie_state)
     = [JStr ''b'', JStr ''a'', JStr ''c'', JStr ''d'', JStr ''e''] \<and>
   map item_key (queue tie_state)
     = [(False, ''P0''), (False, ''P1''), (False, ''P1''), (True, ''P0''), (True, ''P0'')] \<and>
   fetchReadyTickets demo_env locale_order (single_remote tie_pages) demo_world
     = Some (Inr tie_sorted, single_fetched) \<and>
   list_all (\<lambda>t. is_priority (priority t)) tie_sorted \<and>
   collates locale_order (map (\<lambda>t. priority_text (priority t)) tie_sorted) \<and>
   sorted_wrt (\<lambda>a b. two_key_le (ticket_key a) (ticket_key b)) tie_sorted \<and>
   map id_t tie_sorted = [JStr ''b'', JStr ''a'', JStr ''c'', JStr ''d'', JStr ''e''] \<and>
   collates locale_order [''P0'', ''P1'', ''P2'', ''P3'', ''P4'']"
proof -
  note inst = queue_order [of demo_env locale_order "''2026-11-03T10:00:00.000Z''"
      "single_remote tie_pages" demo_world tie_state
      "single_fetched\<lparr>state_file := write_state tie_state\<rparr>" tie_sorted single_fetched]
  from inst [THEN conjunct1] tie_sync tie_typed(1,2)
  have a: "sorted_wrt (\<lambda>a b. two_key_le (item_key a) (item_key b)) (queue tie_state)"
    by simp
  from inst [THEN conjunct2] tie_poll tie_typed(3,4)
  have b: "sorted_wrt (\<lambda>a b. two_key_le (ticket_key a) (ticket_key b)) tie_sorted"
    by simp
  have c: "map ticket_id (map toQueueItem tie_tickets)
      = [JStr ''a'', JStr ''b'', JStr ''c'', JStr ''d'', JStr ''e'']"
    "map ticket_id (queue tie_state)
      = [JStr ''b'', JStr ''a'', JStr ''c'', JStr ''d'', JStr ''e'']"
    "map item_key (queue tie_state)
      = [(False, ''P0''), (False, ''P1''), (False, ''P1''), (True, ''P0''), (True, ''P0'')]"
    "map id_t tie_sorted = [JStr ''b'', JStr ''a'', JStr ''c'', JStr ''d'', JStr ''e'']"
    by (simp_all add: tie_state_def tie_tickets_def tie_sorted_def toQueueItem_def
        demo_ticket_def item_key_def priority_text_def)
  have d: "collates locale_order [''P0'', ''P1'', ''P2'', ''P3'', ''P4'']"
    by (simp add: collates_def locale_order_def lower_case_def Let_def)
  show ?thesis
    by (intro conjI) (rule tie_sync tie_poll tie_typed a b c d)+
qed

text \<open>
  The claim as stated fails where a priority is not one of the five names: the
  comparison is the locale's, not the code units', so a ticket of priority \<^verbatim>\<open>p1\<close> is
  put before one of priority \<^verbatim>\<open>P2\<close>, against the lexicographic order.
\<close>

lemma case_extracted: "emap (extractTicket demo_env) case_pages = Inr case_tickets"
  by (simp add: case_pages_def case_tickets_def extract_demo_page)

lemma case_selected:
  "filter is_active case_tickets = case_tickets"
  "filter is_ready case_tickets = case_tickets"
  by (simp_all add: is_active_def is_ready_def case_tickets_def demo_ticket_def TARGET_APP_def
      excluded_def)

lemma locale_order_case: "locale_order ''P2'' ''p1'' = 1"
  by (simp add: locale_order_def lower_case_def Let_def)

lemma case_sort_items:
  "js_sort (compare_items locale_order) (map toQueueItem case_tickets)
   = Inr (map toQueueItem (rev case_tickets))"
  by (simp add: compare_items_def compare_blocked_priority_def localeCompare_def
      locale_order_case toQueueItem_def case_tickets_def demo_ticket_def
      coalesce_def Let_def)

lemma case_queue:
  "ebind (emap (extractTicket demo_env) case_pages) (\<lambda>all_tickets.
     js_sort (compare_items locale_order) (map toQueueItem (filter is_active all_tickets)))
   = Inr (map toQueueItem (rev case_tickets))"
  unfolding case_extracted ebind.simps case_selected case_sort_items by (rule refl)

lemma case_sync:
  "syncState demo_env locale_order ''2026-11-03T10:00:00.000Z'' (single_remote case_pages)
     demo_world
   = Some (Inr case_state, single_fetched\<lparr>state_file := write_state case_state\<rparr>)"
  by (simp add: syncState_def single_fetch case_queue case_state_def single_fetched_def
      load_history_def Let_def del: emap.simps)

theorem queue_order_counterexample:
  "syncState demo_env locale_order ''2026-11-03T10:00:00.000Z'' (single_remote case_pages)
     demo_world
     = Some (Inr case_state, single_fetched\<lparr>state_file := write_state case_state\<rparr>) \<and>
   map priority_q (queue case_state) = [JStr ''p1'', JStr ''P2''] \<and>
   map item_key (queue case_state) = [(False, ''p1''), (False, ''P2'')] \<and>
   \<not> ''p1'' \<le> ''P2'' \<and>
   \<not> sorted_wrt (\<lambda>a b. two_key_le (item_key a) (item_key b)) (queue case_state)"
  by (simp add: case_sync)
     (simp add: case_state_def case_tickets_def toQueueItem_def demo_ticket_def item_key_def
       priority_text_def two_key_le_def)

section \<open>Which tickets are in the active queue\<close>

lemma emap_list_all2: "emap f xs = Inr ys \<Longrightarrow> list_all2 (\<lambda>x y. f x = Inr y) xs ys"
proof (induction xs arbitrary: ys)
  case Nil
  then show ?case by simp
next
  case (Cons x xs)
  then show ?case by (auto split: sum.splits)
qed

lemma isAssigned_eligible:
  assumes "isAssignedToAISquad ev (property_of page ''Assignee'') = Inr b"
  shows "b = eligible ev page"
  using assms
  by (auto simp: isAssignedToAISquad_def eligible_def assignee_ids_def ebind_eq_Inr
      split: if_splits)

lemma extractTicket_eligible:
  assumes "extractTicket ev page = Inr t"
  shows "assigned_to_ai_squad t = eligible ev page"
proof -
  from extractTicket_Inr [OF assms] obtain b
    where "isAssignedToAISquad ev (property_of page ''Assignee'') = Inr b"
      and "assigned_to_ai_squad t = b"
    by blast
  with isAssigned_eligible show ?thesis by blast
qed

lemma extractTicket0_eligible:
  assumes "extractTicket0 ev page = Inr t"
  shows "assigned_to_ai_squad t = eligible ev page"
proof -
  from assms have "isAssignedToAISquad ev (property_of page ''Assignee'')
                   = Inr (assigned_to_ai_squad t)"
    by (auto simp: extractTicket0_def ebind_eq_Inr Let_def get_props)
  then show ?thesis by (rule isAssigned_eligible)
qed

lemma is_active_iff:
  "is_active t =
     (application t = JStr TARGET_APP \<and> assigned_to_ai_squad t \<and>
      status t \<notin> {JStr ''Done'', JStr ''Blocked by human'', JStr ''On hold''})"
  by (simp add: is_active_def excluded_def)

lemma is_active0_iff:
  "is_active0 ev t =
     ((TARGET_APP_env ev = [] \<or> application t = JStr (TARGET_APP_env ev)) \<and>
      assigned_to_ai_squad t \<and>
      status t \<notin> {JStr ''Done'', JStr ''Blocked by human'', JStr ''On hold''})"
  by (simp add: is_active0_def excluded_def Let_def)

text \<open>
  C2. In both copies of \<^verbatim>\<open>syncState\<close>, the queue holds exactly the items of the
  tickets whose application is the scope tag, that are eligible, and whose status is none
  of \<^verbatim>\<open>Done\<close>, \<^verbatim>\<open>Blocked by human\<close>, \<^verbatim>\<open>On hold\<close>; a ticket is eligible when no
  acting identity is configured or its page's assignee set holds the identity. The scope
  tag of \<^verbatim>\<open>scripts/notion-bridge.ts\<close> is fixed in the code; in the other copy it comes
  from the environment, and an unset tag lets every application through.
\<close>

theorem active_queue_membership:
  "(syncState ev lc now tr w = Some (Inr st, w') \<longrightarrow>
      (\<exists>pages w1 all_tickets.
         fetchAllShipyardPages ev tr w = Some (Inr pages, w1) \<and>
         emap (extractTicket ev) pages = Inr all_tickets \<and>
         list_all2 (\<lambda>page t. assigned_to_ai_squad t = eligible ev page) pages all_tickets \<and>
         mset (queue st)
           = mset (map toQueueItem
               (filter (\<lambda>t. application t = JStr TARGET_APP \<and> assigned_to_ai_squad t \<and>
                           status t \<notin> {JStr ''Done'', JStr ''Blocked by human'', JStr ''On hold''})
                  all_tickets)))) \<and>
   (syncState0 ev lc now tr w = Some (Inr st0, w0) \<longrightarrow>
      (\<exists>pages w1 all_tickets.
         fetchAllShipyardPages ev tr w = Some (Inr pages, w1) \<and>
         emap (extractTicket0 ev) pages = Inr all_tickets \<and>
         list_all2 (\<lambda>page t. assigned_to_ai_squad t = eligible ev page) pages all_tickets \<and>
         mset (queue st0)
           = mset (map toQueueItem
               (filter (\<lambda>t. (TARGET_APP_env ev = [] \<or> application t = JStr (TARGET_APP_env ev)) \<and>
                           assigned_to_ai_squad t \<and>
                           status t \<notin> {JStr ''Done'', JStr ''Blocked by human'', JStr ''On hold''})
                  all_tickets))))"
proof (intro conjI impI)
  assume "syncState ev lc now tr w = Some (Inr st, w')"
  from syncState_Some [OF this] obtain pages w1 all_tickets q
    where fetched: "fetchAllShipyardPages ev tr w = Some (Inr pages, w1)"
      and extracted: "emap (extractTicket ev) pages = Inr all_tickets"
      and sorted: "js_sort (compare_items lc) (map toQueueItem (filter is_active all_tickets))
                   = Inr q"
      and q: "queue st = q"
    by auto
  have "list_all2 (\<lambda>page t. assigned_to_ai_squad t = eligible ev page) pages all_tickets"
    using emap_list_all2 [OF extracted]
    by (rule list_all2_mono) (rule extractTicket_eligible)
  moreover have "mset (queue st) = mset (map toQueueItem (filter is_active all_tickets))"
    using js_sort_mset [OF sorted] q by simp
  ultimately show "\<exists>pages w1 all_tickets.
         fetchAllShipyardPages ev tr w = Some (Inr pages, w1) \<and>
         emap (extractTicket ev) pages = Inr all_tickets \<and>
         list_all2 (\<lambda>page t. assigned_to_ai_squad t = eligible ev page) pages all_tickets \<and>
         mset (queue st)
           = mset (map toQueueItem
               (filter (\<lambda>t. application t = JStr TARGET_APP \<and> assigned_to_ai_squad t \<and>
                           status t \<notin> {JStr ''Done'', JStr ''Blocked by human'', JStr ''On hold''})
                  all_tickets))"
    using fetched extracted unfolding is_active_iff [symmetric]
    by (intro exI [of _ pages] exI [of _ w1] exI [of _ all_tickets]) simp
next
  assume "syncState0 ev lc now tr w = Some (Inr st0, w0)"
  from syncState0_Some [OF this] obtain pages w1 all_tickets q
    where fetched: "fetchAllShipyardPages ev tr w = Some (Inr pages, w1)"
      and extracted: "emap (extractTicket0 ev) pages = Inr all_tickets"
      and sorted: "js_sort (compare_items lc)
                     (map toQueueItem (filter (is_active0 ev) all_tickets)) = Inr q"
      and q: "queue st0 = q"
    by auto
  have "list_all2 (\<lambda>page t. assigned_to_ai_squad t = eligible ev page) pages all_tickets"
    using emap_list_all2 [OF extracted]
    by (rule list_all2_mono) (rule extractTicket0_eligible)
  moreover have "mset (queue st0) = mset (map toQueueItem (filter (is_active0 ev) all_tickets))"
    using js_sort_mset [OF sorted] q by simp
  ultimately show "\<exists>pages w1 all_tickets.
         fetchAllShipyardPages ev tr w = Some (Inr pages, w1) \<and>
         emap (extractTicket0 ev) pages = Inr all_tickets \<and>
         list_all2 (\<lambda>page t. assigned_to_ai_squad t = eligible ev page) pages all_tickets \<and>
         mset (queue st0)
           = mset (map toQueueItem
               (filter (\<lambda>t. (TARGET_APP_env ev = [] \<or> application t = JStr (TARGET_APP_env ev)) \<and>
                           assigned_to_ai_squad t \<and>
                           status t \<notin> {JStr ''Done'', JStr ''Blocked by human'', JStr ''On hold''})
                  all_tickets))"
    using fetched extracted unfolding is_active0_iff [symmetric]
    by (intro exI [of _ pages] exI [of _ w1] exI [of _ all_tickets]) simp
qed

text \<open>The older copy of the bridge on the small store, with no application tag.\<close>

lemma extract0_page1:
  "extractTicket0 unscoped_env page1
   = Inr (demo_ticket0 ''t1'' ''Waits for t2'' ''Open'' (JStr ''P0'') [''t2''])"
  by (simp add: extractTicket0_def page1_def demo_shapes extract_defs demo_env_def
      unscoped_env_def demo_ticket0_def Let_def)

lemma extract0_page2:
  "extractTicket0 unscoped_env page2
   = Inr (demo_ticket0 ''t2'' ''Under way'' ''In Progress'' JNull [])"
  by (simp add: extractTicket0_def page2_def demo_shapes extract_defs demo_env_def
      unscoped_env_def demo_ticket0_def Let_def)

lemma extract0_page3:
  "extractTicket0 unscoped_env page3
   = Inr (demo_ticket0 ''t3'' ''Urgent'' ''Open'' (JStr ''P1'') [])"
  by (simp add: extractTicket0_def page3_def demo_shapes extract_defs demo_env_def
      unscoped_env_def demo_ticket0_def Let_def)

lemma extract0_page4:
  "extractTicket0 unscoped_env page4
   = Inr (demo_ticket0 ''t4'' ''Finished'' ''Done'' (JStr ''P0'') [])"
  by (simp add: extractTicket0_def page4_def demo_shapes extract_defs demo_env_def
      unscoped_env_def demo_ticket0_def Let_def)

lemma demo_tickets0:
  "emap (extractTicket0 unscoped_env) [page1, page2, page3, page4]
   = Inr [demo_ticket0 ''t1'' ''Waits for t2'' ''Open'' (JStr ''P0'') [''t2''],
          demo_ticket0 ''t2'' ''Under way'' ''In Progress'' JNull [],
          demo_ticket0 ''t3'' ''Urgent'' ''Open'' (JStr ''P1'') [],
          demo_ticket0 ''t4'' ''Finished'' ''Done'' (JStr ''P0'') []]"
  by (simp add: extract0_page1 extract0_page2 extract0_page3 extract0_page4)

lemma demo_items0:
  "map toQueueItem
     (filter (is_active0 unscoped_env)
        [demo_ticket0 ''t1'' ''Waits for t2'' ''Open'' (JStr ''P0'') [''t2''],
         demo_ticket0 ''t2'' ''Under way'' ''In Progress'' JNull [],
         demo_ticket0 ''t3'' ''Urgent'' ''Open'' (JStr ''P1'') [],
         demo_ticket0 ''t4'' ''Finished'' ''Done'' (JStr ''P0'') []])
   = map toQueueItem [ticket1, ticket2, ticket3]"
  by (simp add: is_active0_def unscoped_env_def demo_env_def excluded_def demo_ticket0_def
      toQueueItem_def ticket1_def ticket2_def ticket3_def demo_ticket_def)

lemma demo_queue0:
  "ebind (emap (extractTicket0 unscoped_env) [page1, page2, page3, page4]) (\<lambda>all_tickets.
     js_sort (compare_items code_unit_order)
       (map toQueueItem (filter (is_active0 unscoped_env) all_tickets)))
   = Inr [toQueueItem ticket3, toQueueItem ticket2, toQueueItem ticket1]"
  unfolding demo_tickets0 ebind.simps demo_items0 demo_sort_items by (rule refl)

lemma demo_sync0:
  "syncState0 unscoped_env code_unit_order ''2026-11-03T10:00:00.000Z'' demo_remote demo_world
   = Some (Inr demo_state, demo_fetched\<lparr>state_file := write_state demo_state\<rparr>)"
proof -
  have "fetchAllShipyardPages unscoped_env demo_remote demo_world
        = Some (Inr [page1, page2, page3, page4], demo_fetched)"
    by (rule demo_fetch_db) (simp add: unscoped_env_def demo_env_def)
  then show ?thesis
    by (simp add: syncState0_def demo_queue0 demo_state_def demo_fetched_def
        load_history_def Let_def del: emap.simps)
qed

theorem active_queue_membership_witness:
  "syncState demo_env code_unit_order ''2026-11-03T10:00:00.000Z'' demo_remote demo_world
     = Some (Inr demo_state, demo_fetched\<lparr>state_file := write_state demo_state\<rparr>) \<and>
   syncState0 unscoped_env code_unit_order ''2026-11-03T10:00:00.000Z'' demo_remote demo_world
     = Some (Inr demo_state, demo_fetched\<lparr>state_file := write_state demo_state\<rparr>) \<and>
   (\<exists>pages w1 all_tickets.
      fetchAllShipyardPages demo_env demo_remote demo_world = Some (Inr pages, w1) \<and>
      emap (extractTicket demo_env) pages = Inr all_tickets \<and>
      list_all2 (\<lambda>page t. assigned_to_ai_squad t = eligible demo_env page) pages all_tickets \<and>
      mset (queue demo_state)
        = mset (map toQueueItem
            (filter (\<lambda>t. application t = JStr TARGET_APP \<and> assigned_to_ai_squad t \<and>
                        status t \<notin> {JStr ''Done'', JStr ''Blocked by human'', JStr ''On hold''})
               all_tickets))) \<and>
   (\<exists>pages w1 all_tickets.
      fetchAllShipyardPages unscoped_env demo_remote demo_world = Some (Inr pages, w1) \<and>
      emap (extractTicket0 unscoped_env) pages = Inr all_tickets \<and>
      list_all2 (\<lambda>page t. assigned_to_ai_squad t = eligible unscoped_env page)
        pages all_tickets \<and>
      mset (queue demo_state)
        = mset (map toQueueItem
            (filter (\<lambda>t. (TARGET_APP_env unscoped_env = [] \<or>
                         application t = JStr (TARGET_APP_env unscoped_env)) \<and>
                        assigned_to_ai_squad t \<and>
                        status t \<notin> {JStr ''Done'', JStr ''Blocked by human'', JStr ''On hold''})
               all_tickets))) \<and>
   map ticket_id (queue demo_state) = [JStr ''t3'', JStr ''t2'', JStr ''t1'']"
proof -
  note a = active_queue_membership [of demo_env code_unit_order "''2026-11-03T10:00:00.000Z''"
      demo_remote demo_world demo_state "demo_fetched\<lparr>state_file := write_state demo_state\<rparr>",
      THEN conjunct1, rule_format, OF demo_sync]
  note b = active_queue_membership [of unscoped_env code_unit_order
      "''2026-11-03T10:00:00.000Z''" demo_remote demo_world _ _ demo_state
      "demo_fetched\<lparr>state_file := write_state demo_state\<rparr>",
      THEN conjunct2, rule_format, OF demo_sync0]
  have c: "map ticket_id (queue demo_state) = [JStr ''t3'', JStr ''t2'', JStr ''t1'']"
    by (simp add: demo_state_def toQueueItem_def ticket1_def ticket2_def ticket3_def
        demo_ticket_def)
  show ?thesis
    by (intro conjI) (rule demo_sync demo_sync0 a b c)+
qed

section \<open>The persisted snapshot\<close>

text \<open>The fetch neither reads nor writes the snapshot file.\<close>

lemma resolve_file:
  "state_file (snd (resolveDataSourceId ev tr w)) = state_file w"
  "resolveDataSourceId ev tr (w\<lparr>state_file := f\<rparr>)
   = (fst (resolveDataSourceId ev tr w), (snd (resolveDataSourceId ev tr w))\<lparr>state_file := f\<rparr>)"
  by (simp_all add: resolveDataSourceId_def notionFetch_def split_def Let_def split: sum.splits)

lemma fetch_loop_file:
  assumes "fetch_loop tr dsId cursor pages w = Some y"
  shows "state_file (snd y) = state_file w \<and>
         fetch_loop tr dsId cursor pages (w\<lparr>state_file := f\<rparr>)
           = Some (fst y, (snd y)\<lparr>state_file := f\<rparr>)"
proof (rule fetch_loop.raw_induct
    [where P = "\<lambda>tr dsId cursor pages w y.
         state_file (snd y) = state_file w \<and>
         fetch_loop tr dsId cursor pages (w\<lparr>state_file := f\<rparr>)
           = Some (fst y, (snd y)\<lparr>state_file := f\<rparr>)",
     OF _ assms])
  fix loop :: "'a transport \<Rightarrow> string \<Rightarrow> jv \<Rightarrow> jv list \<Rightarrow> 'a world
                 \<Rightarrow> ((error + jv list) \<times> 'a world) option"
    and tr dsId cursor pages w y
  assume IH: "\<And>tr dsId cursor pages w y. loop tr dsId cursor pages w = Some y \<Longrightarrow>
         state_file (snd y) = state_file w \<and>
         fetch_loop tr dsId cursor pages (w\<lparr>state_file := f\<rparr>)
           = Some (fst y, (snd y)\<lparr>state_file := f\<rparr>)"
    and body: "(case fetch_page tr dsId cursor w of
         (Inl e, w1) \<Rightarrow> Some (Inl e, w1)
       | (Inr (ps, cursor'), w1) \<Rightarrow>
           if truthy cursor' then loop tr dsId cursor' (pages @ ps) w1
           else Some (Inr (pages @ ps), w1)) = Some y"
  let ?q = "query dsId cursor"
  let ?w1 = "w\<lparr>net := snd (tr (net w) ?q), sent := sent w @ [?q]\<rparr>"
  let ?wf = "w\<lparr>state_file := f\<rparr>"
  have same: "?wf\<lparr>net := snd (tr (net ?wf) ?q), sent := sent ?wf @ [?q]\<rparr>
              = ?w1\<lparr>state_file := f\<rparr>"
    by simp
  show "state_file (snd y) = state_file w \<and>
        fetch_loop tr dsId cursor pages ?wf = Some (fst y, (snd y)\<lparr>state_file := f\<rparr>)"
  proof (cases "read_page (fst (tr (net w) ?q))")
    case (Inl e)
    with body have y: "y = (Inl e, ?w1)" by (simp add: fetch_page_eq)
    from Inl have "read_page (fst (tr (net ?wf) ?q)) = Inl e" by simp
    from fetch_loop_abort [where tr = tr and w = ?wf and dsId = dsId and cursor = cursor
        and e = e and pages = pages, OF this]
    have "fetch_loop tr dsId cursor pages ?wf = Some (Inl e, ?w1\<lparr>state_file := f\<rparr>)"
      unfolding same .
    then show ?thesis by (simp add: y)
  next
    case (Inr r)
    obtain ps c where r: "r = (ps, c)" by (cases r)
    with Inr have page: "read_page (fst (tr (net ?wf) ?q)) = Inr (ps, c)" by simp
    show ?thesis
    proof (cases "truthy c")
      case True
      with body Inr r have "loop tr dsId c (pages @ ps) ?w1 = Some y"
        by (simp add: fetch_page_eq)
      from IH [OF this]
      have kept: "state_file (snd y) = state_file ?w1"
        and again: "fetch_loop tr dsId c (pages @ ps) (?w1\<lparr>state_file := f\<rparr>)
                    = Some (fst y, (snd y)\<lparr>state_file := f\<rparr>)"
        by simp_all
      from fetch_loop_next [where tr = tr and w = ?wf and dsId = dsId and cursor = cursor
          and ps = ps and c = c and pages = pages, OF page True]
      have "fetch_loop tr dsId cursor pages ?wf
            = fetch_loop tr dsId c (pages @ ps) (?w1\<lparr>state_file := f\<rparr>)"
        unfolding same .
      with again kept show ?thesis by simp
    next
      case False
      with body Inr r have y: "y = (Inr (pages @ ps), ?w1)" by (simp add: fetch_page_eq)
      from fetch_loop_stop [where tr = tr and w = ?wf and dsId = dsId and cursor = cursor
          and ps = ps and c = c and pages = pages, OF page False]
      have "fetch_loop tr dsId cursor pages ?wf
            = Some (Inr (pages @ ps), ?w1\<lparr>state_file := f\<rparr>)"
        unfolding same .
      then show ?thesis by (simp add: y)
    qed
  qed
qed

lemma fetchAll_file:
  assumes "fetchAllShipyardPages ev tr w = Some (r, w1)"
  shows "state_file w1 = state_file w \<and>
         fetchAllShipyardPages ev tr (w\<lparr>state_file := f\<rparr>) = Some (r, w1\<lparr>state_file := f\<rparr>)"
proof -
  obtain res w0 where res: "resolveDataSourceId ev tr w = (res, w0)"
    by (cases "resolveDataSourceId ev tr w")
  with resolve_file(1) [of ev tr w]
    resolve_file(2) [where ev = ev and tr = tr and w = w and f = f]
  have w0: "state_file w0 = state_file w"
    and resf: "resolveDataSourceId ev tr (w\<lparr>state_file := f\<rparr>) = (res, w0\<lparr>state_file := f\<rparr>)"
    by simp_all
  show ?thesis
  proof (cases res)
    case (Inl e)
    with assms res have "r = Inl e" "w1 = w0" by (simp_all add: fetchAllShipyardPages_def)
    with Inl w0 resf show ?thesis by (simp add: fetchAllShipyardPages_def)
  next
    case (Inr dsId)
    show ?thesis
    proof (cases "toString dsId")
      case (Inl e)
      with assms res Inr have "r = Inl e" "w1 = w0" by (simp_all add: fetchAllShipyardPages_def)
      with Inl Inr w0 resf show ?thesis by (simp add: fetchAllShipyardPages_def)
    next
      case printed: (Inr i)
      with assms res Inr have "fetch_loop tr i JUndef [] w0 = Some (r, w1)"
        by (simp add: fetchAllShipyardPages_def)
      from fetch_loop_file [OF this, of f] Inr printed w0 resf
      show ?thesis by (simp add: fetchAllShipyardPages_def)
    qed
  qed
qed

text \<open>What is read from the file, and what is written to it.\<close>

lemma load_history_cases:
  "load_history Missing = JArr []"
  "load_history (Unparsable txt) = JArr []"
  "load_history (Parsed prev)
   = (if nullish (payload prev ''history'') then JArr [] else payload prev ''history'')"
proof -
  show "load_history Missing = JArr []" "load_history (Unparsable txt) = JArr []"
    by (simp_all add: load_history_def)
  show "load_history (Parsed prev)
   = (if nullish (payload prev ''history'') then JArr [] else payload prev ''history'')"
  proof (cases "nullish prev")
    case True
    then show ?thesis by (simp add: load_history_def get_nullish payload_nullish)
  next
    case False
    then show ?thesis by (simp add: load_history_def get_payload coalesce_def)
  qed
qed

lemma load_history_defined: "load_history f \<noteq> JUndef"
  by (cases f) (auto simp: load_history_cases)

lemma jsonify_writable:
  "writable v \<Longrightarrow> jsonify v = v"
  "writable_elems xs \<Longrightarrow> jsonify_elems xs = xs"
  "writable_props kvs \<Longrightarrow> jsonify_props kvs = kvs"
  by (induction v and xs and kvs rule: jsonify_jsonify_elems_jsonify_props.induct) auto

lemma write_state_json:
  assumes "history st \<noteq> JUndef"
  shows "write_state st
         = Parsed (JObj [(''last_synced'', JStr (last_synced st)),
                         (''queue'', JArr (jsonify_elems (map item_json (queue st)))),
                         (''history'', jsonify (history st))])"
  using assms by (simp add: write_state_def state_json_def)

text \<open>
  C4. When \<^verbatim>\<open>syncState\<close> returns a state, the file holds the JSON of that state and
  nothing of what it held before: the time of the run, the queue and the history. The
  queue is the sorted selection from the tickets just fetched, item for item, and is the
  same whatever the file held before. The history is the one read from the file as it
  was: what its value held under \<^verbatim>\<open>history\<close> where that is there and not
  \<^verbatim>\<open>null\<close>, and the empty list otherwise, as for a missing file and for a file that
  does not parse. A history that JSON can write is written back as it was read.
\<close>

theorem syncState_snapshot:
  "syncState ev lc now tr w = Some (Inr st, w') \<longrightarrow>
     (\<exists>pages w1 all_tickets.
        fetchAllShipyardPages ev tr w = Some (Inr pages, w1) \<and>
        emap (extractTicket ev) pages = Inr all_tickets \<and>
        js_sort (compare_items lc) (map toQueueItem (filter is_active all_tickets))
          = Inr (queue st)) \<and>
     last_synced st = now \<and>
     state_file w'
       = Parsed (JObj [(''last_synced'', JStr now),
                       (''queue'', JArr (jsonify_elems (map item_json (queue st)))),
                       (''history'', jsonify (history st))]) \<and>
     (state_file w = Missing \<longrightarrow> history st = JArr []) \<and>
     (\<forall>txt. state_file w = Unparsable txt \<longrightarrow> history st = JArr []) \<and>
     (\<forall>prev. state_file w = Parsed prev \<longrightarrow>
        history st
          = (if nullish (payload prev ''history'') then JArr [] else payload prev ''history'')) \<and>
     (writable (history st) \<longrightarrow>
        state_file w'
          = Parsed (JObj [(''last_synced'', JStr now),
                          (''queue'', JArr (jsonify_elems (map item_json (queue st)))),
                          (''history'', history st)])) \<and>
     (\<forall>f. \<exists>st2 w2.
        syncState ev lc now tr (w\<lparr>state_file := f\<rparr>) = Some (Inr st2, w2) \<and>
        queue st2 = queue st \<and>
        state_file w2
          = Parsed (JObj [(''last_synced'', JStr now),
                          (''queue'', JArr (jsonify_elems (map item_json (queue st)))),
                          (''history'', jsonify (history st2))]))"
proof (intro impI conjI allI)
  assume run: "syncState ev lc now tr w = Some (Inr st, w')"
  from syncState_Some [OF run] obtain pages w1 all_tickets q
    where fetched: "fetchAllShipyardPages ev tr w = Some (Inr pages, w1)"
      and extracted: "emap (extractTicket ev) pages = Inr all_tickets"
      and sorted: "js_sort (compare_items lc) (map toQueueItem (filter is_active all_tickets))
                   = Inr q"
      and st: "st = \<lparr> last_synced = now, queue = q, history = load_history (state_file w1) \<rparr>"
      and w': "w' = w1\<lparr>state_file := write_state st\<rparr>"
    by auto
  from fetchAll_file [OF fetched] have kept: "state_file w1 = state_file w"
    "\<And>f. fetchAllShipyardPages ev tr (w\<lparr>state_file := f\<rparr>)
           = Some (Inr pages, w1\<lparr>state_file := f\<rparr>)"
    by simp_all
  have h: "history st = load_history (state_file w)" using st kept(1) by simp
  then have defined: "history st \<noteq> JUndef" by (simp add: load_history_defined)
  show "\<exists>pages w1 all_tickets.
         fetchAllShipyardPages ev tr w = Some (Inr pages, w1) \<and>
         emap (extractTicket ev) pages = Inr all_tickets \<and>
         js_sort (compare_items lc) (map toQueueItem (filter is_active all_tickets))
           = Inr (queue st)"
    using fetched extracted sorted st
    by (intro exI [of _ pages] exI [of _ w1] exI [of _ all_tickets]) simp
  show "last_synced st = now" using st by simp
  show written: "state_file w'
       = Parsed (JObj [(''last_synced'', JStr now),
                       (''queue'', JArr (jsonify_elems (map item_json (queue st)))),
                       (''history'', jsonify (history st))])"
    using w' write_state_json [OF defined] st by simp
  {
    assume "state_file w = Missing"
    with h show "history st = JArr []" by (simp add: load_history_cases)
  }
  {
    fix content assume "state_file w = Unparsable content"
    with h show "history st = JArr []" by (simp add: load_history_cases)
  }
  {
    fix prev assume "state_file w = Parsed prev"
    with h show "history st
          = (if nullish (payload prev ''history'') then JArr [] else payload prev ''history'')"
      by (simp add: load_history_cases)
  }
  {
    assume "writable (history st)"
    from jsonify_writable(1) [OF this] written
    show "state_file w'
          = Parsed (JObj [(''last_synced'', JStr now),
                          (''queue'', JArr (jsonify_elems (map item_json (queue st)))),
                          (''history'', history st)])"
      by simp
  }
  fix f
  let ?st2 = "\<lparr> last_synced = now, queue = q, history = load_history f \<rparr>"
  have "syncState ev lc now tr (w\<lparr>state_file := f\<rparr>)
        = Some (Inr ?st2, (w1\<lparr>state_file := f\<rparr>)\<lparr>state_file := write_state ?st2\<rparr>)"
    unfolding syncState_def kept(2) [of f]
    by (simp add: extracted sorted Let_def)
  moreover have "write_state ?st2
        = Parsed (JObj [(''last_synced'', JStr now),
                        (''queue'', JArr (jsonify_elems (map item_json (queue st)))),
                        (''history'', jsonify (history ?st2))])"
    using write_state_json [of ?st2] st by (simp add: load_history_defined)
  ultimately show "\<exists>st2 w2.
        syncState ev lc now tr (w\<lparr>state_file := f\<rparr>) = Some (Inr st2, w2) \<and>
        queue st2 = queue st \<and>
        state_file w2
          = Parsed (JObj [(''last_synced'', JStr now),
                          (''queue'', JArr (jsonify_elems (map item_json (queue st)))),
                          (''history'', jsonify (history st2))])"
    using st
    by (intro exI [of _ ?st2]
          exI [of _ "(w1\<lparr>state_file := f\<rparr>)\<lparr>state_file := write_state ?st2\<rparr>"]) simp
qed

text \<open>The sync on the small store, over a file left by an earlier run.\<close>

lemma demo_fetch_old:
  "fetchAllShipyardPages demo_env demo_remote (demo_world\<lparr>state_file := old_snapshot\<rparr>)
   = Some (Inr [page1, page2, page3, page4], demo_fetched\<lparr>state_file := old_snapshot\<rparr>)"
  using fetchAll_file [OF demo_fetch, of old_snapshot] by simp

lemma old_history: "load_history old_snapshot = JArr [history_json demo_item]"
  by (simp add: load_history_def old_snapshot_def coalesce_def)

lemma demo_sync_old:
  "syncState demo_env code_unit_order ''2026-11-03T10:00:00.000Z'' demo_remote
     (demo_world\<lparr>state_file := old_snapshot\<rparr>)
   = Some (Inr (demo_state\<lparr>history := JArr [history_json demo_item]\<rparr>),
           demo_fetched\<lparr>state_file :=
             write_state (demo_state\<lparr>history := JArr [history_json demo_item]\<rparr>)\<rparr>)"
  by (simp add: syncState_def demo_fetch_old demo_queue demo_state_def demo_fetched_def
      old_history Let_def del: emap.simps)

lemma demo_queue_json:
  "JArr (jsonify_elems (map item_json (queue demo_state))) = fresh_queue_json"
  by (simp add: demo_state_def toQueueItem_def item_json_def ticket1_def ticket2_def ticket3_def
      demo_ticket_def fresh_queue_json_def)

lemma sparse_extracted: "extractTicket demo_env sparse_page = Inr sparse_ticket"
  by (simp add: extractTicket_def sparse_page_def sparse_ticket_def demo_shapes extract_defs
      demo_env_def demo_ticket_def Let_def)

lemma sparse_queue:
  "ebind (emap (extractTicket demo_env) [sparse_page]) (\<lambda>all_tickets.
     js_sort (compare_items code_unit_order) (map toQueueItem (filter is_active all_tickets)))
   = Inr [toQueueItem sparse_ticket]"
  by (simp add: sparse_extracted is_active_def sparse_ticket_def demo_ticket_def TARGET_APP_def
      excluded_def)

lemma sparse_sync:
  "syncState demo_env code_unit_order ''2026-11-03T10:00:00.000Z'' (single_remote [sparse_page])
     demo_world
   = Some (Inr sparse_state, single_fetched\<lparr>state_file := write_state sparse_state\<rparr>)"
  by (simp add: syncState_def single_fetch sparse_queue sparse_state_def single_fetched_def
      load_history_def Let_def del: emap.simps)

theorem syncState_snapshot_witness:
  "syncState demo_env code_unit_order ''2026-11-03T10:00:00.000Z'' demo_remote
     (demo_world\<lparr>state_file := old_snapshot\<rparr>)
     = Some (Inr (demo_state\<lparr>history := JArr [history_json demo_item]\<rparr>),
             demo_fetched\<lparr>state_file :=
               write_state (demo_state\<lparr>history := JArr [history_json demo_item]\<rparr>)\<rparr>) \<and>
   old_snapshot
     = Parsed (JObj [(''last_synced'', JStr ''2026-11-02T09:00:00.000Z''),
                     (''queue'', JArr [stale_item]),
                     (''history'', JArr [history_json demo_item])]) \<and>
   write_state (demo_state\<lparr>history := JArr [history_json demo_item]\<rparr>)
     = Parsed (JObj [(''last_synced'', JStr ''2026-11-03T10:00:00.000Z''),
                     (''queue'', fresh_queue_json),
                     (''history'', JArr [history_json demo_item])]) \<and>
   syncState demo_env code_unit_order ''2026-11-03T10:00:00.000Z'' demo_remote demo_world
     = Some (Inr demo_state, demo_fetched\<lparr>state_file := write_state demo_state\<rparr>) \<and>
   state_file demo_world = Missing \<and>
   write_state demo_state
     = Parsed (JObj [(''last_synced'', JStr ''2026-11-03T10:00:00.000Z''),
                     (''queue'', fresh_queue_json),
                     (''history'', JArr [])]) \<and>
   syncState demo_env code_unit_order ''2026-11-03T10:00:00.000Z'' (single_remote [sparse_page])
     demo_world
     = Some (Inr sparse_state, single_fetched\<lparr>state_file := write_state sparse_state\<rparr>) \<and>
   write_state sparse_state
     = Parsed (JObj [(''last_synced'', JStr ''2026-11-03T10:00:00.000Z''),
                     (''queue'',
                      JArr [JObj [(''title'', JStr ''No id''), (''area'', JNull),
                                  (''status'', JStr ''Open''), (''priority'', JNull),
                                  (''blocked_by'', JArr [JNull]), (''blocks'', JArr []),
                                  (''branch'', JNull)]]),
                     (''history'', JArr [])])"
proof -
  let ?st = "demo_state\<lparr>history := JArr [history_json demo_item]\<rparr>"
  note over_old = syncState_snapshot [of demo_env code_unit_order "''2026-11-03T10:00:00.000Z''"
      demo_remote "demo_world\<lparr>state_file := old_snapshot\<rparr>" ?st
      "demo_fetched\<lparr>state_file := write_state ?st\<rparr>", rule_format, OF demo_sync_old]
  have stable: "writable (history ?st)"
    by (simp add: history_json_def demo_item_def)
  from over_old [THEN conjunct2, THEN conjunct2, THEN conjunct2, THEN conjunct2,
      THEN conjunct2, THEN conjunct2, THEN conjunct1, rule_format, OF stable] demo_queue_json
  have 1: "write_state ?st
     = Parsed (JObj [(''last_synced'', JStr ''2026-11-03T10:00:00.000Z''),
                     (''queue'', fresh_queue_json),
                     (''history'', JArr [history_json demo_item])])"
    by (simp add: demo_state_def)
  note over_none = syncState_snapshot [of demo_env code_unit_order
      "''2026-11-03T10:00:00.000Z''" demo_remote demo_world demo_state
      "demo_fetched\<lparr>state_file := write_state demo_state\<rparr>", rule_format, OF demo_sync]
  from over_none [THEN conjunct2, THEN conjunct2, THEN conjunct1] demo_queue_json
  have 2: "write_state demo_state
     = Parsed (JObj [(''last_synced'', JStr ''2026-11-03T10:00:00.000Z''),
                     (''queue'', fresh_queue_json),
                     (''history'', JArr [])])"
    by (simp add: demo_state_def)
  note sparse = syncState_snapshot [of demo_env code_unit_order
      "''2026-11-03T10:00:00.000Z''" "single_remote [sparse_page]" demo_world sparse_state
      "single_fetched\<lparr>state_file := write_state sparse_state\<rparr>", rule_format, OF sparse_sync]
  from sparse [THEN conjunct2, THEN conjunct2, THEN conjunct1]
  have 3: "write_state sparse_state
     = Parsed (JObj [(''last_synced'', JStr ''2026-11-03T10:00:00.000Z''),
                     (''queue'',
                      JArr [JObj [(''title'', JStr ''No id''), (''area'', JNull),
                                  (''status'', JStr ''Open''), (''priority'', JNull),
                                  (''blocked_by'', JArr [JNull]), (''blocks'', JArr []),
                                  (''branch'', JNull)]]),
                     (''history'', JArr [])])"
    by (simp add: sparse_state_def sparse_ticket_def toQueueItem_def item_json_def
        demo_ticket_def)
  have 4: "state_file demo_world = Missing" by (simp add: demo_world_def)
  show ?thesis
    by (intro conjI) (rule demo_sync_old demo_sync sparse_sync 1 2 3 4 old_snapshot_def)+
qed

end
